(* ===== verification/Prelude.thy ===== *)
theory Prelude
  imports Main "HOL-Library.Sublist" "HOL-Library.Multiset"
begin

text \<open>
  Shared vocabulary of the development: the names of the model's types, the
  collections of rewrite rules the component theories contribute to, and generic
  facts about folds over lists.  Every cleaner of \<^verbatim>\<open>src/cleanup.py\<close> is a
  Python \<^verbatim>\<open>for\<close> loop over a list of directory entries that threads the disk,
  the log and a byte counter; in the model such a loop is \<^const>\<open>fold\<close> over the
  entry list, and the lemmas below are the induction principles the components
  use for those loops.
\<close>

type_synonym name = string
type_synonym path = "name list"

named_theorems disk_simps "how the file-system operations change the disk"
named_theorems sweep_simps "how one loop iteration of a cleaner changes its state"

text \<open>Python's truth value of an optional string (\<^verbatim>\<open>None\<close> and \<^verbatim>\<open>''\<close> are false).\<close>

definition py_truthy :: "string option \<Rightarrow> bool" where
  "py_truthy v = (case v of None \<Rightarrow> False | Some s \<Rightarrow> s \<noteq> [])"

lemma py_truthy_simps [simp]:
  "py_truthy None = False"
  "py_truthy (Some s) = (s \<noteq> [])"
  by (simp_all add: py_truthy_def)

text \<open>An invariant kept by every iteration is kept by the loop.\<close>

lemma fold_invariant:
  assumes "P s"
    and "\<And>x s. x \<in> set xs \<Longrightarrow> P s \<Longrightarrow> P (f x s)"
  shows "P (fold f xs s)"
  using assms by (induction xs arbitrary: s) auto

text \<open>
  A reflexive and transitive relation between a state and its successor holds
  between the start and the end of the loop (used for "the loop only removes").
\<close>

lemma fold_transitive:
  assumes "\<And>s. R s s"
    and "\<And>s t u. R s t \<Longrightarrow> R t u \<Longrightarrow> R s u"
    and "\<And>x s. x \<in> set xs \<Longrightarrow> R s (f x s)"
  shows "R s (fold f xs s)"
  using assms(3)
proof (induction xs arbitrary: s)
  case Nil
  then show ?case by (simp add: assms(1))
next
  case (Cons x xs)
  have "R s (f x s)" by (rule Cons.prems) simp
  moreover have "R (f x s) (fold f xs (f x s))"
    by (rule Cons.IH) (rule Cons.prems, simp)
  ultimately show ?case using assms(2) by simp
qed

text \<open>A quantity that no iteration decreases does not decrease over the loop.\<close>

lemma fold_mono_measure:
  fixes g :: "'s \<Rightarrow> 'a::preorder"
  assumes "\<And>x s. x \<in> set xs \<Longrightarrow> g s \<le> g (f x s)"
  shows "g s \<le> g (fold f xs s)"
  using fold_transitive [where R = "\<lambda>s t. g s \<le> g t"] assms order_trans by blast

end
