(* ===== verification/Filesystem.thy ===== *)
theory Filesystem
  imports Prelude
begin

text \<open>
  The disk the cleaners work on.  \<^verbatim>\<open>src/cleanup.py\<close> reaches the file system
  through \<^verbatim>\<open>os.path.exists\<close>, \<^verbatim>\<open>pathlib.Path.glob\<close>/\<^verbatim>\<open>rglob\<close>,
  \<^verbatim>\<open>is_file\<close>/\<^verbatim>\<open>is_dir\<close>/\<^verbatim>\<open>stat\<close>, \<^verbatim>\<open>unlink\<close>, \<^verbatim>\<open>shutil.rmtree\<close>
  and \<^verbatim>\<open>rd /s /q\<close>.  The disk is a tree (as in the Unix model of the Isabelle
  distribution): a directory holds its entries as an association list from names
  to nodes, in the order \<^verbatim>\<open>os.scandir\<close> lists them.  A file carries the
  attributes the code reads (\<^verbatim>\<open>st_size\<close>, \<^verbatim>\<open>st_mtime\<close>) and two flags for the
  environment's failures: \<open>stat_ok\<close> is false for an entry whose \<^verbatim>\<open>stat\<close>
  fails although it is listed (a dangling link, a file that vanishes between
  listing and \<^verbatim>\<open>getsize\<close>), \<open>unlink_ok\<close> is false for a file the OS refuses
  to delete (locked by another process, access denied).
\<close>

record fattr =
  st_size :: nat
  st_mtime :: int
  stat_ok :: bool
  unlink_ok :: bool

datatype node =
    File fattr
  | Dir int "(name \<times> node) list"

type_synonym entries = "(name \<times> node) list"

fun node_mtime :: "node \<Rightarrow> int" where
  "node_mtime (File a) = st_mtime a"
| "node_mtime (Dir m cs) = m"

fun is_dir_node :: "node \<Rightarrow> bool" where
  "is_dir_node (File a) = False"
| "is_dir_node (Dir m cs) = True"

text \<open>
  \<^verbatim>\<open>Path.is_file()\<close> follows links, so it is false for a listed entry whose
  \<^verbatim>\<open>stat\<close> fails.
\<close>

fun is_file_node :: "node \<Rightarrow> bool" where
  "is_file_node (File a) = stat_ok a"
| "is_file_node (Dir m cs) = False"

subsection \<open>Resolving a path\<close>

fun lookup :: "node \<Rightarrow> path \<Rightarrow> node option" where
  "lookup n [] = Some n"
| "lookup (File a) (x # xs) = None"
| "lookup (Dir m cs) (x # xs) = (case map_of cs x of None \<Rightarrow> None | Some c \<Rightarrow> lookup c xs)"

text \<open>\<^verbatim>\<open>os.path.exists(p)\<close>.\<close>

definition exists :: "node \<Rightarrow> path \<Rightarrow> bool" where
  "exists fs p \<longleftrightarrow> lookup fs p \<noteq> None"

text \<open>
  \<^verbatim>\<open>pathlib.Path(p).glob("*")\<close>: the names of the entries of \<open>p\<close> in listing
  order, nothing when \<open>p\<close> is not a directory (pathlib checks \<^verbatim>\<open>is_dir\<close>
  before it lists).
\<close>

definition glob_star :: "node \<Rightarrow> path \<Rightarrow> name list" where
  "glob_star fs p = (case lookup fs p of Some (Dir m cs) \<Rightarrow> map fst cs | _ \<Rightarrow> [])"

subsection \<open>Changing the entry at a path\<close>

text \<open>
  \<open>modify_entry x f cs\<close> applies \<open>f\<close> to the entry named \<open>x\<close> (the first one,
  the one \<^const>\<open>map_of\<close> finds); \<open>f\<close> returning \<^const>\<open>None\<close> removes it.
  \<open>update_at p f\<close> does so at the end of path \<open>p\<close> and is the only way the
  model changes the disk (the root itself can be replaced but not removed).
\<close>

fun modify_entry :: "name \<Rightarrow> (node \<Rightarrow> node option) \<Rightarrow> entries \<Rightarrow> entries" where
  "modify_entry x f [] = []"
| "modify_entry x f ((n, c) # cs) =
     (if n = x then (case f c of None \<Rightarrow> cs | Some c' \<Rightarrow> (n, c') # cs)
      else (n, c) # modify_entry x f cs)"

fun update_at :: "path \<Rightarrow> (node \<Rightarrow> node option) \<Rightarrow> node \<Rightarrow> node" where
  "update_at [] f n = (case f n of None \<Rightarrow> n | Some n' \<Rightarrow> n')"
| "update_at [x] f (Dir m cs) = Dir m (modify_entry x f cs)"
| "update_at (x # y # ys) f (Dir m cs) =
     Dir m (modify_entry x (\<lambda>c. Some (update_at (y # ys) f c)) cs)"
| "update_at (x # xs) f (File a) = File a"

text \<open>\<^verbatim>\<open>Path.unlink()\<close> of an entry that may be removed.\<close>

definition remove_at :: "path \<Rightarrow> node \<Rightarrow> node" where
  "remove_at p fs = update_at p (\<lambda>_. None) fs"

subsection \<open>Recursive removal\<close>

text \<open>
  \<^verbatim>\<open>shutil.rmtree(item, ignore_errors=True)\<close> (and, in the recycle-bin cleaner,
  \<^verbatim>\<open>rd /s /q\<close>): every file is unlinked, a file that cannot be unlinked stays,
  every subdirectory is removed recursively, and a directory is removed once it
  is empty; no error is reported.  The result is what remains, \<^const>\<open>None\<close> when
  nothing does.
\<close>

fun rmtree :: "node \<Rightarrow> node option"
and rmtree_entries :: "entries \<Rightarrow> entries" where
  "rmtree (File a) = (if unlink_ok a then None else Some (File a))"
| "rmtree (Dir m cs) = (let cs' = rmtree_entries cs in if cs' = [] then None else Some (Dir m cs'))"
| "rmtree_entries [] = []"
| "rmtree_entries ((n, c) # cs) =
     (case rmtree c of None \<Rightarrow> rmtree_entries cs | Some c' \<Rightarrow> (n, c') # rmtree_entries cs)"

definition rmtree_at :: "path \<Rightarrow> node \<Rightarrow> node" where
  "rmtree_at p fs = update_at p rmtree fs"

subsection \<open>Well-formed disks\<close>

text \<open>A directory never holds two entries with the same name.\<close>

fun wf_node :: "node \<Rightarrow> bool"
and wf_entries :: "entries \<Rightarrow> bool" where
  "wf_node (File a) = True"
| "wf_node (Dir m cs) = (distinct (map fst cs) \<and> wf_entries cs)"
| "wf_entries [] = True"
| "wf_entries ((n, c) # cs) = (wf_node c \<and> wf_entries cs)"


subsection \<open>Measures of a tree\<close>

text \<open>
  The height bounds the depth of the recursive glob of the log cleaner (its
  termination measure); the files of a node, in tree order, describe what
  \<^const>\<open>rmtree\<close> leaves behind.
\<close>
fun height :: "node \<Rightarrow> nat"
and height_entries :: "entries \<Rightarrow> nat" where
  "height (File a) = 0"
| "height (Dir m cs) = Suc (height_entries cs)"
| "height_entries [] = 0"
| "height_entries ((n, c) # cs) = max (height c) (height_entries cs)"


fun node_files :: "node \<Rightarrow> fattr list"
and entries_files :: "entries \<Rightarrow> fattr list" where
  "node_files (File a) = [a]"
| "node_files (Dir m cs) = entries_files cs"
| "entries_files [] = []"
| "entries_files ((n, c) # cs) = node_files c @ entries_files cs"

abbreviation locked :: "fattr \<Rightarrow> bool" where
  "locked a \<equiv> \<not> unlink_ok a"

subsection \<open>Entry lists\<close>

lemma map_of_modify_entry_other [simp]:
  "y \<noteq> x \<Longrightarrow> map_of (modify_entry x f cs) y = map_of cs y"
  by (induction x f cs rule: modify_entry.induct) (auto split: option.splits)

lemma map_of_modify_entry_same:
  "map_of cs x = Some c \<Longrightarrow> f c = Some c' \<Longrightarrow> map_of (modify_entry x f cs) x = Some c'"
  by (induction x f cs rule: modify_entry.induct) (auto split: if_splits)

lemma map_of_modify_entry_removed:
  "distinct (map fst cs) \<Longrightarrow> map_of cs x = Some c \<Longrightarrow> f c = None \<Longrightarrow>
   map_of (modify_entry x f cs) x = None"
  by (induction x f cs rule: modify_entry.induct)
     (auto split: if_splits simp: map_of_eq_None_iff)

lemma modify_entry_absent:
  "map_of cs x = None \<Longrightarrow> modify_entry x f cs = cs"
  by (induction x f cs rule: modify_entry.induct) (auto split: if_splits)

lemma map_of_modify_entry_Some:
  "map_of (modify_entry x (\<lambda>c. Some (g c)) cs) x = map_option g (map_of cs x)"
  by (induction cs) auto

lemma modify_entry_id:
  "map_of cs x = Some c \<Longrightarrow> f c = Some c \<Longrightarrow> modify_entry x f cs = cs"
  by (induction x f cs rule: modify_entry.induct) (auto split: if_splits)

lemma names_modify_entry:
  "fst ` set (modify_entry x f cs) \<subseteq> fst ` set cs"
  by (induction x f cs rule: modify_entry.induct) (auto split: option.splits)

lemma distinct_modify_entry:
  "distinct (map fst cs) \<Longrightarrow> distinct (map fst (modify_entry x f cs))"
proof (induction x f cs rule: modify_entry.induct)
  case (2 x f n c cs)
  then show ?case using names_modify_entry [of x f cs] by (auto split: option.splits)
qed simp

lemma wf_map_of:
  "wf_entries cs \<Longrightarrow> map_of cs x = Some c \<Longrightarrow> wf_node c"
  by (induction cs) (auto split: if_splits)

lemma wf_lookup:
  "wf_node d \<Longrightarrow> lookup d p = Some n \<Longrightarrow> wf_node n"
  by (induction d p rule: lookup.induct) (auto split: option.splits dest: wf_map_of)

lemma wf_modify_entry:
  assumes "\<And>c c'. f c = Some c' \<Longrightarrow> wf_node c \<Longrightarrow> wf_node c'"
  shows "wf_entries cs \<Longrightarrow> wf_entries (modify_entry x f cs)"
  using assms by (induction x f cs rule: modify_entry.induct) (auto split: option.splits)

lemma height_map_of:
  "map_of cs x = Some c \<Longrightarrow> height c \<le> height_entries cs"
  by (induction cs) (auto split: if_splits)

lemma height_modify_entry:
  assumes "\<And>c c'. f c = Some c' \<Longrightarrow> height c' \<le> height c"
  shows "height_entries (modify_entry x f cs) \<le> height_entries cs"
  using assms
  by (induction x f cs rule: modify_entry.induct) (fastforce split: option.splits)+

subsection \<open>Paths\<close>

lemma update_at_Cons_Dir:
  "xs \<noteq> [] \<Longrightarrow> update_at (x # xs) f (Dir m cs) = Dir m (modify_entry x (\<lambda>c. Some (update_at xs f c)) cs)"
  by (cases xs) auto

lemma lookup_append:
  "lookup fs (p @ q) = (case lookup fs p of None \<Rightarrow> None | Some n \<Rightarrow> lookup n q)"
  by (induction fs p rule: lookup.induct) (auto split: option.splits)

lemma lookup_height:
  "lookup fs q = Some n \<Longrightarrow> length q + height n \<le> height fs"
proof (induction fs q arbitrary: n rule: lookup.induct)
  case (3 m cs x xs)
  then obtain c where c: "map_of cs x = Some c" and "lookup c xs = Some n"
    by (auto split: option.splits)
  with "3.IH" have "length xs + height n \<le> height c" by blast
  with height_map_of [OF c] show ?case by simp
qed auto

lemma update_at_absent:
  "lookup fs p = None \<Longrightarrow> update_at p f fs = fs"
  by (induction p f fs rule: update_at.induct)
     (auto split: option.splits simp: modify_entry_absent modify_entry_id)

lemma lookup_update_at_parallel:
  "y \<noteq> z \<Longrightarrow> lookup (update_at (xs @ z # zs) f fs) (xs @ y # ys) = lookup fs (xs @ y # ys)"
proof (induction xs arbitrary: fs)
  case Nil
  then show ?case by (cases fs; cases zs) auto
next
  case (Cons x xs)
  show ?case
  proof (cases fs)
    case (Dir m cs)
    then show ?thesis using Cons
      by (auto simp: map_of_modify_entry_Some update_at_Cons_Dir split: option.splits)
  qed simp
qed

lemma lookup_update_at_above:
  "r \<noteq> [] \<Longrightarrow> lookup (update_at (q @ r) f fs) q = map_option (update_at r f) (lookup fs q)"
proof (induction q arbitrary: fs)
  case Nil
  then show ?case by simp
next
  case (Cons x q)
  show ?case
  proof (cases fs)
    case (Dir m cs)
    then show ?thesis using Cons
      by (cases "q @ r") (auto simp: map_of_modify_entry_Some split: option.splits)
  qed simp
qed

lemma lookup_update_at_same:
  "p \<noteq> [] \<Longrightarrow> lookup fs p = Some n \<Longrightarrow> f n = Some n' \<Longrightarrow> lookup (update_at p f fs) p = Some n'"
proof (induction p f fs rule: update_at.induct)
  case (2 x f m cs)
  then show ?case by (auto split: option.splits simp: map_of_modify_entry_same)
next
  case (3 x y ys f m cs)
  then show ?case by (auto split: option.splits simp: map_of_modify_entry_Some)
qed auto

lemma lookup_update_at_removed:
  "wf_node fs \<Longrightarrow> p \<noteq> [] \<Longrightarrow> lookup fs p = Some n \<Longrightarrow> f n = None \<Longrightarrow> lookup (update_at p f fs) p = None"
proof (induction p f fs rule: update_at.induct)
  case (2 x f m cs)
  then show ?case by (auto split: option.splits simp: map_of_modify_entry_removed)
next
  case (3 x y ys f m cs)
  then obtain c where c: "map_of cs x = Some c" and n: "lookup c (y # ys) = Some n"
    by (auto split: option.splits)
  with "3.prems"(1) have "wf_node c" by (auto intro: wf_map_of)
  with "3.IH" n "3.prems"(4) have "lookup (update_at (y # ys) f c) (y # ys) = None" by blast
  with c show ?case by (simp add: map_of_modify_entry_Some)
qed auto

lemma wf_update_at:
  "(\<And>c c'. f c = Some c' \<Longrightarrow> wf_node c \<Longrightarrow> wf_node c') \<Longrightarrow> wf_node fs \<Longrightarrow> wf_node (update_at p f fs)"
proof (induction p f fs rule: update_at.induct)
  case (2 x f m cs)
  then show ?case using wf_modify_entry [of f cs x] by (simp add: distinct_modify_entry)
next
  case (3 x y ys f m cs)
  then show ?case
    using wf_modify_entry [of "\<lambda>c. Some (update_at (y # ys) f c)" cs x]
    by (simp add: distinct_modify_entry)
qed (auto split: option.splits)

lemma height_update_at:
  assumes "\<And>c c'. f c = Some c' \<Longrightarrow> height c' \<le> height c"
  shows "height (update_at p f fs) \<le> height fs"
  using assms
proof (induction p f fs rule: update_at.induct)
  case (2 x f m cs)
  then show ?case using height_modify_entry [of f x cs] by simp
next
  case (3 x y ys f m cs)
  then show ?case using height_modify_entry [of "\<lambda>c. Some (update_at (y # ys) f c)" x cs] by simp
qed (auto split: option.splits)

subsection \<open>What recursive removal leaves\<close>

lemma rmtree_files:
  "(case rmtree n of None \<Rightarrow> [] | Some n' \<Rightarrow> node_files n') = filter locked (node_files n)
   \<and> (rmtree n = None \<longleftrightarrow> filter locked (node_files n) = [])"
  "entries_files (rmtree_entries cs) = filter locked (entries_files cs)
   \<and> (rmtree_entries cs = [] \<longleftrightarrow> filter locked (entries_files cs) = [])"
proof (induction n and cs rule: rmtree_rmtree_entries.induct)
  case (4 n c cs)
  then show ?case by (cases "rmtree c") auto
qed (auto simp: Let_def)

lemma rmtree_names:
  "fst ` set (rmtree_entries cs) \<subseteq> fst ` set cs"
  by (induction cs) (force split: option.splits)+

lemma rmtree_wf:
  "rmtree n = Some n' \<Longrightarrow> wf_node n \<Longrightarrow> wf_node n'"
  "distinct (map fst cs) \<and> wf_entries cs \<Longrightarrow> distinct (map fst (rmtree_entries cs)) \<and> wf_entries (rmtree_entries cs)"
proof (induction n and cs arbitrary: n' and rule: rmtree_rmtree_entries.induct)
  case (4 n c cs)
  then show ?case using rmtree_names [of cs] by (cases "rmtree c") auto
qed (auto simp: Let_def split: if_splits)

lemma rmtree_height:
  "rmtree n = Some n' \<Longrightarrow> height n' \<le> height n"
  "height_entries (rmtree_entries cs) \<le> height_entries cs"
proof (induction n and cs arbitrary: n' and rule: rmtree_rmtree_entries.induct)
  case (4 n c cs)
  then show ?case by (cases "rmtree c") fastforce+
qed (auto simp: Let_def split: if_splits)

lemma wf_rmtree_at: "wf_node fs \<Longrightarrow> wf_node (rmtree_at p fs)"
  unfolding rmtree_at_def by (rule wf_update_at) (rule rmtree_wf)

lemma wf_remove_at: "wf_node fs \<Longrightarrow> wf_node (remove_at p fs)"
  unfolding remove_at_def by (rule wf_update_at) simp

lemma height_rmtree_at: "height (rmtree_at p fs) \<le> height fs"
  unfolding rmtree_at_def by (rule height_update_at) (rule rmtree_height)

lemma height_remove_at: "height (remove_at p fs) \<le> height fs"
  unfolding remove_at_def by (rule height_update_at) simp

subsection \<open>Composing changes\<close>


lemma modify_entry_append_notin:
  "x \<notin> fst ` set ds \<Longrightarrow> modify_entry x f (ds @ cs) = ds @ modify_entry x f cs"
  by (induction ds) auto

lemma update_at_append:
  "q \<noteq> [] \<Longrightarrow> update_at (p @ q) f d = update_at p (\<lambda>x. Some (update_at q f x)) d"
proof (induction p arbitrary: d)
  case Nil
  then show ?case by simp
next
  case (Cons x p)
  show ?case
  proof (cases d)
    case (Dir m cs)
    show ?thesis
    proof (cases "p = []")
      case True
      then show ?thesis using Dir Cons.prems by (cases q) (simp_all add: update_at_Cons_Dir)
    next
      case False
      then show ?thesis using Dir Cons by (simp add: update_at_Cons_Dir)
    qed
  qed (insert Cons.prems, cases "p @ q", simp_all)
qed

lemma modify_entry_cong_map_of:
  "map_of cs x = Some c \<Longrightarrow> modify_entry x f cs = modify_entry x (\<lambda>_. f c) cs"
  by (induction x f cs rule: modify_entry.induct) auto

lemma modify_entry_comp:
  "modify_entry x f (modify_entry x (\<lambda>c. Some (g c)) cs) = modify_entry x (\<lambda>c. f (g c)) cs"
  by (induction cs) (auto split: option.splits)

lemma modify_entry_Some_id: "modify_entry x Some cs = cs"
  by (induction cs) auto

lemma update_at_cong_lookup:
  "lookup d p = Some v \<Longrightarrow> update_at p f d = update_at p (\<lambda>_. f v) d"
proof (induction p f d rule: update_at.induct)
  case (2 x f m cs)
  then show ?case by (auto split: option.splits intro: modify_entry_cong_map_of)
next
  case (3 x y ys f m cs)
  then obtain c where c: "map_of cs x = Some c" and "lookup c (y # ys) = Some v"
    by (auto split: option.splits)
  with "3.IH" have "update_at (y # ys) f c = update_at (y # ys) (\<lambda>_. f v) c" by blast
  with c show ?case
    using modify_entry_cong_map_of [OF c, of "\<lambda>c. Some (update_at (y # ys) f c)"]
      modify_entry_cong_map_of [OF c, of "\<lambda>c. Some (update_at (y # ys) (\<lambda>_. f v) c)"]
    by simp
qed auto

lemma update_at_Some_id: "update_at p Some d = d"
  by (induction p "Some :: node \<Rightarrow> node option" d rule: update_at.induct)
     (simp_all add: modify_entry_Some_id)

lemma update_at_lookup_id: "lookup d p = Some v \<Longrightarrow> update_at p (\<lambda>_. Some v) d = d"
  using update_at_cong_lookup [of d p v Some] by (simp add: update_at_Some_id)

lemma update_at_comp:
  "update_at p (\<lambda>x. Some (f x)) (update_at p (\<lambda>x. Some (g x)) d) = update_at p (\<lambda>x. Some (f (g x))) d"
proof (induction p arbitrary: d)
  case Nil
  then show ?case by simp
next
  case (Cons x p)
  show ?case
  proof (cases d)
    case (Dir m cs)
    then show ?thesis
    proof (cases "p = []")
      case True
      with Dir show ?thesis by (simp add: modify_entry_comp)
    next
      case False
      with Dir Cons.IH show ?thesis by (simp add: update_at_Cons_Dir modify_entry_comp)
    qed
  qed (simp add: update_at.simps(4))
qed

end
