(* ===== verification/Effects.thy ===== *)
theory Effects
  imports Filesystem
begin

text \<open>
  What a run of \<^verbatim>\<open>src/cleanup.py\<close> changes besides the disk: the records it
  writes to \<^verbatim>\<open>logs/cleanup_log.txt\<close> through the module logger, and the
  exceptions it raises.  The log is an append-only list of structured events, one
  constructor per \<^verbatim>\<open>logger.info/warning/error\<close> call of the source (the Russian
  message texts are not reproduced; the event carries the values the f-string
  interpolates).  A cleaner is a function of the \<open>world\<close> (disk and log), and
  its loop state extends the world with the local counter \<^verbatim>\<open>deleted_size\<close>.
\<close>

text \<open>Exceptions the modelled code can raise, with the values \<^verbatim>\<open>str(e)\<close> shows.\<close>

datatype py_error =
    TypeError string
  | FileNotFoundError path
  | PermissionError path
  | FileExistsError path

datatype level = INFO | WARNING | ERROR

datatype target_kind = YandexCache | SystemFolder "path option" | OldLogs path int | RecycleBin

datatype log_event =
    ScriptStart
  | CacheStart path
  | FolderStart "path option"
  | LogsStart path
  | RecycleStart
  | FolderNotFound path
  | LogsNotFound path
  | RecycleNotFound
  | WouldDelete path
  | RecycleWouldClear
  | Deleted path
  | DeleteFailed path py_error
  | CacheCleaned int
  | FolderCleaned path int
  | LogsCleaned int
  | RecycleCleared int
  | TargetFailed target_kind py_error
  | TelegramSent
  | TelegramFailed string
  | TelegramMissing
  | Finished int

fun level_of :: "log_event \<Rightarrow> level" where
  "level_of (FolderNotFound p) = WARNING"
| "level_of (LogsNotFound p) = WARNING"
| "level_of RecycleNotFound = WARNING"
| "level_of TelegramMissing = WARNING"
| "level_of (DeleteFailed p e) = ERROR"
| "level_of (TargetFailed t e) = ERROR"
| "level_of (TelegramFailed msg) = ERROR"
| "level_of e = INFO"

record world =
  disk :: node
  journal :: "log_event list"

record sweep = world +
  deleted :: nat

definition emit :: "log_event \<Rightarrow> 'a world_scheme \<Rightarrow> 'a world_scheme" where
  "emit e w = w\<lparr>journal := journal w @ [e]\<rparr>"

text \<open>The loop state at \<^verbatim>\<open>deleted_size = 0\<close>, and the world it leaves.\<close>

definition start_sweep :: "world \<Rightarrow> sweep" where
  "start_sweep w = \<lparr>disk = disk w, journal = journal w, deleted = 0\<rparr>"

definition end_sweep :: "sweep \<Rightarrow> world" where
  "end_sweep s = \<lparr>disk = disk s, journal = journal s\<rparr>"

text \<open>A cleaner's outcome: the value it returns or the exception that escapes it, and the world it leaves.\<close>

type_synonym 'a outcome = "(py_error + 'a) \<times> world"

lemma emit_disk [simp, sweep_simps]: "disk (emit e w) = disk w"
  by (simp add: emit_def)

lemma emit_deleted [simp, sweep_simps]: "deleted (emit e s) = deleted s"
  by (simp add: emit_def)

lemma emit_journal [simp, sweep_simps]: "journal (emit e w) = journal w @ [e]"
  by (simp add: emit_def)

lemma start_sweep_simps [simp, sweep_simps]:
  "disk (start_sweep w) = disk w" "journal (start_sweep w) = journal w" "deleted (start_sweep w) = 0"
  by (simp_all add: start_sweep_def)

lemma end_sweep_simps [simp, sweep_simps]:
  "disk (end_sweep s) = disk s" "journal (end_sweep s) = journal s"
  by (simp_all add: end_sweep_def)

end
