(* ===== verification/Folder_Size.thy ===== *)
theory Folder_Size
  imports Effects
begin

text \<open>
  Size accounting: \<^verbatim>\<open>get_folder_size\<close> (\<^verbatim>\<open>src/cleanup.py\<close>, lines 33--43).
  \<^verbatim>\<open>os.walk\<close> visits a directory top-down: first the non-directory entries of
  the top directory, then each subdirectory in listing order, recursively; it
  yields nothing for a path that is missing or not a directory (its
  \<^verbatim>\<open>scandir\<close> error is ignored).  The sum is accumulated file by file and the
  whole loop sits inside one \<^verbatim>\<open>try\<close>: the first \<^verbatim>\<open>os.path.getsize\<close> that
  fails ends the walk and the sum so far is returned.
\<close>

fun top_files :: "entries \<Rightarrow> fattr list" where
  "top_files [] = []"
| "top_files ((n, File a) # cs) = a # top_files cs"
| "top_files ((n, Dir m ds) # cs) = top_files cs"

fun walk_files :: "node \<Rightarrow> fattr list"
and walk_subdirs :: "entries \<Rightarrow> fattr list" where
  "walk_files (File a) = []"
| "walk_files (Dir m cs) = top_files cs @ walk_subdirs cs"
| "walk_subdirs [] = []"
| "walk_subdirs ((n, c) # cs) = walk_files c @ walk_subdirs cs"

fun sum_sizes :: "nat \<Rightarrow> fattr list \<Rightarrow> nat" where
  "sum_sizes total_size [] = total_size"
| "sum_sizes total_size (a # as) = (if stat_ok a then sum_sizes (total_size + st_size a) as else total_size)"

definition get_folder_size :: "node \<Rightarrow> path \<Rightarrow> nat" where
  "get_folder_size fs p =
     (case lookup fs p of Some (Dir m cs) \<Rightarrow> sum_sizes 0 (walk_files (Dir m cs)) | _ \<Rightarrow> 0)"

text \<open>
  The specification's measure (spec 4.1): the sum of the sizes of all files under
  the directory, an entry that cannot be read counting zero.
\<close>

definition disk_usage :: "node \<Rightarrow> nat" where
  "disk_usage n = sum_list (map st_size (filter stat_ok (node_files n)))"

definition measure_spec :: "node \<Rightarrow> path \<Rightarrow> nat" where
  "measure_spec fs p = (case lookup fs p of Some (Dir m cs) \<Rightarrow> disk_usage (Dir m cs) | _ \<Rightarrow> 0)"

lemma sum_sizes_acc: "sum_sizes t as = t + sum_sizes 0 as"
proof (induction as arbitrary: t)
  case (Cons a as)
  have "sum_sizes (t + st_size a) as = (t + st_size a) + sum_sizes 0 as"
    and "sum_sizes (0 + st_size a) as = (0 + st_size a) + sum_sizes 0 as"
    by (rule Cons.IH)+
  then show ?case by simp
qed simp

lemma sum_sizes_Cons_ok: "sum_sizes (st_size a) as = st_size a + sum_sizes 0 as"
  by (rule sum_sizes_acc)

lemma sum_sizes_le: "sum_sizes 0 as \<le> sum_list (map st_size (filter stat_ok as))"
  by (induction as) (auto simp: sum_sizes_Cons_ok)

lemma sum_sizes_all_ok: "list_all stat_ok as \<Longrightarrow> sum_sizes 0 as = sum_list (map st_size as)"
  by (induction as) (auto simp: sum_sizes_Cons_ok)

lemma sum_sizes_perm:
  "mset xs = mset ys \<Longrightarrow>
   sum_list (map st_size (filter stat_ok xs)) = sum_list (map st_size (filter stat_ok ys))"
proof -
  assume "mset xs = mset ys"
  then have "mset (map st_size (filter stat_ok xs)) = mset (map st_size (filter stat_ok ys))"
    by simp
  then show ?thesis by (metis sum_mset_sum_list)
qed

text \<open>The walk visits every file under a directory exactly once.\<close>

lemma mset_walk:
  "mset (walk_files n) = (if is_dir_node n then mset (node_files n) else {#})"
  "mset (entries_files cs) = mset (top_files cs) + mset (walk_subdirs cs)"
proof (induction n and cs rule: walk_files_walk_subdirs.induct)
  case (4 n c cs)
  then show ?case by (cases c) (simp_all add: ac_simps)
qed simp_all

lemma get_folder_size_le_measure: "get_folder_size fs p \<le> measure_spec fs p"
proof (cases "lookup fs p")
  case (Some n)
  then show ?thesis
  proof (cases n)
    case (Dir m cs)
    have "mset (walk_files n) = mset (node_files n)"
      using mset_walk(1) [of n] Dir by simp
    then have "sum_list (map st_size (filter stat_ok (walk_files n))) = disk_usage n"
      unfolding disk_usage_def by (rule sum_sizes_perm)
    moreover have "get_folder_size fs p = sum_sizes 0 (walk_files n)"
      using Some Dir by (simp only: get_folder_size_def option.case node.case)
    moreover have "measure_spec fs p = disk_usage n"
      using Some Dir by (simp only: measure_spec_def option.case node.case)
    ultimately show ?thesis using sum_sizes_le [of "walk_files n"] by simp
  qed (simp add: get_folder_size_def measure_spec_def)
qed (simp add: get_folder_size_def measure_spec_def)

lemma get_folder_size_all_ok:
  assumes "lookup fs p = Some n" and "list_all stat_ok (node_files n)"
  shows "get_folder_size fs p = measure_spec fs p"
proof (cases n)
  case (Dir m cs)
  have ms: "mset (walk_files n) = mset (node_files n)"
    using mset_walk(1) [of n] Dir by simp
  then have "list_all stat_ok (walk_files n)"
    using assms(2) by (metis list_all_iff set_mset_mset)
  then have "sum_sizes 0 (walk_files n) = sum_list (map st_size (filter stat_ok (walk_files n)))"
    by (simp add: sum_sizes_all_ok list_all_iff)
  also have "\<dots> = disk_usage n"
    unfolding disk_usage_def using ms by (rule sum_sizes_perm)
  finally show ?thesis using assms(1) Dir
    by (simp only: get_folder_size_def measure_spec_def option.case node.case)
qed (insert assms(1), simp add: get_folder_size_def measure_spec_def)

text \<open>
  C9: \<^verbatim>\<open>get_folder_size\<close> never fails, is 0 for a missing path, never exceeds the
  specification's measure (the sizes of all readable files under the directory), and
  equals it when every file under the directory can be read (spec 4.1).
\<close>

theorem get_folder_size_measures:
  "(lookup fs p = None \<longrightarrow> get_folder_size fs p = 0)
   \<and> get_folder_size fs p \<le> measure_spec fs p
   \<and> (\<forall>n. lookup fs p = Some n \<and> list_all stat_ok (node_files n) \<longrightarrow> get_folder_size fs p = measure_spec fs p)"
  using get_folder_size_le_measure get_folder_size_all_ok by (auto simp: get_folder_size_def)

theorem get_folder_size_measures_witness:
  "get_folder_size (Dir 0 [(''d'', Dir 0 [(''a'', File \<lparr>st_size = 5, st_mtime = 0, stat_ok = True, unlink_ok = True\<rparr>),
                                        (''e'', Dir 0 [(''b'', File \<lparr>st_size = 7, st_mtime = 0, stat_ok = True, unlink_ok = True\<rparr>)])])]) [''d'']
   = 12
   \<and> list_all stat_ok (node_files (Dir 0 [(''a'', File \<lparr>st_size = 5, st_mtime = 0, stat_ok = True, unlink_ok = True\<rparr>),
                                        (''e'', Dir 0 [(''b'', File \<lparr>st_size = 7, st_mtime = 0, stat_ok = True, unlink_ok = True\<rparr>)])]))
   \<and> get_folder_size (Dir 0 []) [''missing''] = 0"
  using get_folder_size_measures [of "Dir 0 [(''d'', Dir 0 [(''a'', File \<lparr>st_size = 5, st_mtime = 0, stat_ok = True, unlink_ok = True\<rparr>),
                                        (''e'', Dir 0 [(''b'', File \<lparr>st_size = 7, st_mtime = 0, stat_ok = True, unlink_ok = True\<rparr>)])])]" "[''d'']"]
    get_folder_size_measures [of "Dir 0 []" "[''missing'']"]
  by (simp add: measure_spec_def disk_usage_def)

text \<open>
  Finding (a concrete disk): One unreadable entry hides the rest of the walk: the whole loop of
  \<^verbatim>\<open>get_folder_size\<close> sits in one \<^verbatim>\<open>try\<close>, so a listed entry whose
  \<^verbatim>\<open>getsize\<close> fails (a dangling link, a file removed meanwhile) ends the sum.  A
  directory holding such an entry before a 20-byte file measures 0 bytes, where the
  specification (4.1: inaccessible entries contribute zero) asks for 20.
\<close>

theorem get_folder_size_stops_at_unreadable:
  "get_folder_size (Dir 0 [(''d'', Dir 0 [(''link'', File \<lparr>st_size = 0, st_mtime = 0, stat_ok = False, unlink_ok = True\<rparr>),
                                        (''big'', File \<lparr>st_size = 20, st_mtime = 0, stat_ok = True, unlink_ok = True\<rparr>)])]) [''d''] = 0
   \<and> measure_spec (Dir 0 [(''d'', Dir 0 [(''link'', File \<lparr>st_size = 0, st_mtime = 0, stat_ok = False, unlink_ok = True\<rparr>),
                                        (''big'', File \<lparr>st_size = 20, st_mtime = 0, stat_ok = True, unlink_ok = True\<rparr>)])]) [''d''] = 20"
  by (simp add: get_folder_size_def measure_spec_def disk_usage_def)

end
