(* ===== verification/Sweep.thy ===== *)
theory Sweep
  imports Folder_Size
begin

text \<open>
  The body shared by the three enumerating cleaners (\<^verbatim>\<open>src/cleanup.py\<close>, lines
  65--75, 96--106 and 131--141): in a \<^verbatim>\<open>try\<close>, a regular file is measured,
  unlinked and counted; a directory (for the browser cache only one named in the
  allow-list) is measured, removed with \<^verbatim>\<open>shutil.rmtree(ignore_errors=True)\<close>
  and counted with its size before the removal; then the "deleted" record is logged.
  An exception (the unlink refused) is logged as an error and the loop goes on.
  \<open>dir_ok\<close> is the directory condition of the \<^verbatim>\<open>elif\<close>.
\<close>

definition remove_item :: "(name \<Rightarrow> bool) \<Rightarrow> path \<Rightarrow> name \<Rightarrow> sweep \<Rightarrow> sweep" where
  "remove_item dir_ok root n s =
     (let p = root @ [n] in
      case lookup (disk s) p of
        Some (File a) \<Rightarrow>
          if stat_ok a then
            (if unlink_ok a
             then emit (Deleted p) (s\<lparr>disk := remove_at p (disk s), deleted := deleted s + st_size a\<rparr>)
             else emit (DeleteFailed p (PermissionError p)) s)
          else emit (Deleted p) s
      | Some (Dir m cs) \<Rightarrow>
          if dir_ok n then
            (let size = get_folder_size (disk s) p in
             emit (Deleted p) (s\<lparr>disk := rmtree_at p (disk s), deleted := deleted s + size\<rparr>))
          else emit (Deleted p) s
      | None \<Rightarrow> emit (Deleted p) s)"

text \<open>
  What one execution of that body does to the entry it is applied to:
  the node that remains (\<^const>\<open>None\<close>: removed), the bytes it adds to
  \<^verbatim>\<open>deleted_size\<close> and the log records it writes.
\<close>

fun remove_effect :: "(name \<Rightarrow> bool) \<Rightarrow> name \<Rightarrow> node \<Rightarrow> node option" where
  "remove_effect dir_ok n (File a) = (if stat_ok a \<and> unlink_ok a then None else Some (File a))"
| "remove_effect dir_ok n (Dir m cs) = (if dir_ok n then rmtree (Dir m cs) else Some (Dir m cs))"

fun remove_gain :: "(name \<Rightarrow> bool) \<Rightarrow> name \<Rightarrow> node \<Rightarrow> nat" where
  "remove_gain dir_ok n (File a) = (if stat_ok a \<and> unlink_ok a then st_size a else 0)"
| "remove_gain dir_ok n (Dir m cs) = (if dir_ok n then sum_sizes 0 (walk_files (Dir m cs)) else 0)"

fun remove_events :: "path \<Rightarrow> name \<Rightarrow> node \<Rightarrow> log_event list" where
  "remove_events p n (File a) =
     (if stat_ok a \<and> \<not> unlink_ok a then [DeleteFailed (p @ [n]) (PermissionError (p @ [n]))]
      else [Deleted (p @ [n])])"
| "remove_events p n (Dir m cs) = [Deleted (p @ [n])]"

text \<open>A directory's entry list after a transformation of each entry.\<close>

definition apply_entries :: "(name \<Rightarrow> node \<Rightarrow> node option) \<Rightarrow> entries \<Rightarrow> entries" where
  "apply_entries h cs = concat (map (\<lambda>(n, c). case h n c of None \<Rightarrow> [] | Some c' \<Rightarrow> [(n, c')]) cs)"

lemma apply_entries_simps [simp]:
  "apply_entries h [] = []"
  "apply_entries h ((n, c) # cs) = (case h n c of None \<Rightarrow> [] | Some c' \<Rightarrow> [(n, c')]) @ apply_entries h cs"
  by (simp_all add: apply_entries_def)

lemma apply_entries_append [simp]:
  "apply_entries h (xs @ ys) = apply_entries h xs @ apply_entries h ys"
  by (simp add: apply_entries_def)

lemma names_apply_entries: "fst ` set (apply_entries h cs) \<subseteq> fst ` set cs"
  by (induction cs) (force split: option.splits)+

lemma remove_item_step:
  assumes c: "lookup (disk s) (p @ [n]) = Some c"
  shows "disk (remove_item dir_ok p n s) = update_at (p @ [n]) (remove_effect dir_ok n) (disk s)
       \<and> deleted (remove_item dir_ok p n s) = deleted s + remove_gain dir_ok n c
       \<and> journal (remove_item dir_ok p n s) = journal s @ remove_events p n c"
proof -
  have eff: "update_at (p @ [n]) (remove_effect dir_ok n) (disk s)
           = update_at (p @ [n]) (\<lambda>_. remove_effect dir_ok n c) (disk s)"
    by (rule update_at_cong_lookup [OF c])
  have keep: "update_at (p @ [n]) (\<lambda>_. Some c) (disk s) = disk s"
    by (rule update_at_lookup_id [OF c])
  have rm: "update_at (p @ [n]) rmtree (disk s) = update_at (p @ [n]) (\<lambda>_. rmtree c) (disk s)"
    by (rule update_at_cong_lookup [OF c])
  show ?thesis
  proof (cases c)
    case (File a)
    then show ?thesis using c eff keep
      by (simp add: remove_item_def remove_at_def Let_def)
  next
    case (Dir m cs)
    then show ?thesis using c eff keep rm
      by (simp add: remove_item_def rmtree_at_def get_folder_size_def Let_def del: rmtree.simps)
  qed
qed

lemma lookup_update_at_const:
  "lookup d p = Some v0 \<Longrightarrow> lookup (update_at p (\<lambda>_. Some v) d) p = Some v"
  by (cases "p = []") (auto intro: lookup_update_at_same)

lemma lookup_child:
  "lookup d p = Some (Dir m (ds @ (n, c) # cs)) \<Longrightarrow> n \<notin> fst ` set ds \<Longrightarrow>
   lookup d (p @ [n]) = Some c"
proof -
  assume l: "lookup d p = Some (Dir m (ds @ (n, c) # cs))" and n: "n \<notin> fst ` set ds"
  from n have "map_of (ds @ (n, c) # cs) n = Some c" by (induction ds) auto
  with l show ?thesis by (simp add: lookup_append del: map_of_append)
qed

text \<open>
  The loop \<^verbatim>\<open>for item in glob("*")\<close> over a directory with distinct names, for any
  body that changes only the entry it is given: the directory ends up with every
  entry transformed, the counter with the sum of the gains, the log with the
  records in listing order.  \<open>ds\<close> are the entries already processed.
\<close>

lemma fold_items:
  fixes f :: "name \<Rightarrow> sweep \<Rightarrow> sweep"
  assumes step: "\<And>s n c. lookup (disk s) (p @ [n]) = Some c \<Longrightarrow>
      disk (f n s) = update_at (p @ [n]) (h n) (disk s)
      \<and> deleted (f n s) = deleted s + g n c \<and> journal (f n s) = journal s @ ev n c"
  shows "distinct (map fst cs) \<Longrightarrow> fst ` set ds \<inter> fst ` set cs = {} \<Longrightarrow>
    lookup (disk s) p = Some (Dir m (ds @ cs)) \<Longrightarrow>
    disk (fold f (map fst cs) s) = update_at p (\<lambda>_. Some (Dir m (ds @ apply_entries h cs))) (disk s)
    \<and> deleted (fold f (map fst cs) s) = deleted s + sum_list (map (\<lambda>(n, c). g n c) cs)
    \<and> journal (fold f (map fst cs) s) = journal s @ concat (map (\<lambda>(n, c). ev n c) cs)"
proof (induction cs arbitrary: ds s)
  case Nil
  then show ?case by (simp add: update_at_lookup_id)
next
  case (Cons nc cs)
  obtain n c where nc: "nc = (n, c)" by (cases nc)
  have n_ds: "n \<notin> fst ` set ds" using Cons.prems(2) nc by auto
  have n_cs: "n \<notin> fst ` set cs" using Cons.prems(1) nc by auto
  have c: "lookup (disk s) (p @ [n]) = Some c"
    using lookup_child [OF _ n_ds] Cons.prems(3) nc by simp
  define ds' where "ds' = ds @ apply_entries h [(n, c)]"
  define s1 where "s1 = f n s"
  have "disk s1 = update_at p (\<lambda>x. Some (update_at [n] (h n) x)) (disk s)"
    using step [OF c] update_at_append [of "[n]" p "h n" "disk s"] by (simp add: s1_def)
  also have "\<dots> = update_at p (\<lambda>_. Some (update_at [n] (h n) (Dir m (ds @ (n, c) # cs)))) (disk s)"
    by (rule update_at_cong_lookup [OF Cons.prems(3)[unfolded nc]])
  also have "update_at [n] (h n) (Dir m (ds @ (n, c) # cs)) = Dir m (ds' @ cs)"
    using n_ds by (simp add: ds'_def modify_entry_append_notin split: option.splits)
  finally have d1: "disk s1 = update_at p (\<lambda>_. Some (Dir m (ds' @ cs))) (disk s)" .
  have l1: "lookup (disk s1) p = Some (Dir m (ds' @ cs))"
    using d1 lookup_update_at_const [OF Cons.prems(3)] by simp
  have disj: "fst ` set ds' \<inter> fst ` set cs = {}"
  proof -
    have "fst ` set (apply_entries h [(n, c)]) \<subseteq> {n}"
      using names_apply_entries [of h "[(n, c)]"] by simp
    then show ?thesis using Cons.prems(2) n_cs by (auto simp: ds'_def simp del: apply_entries_simps)
  qed
  have dist: "distinct (map fst cs)" using Cons.prems(1) by simp
  note IH = Cons.IH [OF dist disj l1]
  have "ds' @ apply_entries h cs = ds @ apply_entries h (nc # cs)"
    by (simp add: ds'_def nc)
  then show ?case
    using IH d1 step [OF c] update_at_comp [of p "\<lambda>_. Dir m (ds' @ apply_entries h cs)"]
    by (simp add: nc s1_def)
qed

lemma map_of_apply_entries:
  "distinct (map fst cs) \<Longrightarrow>
   map_of (apply_entries h cs) n = (case map_of cs n of None \<Rightarrow> None | Some c \<Rightarrow> h n c)"
proof (induction cs)
  case (Cons nc cs)
  obtain x c where nc: "nc = (x, c)" by (cases nc)
  from Cons nc show ?case
  proof (cases "x = n")
    case True
    with Cons.prems nc have "n \<notin> fst ` set cs" by simp
    then have "map_of (apply_entries h cs) n = None"
      using names_apply_entries [of h cs] by (auto simp: map_of_eq_None_iff)
    with True nc show ?thesis by (simp split: option.splits)
  next
    case False
    with Cons nc show ?thesis by (simp split: option.splits)
  qed
qed simp

text \<open>Reading an entry of a directory that has been replaced as a whole.\<close>

lemma lookup_replaced_dir:
  "lookup d p = Some v0 \<Longrightarrow>
   lookup (update_at p (\<lambda>_. Some (Dir m cs)) d) (p @ n # q) =
   (case map_of cs n of None \<Rightarrow> None | Some c \<Rightarrow> lookup c q)"
  by (simp add: lookup_append lookup_update_at_const)

lemma fold_keeps_disk:
  "(\<And>n s. disk (f n s) = disk s) \<Longrightarrow> disk (fold f ns s) = disk s"
  by (induction ns arbitrary: s) simp_all

lemma remove_item_wf: "wf_node (disk s) \<Longrightarrow> wf_node (disk (remove_item dir_ok root n s))"
  by (auto simp: remove_item_def Let_def wf_remove_at wf_rmtree_at split: option.splits node.splits)

lemma fold_keeps_wf:
  "(\<And>n s. wf_node (disk s) \<Longrightarrow> wf_node (disk (f n s))) \<Longrightarrow> wf_node (disk s) \<Longrightarrow>
   wf_node (disk (fold f ns s))"
  by (induction ns arbitrary: s) simp_all

end
