(* ===== verification/Browser_Cache.thy ===== *)
theory Browser_Cache
  imports Sweep
begin

text \<open>
  \<^verbatim>\<open>clean_yandex_browser_cache(dry_run, cache_path)\<close> (\<^verbatim>\<open>src/cleanup.py\<close>,
  lines 45--79).  The profile directory is \<^verbatim>\<open>cache_path\<close> or, when it is
  \<^verbatim>\<open>None\<close>, \<^verbatim>\<open>%LOCALAPPDATA%\Yandex\YandexBrowser\User Data\Default\<close>
  (\<^verbatim>\<open>os.path.join\<close> raises \<^verbatim>\<open>TypeError\<close> when the variable is unset).
  Each direct entry not named \<^verbatim>\<open>Cookies\<close> or \<^verbatim>\<open>Cookies-journal\<close> is removed:
  every regular file, and of the directories only \<^verbatim>\<open>Cache\<close>, \<^verbatim>\<open>Cache2\<close> and
  \<^verbatim>\<open>Code Cache\<close>; in a dry run each non-excluded entry is only logged.
\<close>

definition yandex_exclude :: "name list" where
  "yandex_exclude = [''Cookies'', ''Cookies-journal'']"

definition yandex_cache_dirs :: "name list" where
  "yandex_cache_dirs = [''Cache'', ''Cache2'', ''Code Cache'']"

definition yandex_profile :: path where
  "yandex_profile = [''Yandex'', ''YandexBrowser'', ''User Data'', ''Default'']"

definition join_none_error :: py_error where
  "join_none_error = TypeError ''expected str, bytes or os.PathLike object, not NoneType''"

definition yandex_item :: "bool \<Rightarrow> path \<Rightarrow> name \<Rightarrow> sweep \<Rightarrow> sweep" where
  "yandex_item dry_run root n s =
     (if n \<in> set yandex_exclude then s
      else if dry_run then emit (WouldDelete (root @ [n])) s
      else remove_item (\<lambda>x. x \<in> set yandex_cache_dirs) root n s)"

definition clean_yandex_browser_cache ::
  "bool \<Rightarrow> path option \<Rightarrow> path option \<Rightarrow> world \<Rightarrow> nat outcome" where
  "clean_yandex_browser_cache dry_run cache_path localappdata w =
     (case (case cache_path of Some p \<Rightarrow> Some p | None \<Rightarrow> map_option (\<lambda>b. b @ yandex_profile) localappdata) of
        None \<Rightarrow> (Inl join_none_error, w)
      | Some p \<Rightarrow>
          (let w1 = emit (CacheStart p) w;
               size_before = get_folder_size (disk w1) p in
           if \<not> exists (disk w1) p then (Inr 0, emit (FolderNotFound p) w1)
           else
             (let s = fold (yandex_item dry_run p) (glob_star (disk w1) p) (start_sweep w1);
                  size_after = get_folder_size (disk s) p
              in (Inr (deleted s), emit (CacheCleaned (int size_before - int size_after)) (end_sweep s)))))"

text \<open>What a real run does to one entry of the profile, what it counts, what it logs.\<close>

definition yandex_effect :: "name \<Rightarrow> node \<Rightarrow> node option" where
  "yandex_effect n c =
     (if n \<in> set yandex_exclude then Some c else remove_effect (\<lambda>x. x \<in> set yandex_cache_dirs) n c)"

definition yandex_gain :: "name \<Rightarrow> node \<Rightarrow> nat" where
  "yandex_gain n c = (if n \<in> set yandex_exclude then 0 else remove_gain (\<lambda>x. x \<in> set yandex_cache_dirs) n c)"

definition yandex_events :: "path \<Rightarrow> name \<Rightarrow> node \<Rightarrow> log_event list" where
  "yandex_events p n c = (if n \<in> set yandex_exclude then [] else remove_events p n c)"

lemma yandex_item_real_step:
  "lookup (disk s) (p @ [n]) = Some c \<Longrightarrow>
   disk (yandex_item False p n s) = update_at (p @ [n]) (yandex_effect n) (disk s)
   \<and> deleted (yandex_item False p n s) = deleted s + yandex_gain n c
   \<and> journal (yandex_item False p n s) = journal s @ yandex_events p n c"
proof (cases "n \<in> set yandex_exclude")
  case True
  then have "yandex_effect n = Some" by (simp add: fun_eq_iff yandex_effect_def)
  with True show ?thesis
    by (simp add: yandex_item_def yandex_gain_def yandex_events_def update_at_Some_id)
next
  case False
  then have "yandex_effect n = remove_effect (\<lambda>x. x \<in> set yandex_cache_dirs) n"
    by (simp add: fun_eq_iff yandex_effect_def)
  moreover assume "lookup (disk s) (p @ [n]) = Some c"
  ultimately show ?thesis using False
    by (simp add: yandex_item_def yandex_gain_def yandex_events_def remove_item_step)
qed

lemma yandex_real_outcome:
  assumes "wf_node (disk w)" and dir: "lookup (disk w) p = Some (Dir m cs)"
  shows "fst (clean_yandex_browser_cache False (Some p) env w) = Inr (sum_list (map (\<lambda>(n, c). yandex_gain n c) cs))
    \<and> disk (snd (clean_yandex_browser_cache False (Some p) env w))
        = update_at p (\<lambda>_. Some (Dir m (apply_entries yandex_effect cs))) (disk w)"
proof -
  have dist: "distinct (map fst cs)" using assms wf_lookup by fastforce
  let ?w1 = "emit (CacheStart p) w"
  have l1: "lookup (disk (start_sweep ?w1)) p = Some (Dir m ([] @ cs))" using dir by simp
  note F = fold_items [where f = "yandex_item False p", OF yandex_item_real_step dist _ l1]
  show ?thesis using F dir
    by (simp add: clean_yandex_browser_cache_def Let_def exists_def glob_star_def)
qed

lemma clean_yandex_dry_disk:
  "disk (snd (clean_yandex_browser_cache True cp env w)) = disk w"
proof -
  have "\<And>p ns s. disk (fold (yandex_item True p) ns s) = disk s"
    by (rule fold_keeps_disk) (simp add: yandex_item_def)
  then show ?thesis
    by (simp add: clean_yandex_browser_cache_def Let_def split: option.splits)
qed

lemma yandex_effect_keeps:
  "n \<in> set yandex_exclude \<or> (is_dir_node c \<and> n \<notin> set yandex_cache_dirs) \<Longrightarrow> yandex_effect n c = Some c"
  by (cases c) (auto simp: yandex_effect_def)

text \<open>An entry whose effect keeps it is found, with everything below it, after the sweep.\<close>

lemma yandex_sweep_keeps_entry:
  assumes wf: "wf_node (disk w)" and dir: "lookup (disk w) p = Some (Dir m cs)"
    and keep: "\<And>c. map_of cs n = Some c \<Longrightarrow> yandex_effect n c = Some c"
  shows "lookup (disk (snd (clean_yandex_browser_cache dry_run (Some p) env w))) (p @ n # q)
         = lookup (disk w) (p @ n # q)"
proof (cases dry_run)
  case True
  then show ?thesis by (simp add: clean_yandex_dry_disk)
next
  case False
  have dist: "distinct (map fst cs)" using wf dir wf_lookup by fastforce
  from yandex_real_outcome [OF wf dir] False
  have "disk (snd (clean_yandex_browser_cache dry_run (Some p) env w))
        = update_at p (\<lambda>_. Some (Dir m (apply_entries yandex_effect cs))) (disk w)" by simp
  moreover have "lookup (update_at p (\<lambda>_. Some (Dir m (apply_entries yandex_effect cs))) (disk w)) (p @ n # q)
      = (case map_of (apply_entries yandex_effect cs) n of None \<Rightarrow> None | Some c \<Rightarrow> lookup c q)"
    by (rule lookup_replaced_dir [OF dir])
  moreover have "lookup (disk w) (p @ n # q) = (case map_of cs n of None \<Rightarrow> None | Some c \<Rightarrow> lookup c q)"
    using dir by (simp add: lookup_append)
  ultimately show ?thesis
    using keep by (simp add: map_of_apply_entries [OF dist] split: option.splits)
qed

text \<open>
  C5: On a well-formed disk, a real sweep of an existing browser profile directory
  returns the sum of the per-entry gains and replaces the directory's entry list by
  each entry's effect: excluded names kept, files unlinked when they can be, the
  cache subdirectories removed recursively, every other directory kept.
\<close>

theorem clean_yandex_real:
  assumes "wf_node (disk w)" and "lookup (disk w) p = Some (Dir m cs)"
  shows "fst (clean_yandex_browser_cache False (Some p) env w) = Inr (sum_list (map (\<lambda>(n, c). yandex_gain n c) cs))
    \<and> disk (snd (clean_yandex_browser_cache False (Some p) env w))
        = update_at p (\<lambda>_. Some (Dir m (apply_entries yandex_effect cs))) (disk w)"
  using yandex_real_outcome [OF assms] .

text \<open>
  C2: In a dry run and in a real run alike, an entry of the profile named
  \<^verbatim>\<open>Cookies\<close> or \<^verbatim>\<open>Cookies-journal\<close> is still there afterwards with all it
  contains (spec section 8: the persistent cookie store survives).
\<close>

theorem clean_yandex_keeps_excluded:
  assumes "wf_node (disk w)" and "lookup (disk w) p = Some (Dir m cs)"
    and "n \<in> set yandex_exclude"
  shows "lookup (disk (snd (clean_yandex_browser_cache dry_run (Some p) env w))) (p @ n # q)
         = lookup (disk w) (p @ n # q)"
  using assms by (intro yandex_sweep_keeps_entry) (simp_all add: yandex_effect_keeps)

text \<open>
  C3: A directory of the profile that is not one of \<^verbatim>\<open>Cache\<close>, \<^verbatim>\<open>Cache2\<close>,
  \<^verbatim>\<open>Code Cache\<close> is still there afterwards with all it contains (spec 4.2 rule 3:
  bookmarks, extensions and settings directories are never entered).
\<close>

theorem clean_yandex_keeps_other_dirs:
  assumes "wf_node (disk w)" and "lookup (disk w) p = Some (Dir m cs)"
    and "map_of cs n = Some (Dir m' ds)" and "n \<notin> set yandex_cache_dirs"
  shows "lookup (disk (snd (clean_yandex_browser_cache dry_run (Some p) env w))) (p @ n # q)
         = lookup (disk w) (p @ n # q)"
  using assms by (intro yandex_sweep_keeps_entry) (auto intro!: yandex_effect_keeps)



text \<open>The repository's test \<^verbatim>\<open>test_yandex_browser_cache\<close>, with 20 and 30 bytes.\<close>

theorem clean_yandex_real_witness:
  "wf_node (Dir 0 [(''Default'', Dir 0 [(''cache.txt'', File \<lparr>st_size = 20, st_mtime = 0, stat_ok = True, unlink_ok = True\<rparr>),
                                     (''Cookies'', File \<lparr>st_size = 30, st_mtime = 0, stat_ok = True, unlink_ok = True\<rparr>)])])
   \<and> fst (clean_yandex_browser_cache False (Some [''Default'']) None
        \<lparr>disk = Dir 0 [(''Default'', Dir 0 [(''cache.txt'', File \<lparr>st_size = 20, st_mtime = 0, stat_ok = True, unlink_ok = True\<rparr>),
                                     (''Cookies'', File \<lparr>st_size = 30, st_mtime = 0, stat_ok = True, unlink_ok = True\<rparr>)])],
          journal = []\<rparr>) = Inr 20
   \<and> disk (snd (clean_yandex_browser_cache False (Some [''Default'']) None
        \<lparr>disk = Dir 0 [(''Default'', Dir 0 [(''cache.txt'', File \<lparr>st_size = 20, st_mtime = 0, stat_ok = True, unlink_ok = True\<rparr>),
                                     (''Cookies'', File \<lparr>st_size = 30, st_mtime = 0, stat_ok = True, unlink_ok = True\<rparr>)])],
          journal = []\<rparr>))
     = Dir 0 [(''Default'', Dir 0 [(''Cookies'', File \<lparr>st_size = 30, st_mtime = 0, stat_ok = True, unlink_ok = True\<rparr>)])]"
  using clean_yandex_real [of "\<lparr>disk = Dir 0 [(''Default'', Dir 0 [(''cache.txt'', File \<lparr>st_size = 20, st_mtime = 0, stat_ok = True, unlink_ok = True\<rparr>),
                                     (''Cookies'', File \<lparr>st_size = 30, st_mtime = 0, stat_ok = True, unlink_ok = True\<rparr>)])],
          journal = []\<rparr>" "[''Default'']" 0
    "[(''cache.txt'', File \<lparr>st_size = 20, st_mtime = 0, stat_ok = True, unlink_ok = True\<rparr>),
      (''Cookies'', File \<lparr>st_size = 30, st_mtime = 0, stat_ok = True, unlink_ok = True\<rparr>)]" None]
  by (simp add: yandex_gain_def yandex_effect_def yandex_exclude_def)

theorem clean_yandex_keeps_excluded_witness:
  "wf_node (Dir 0 [(''Default'', Dir 0 [(''Cookies'', File \<lparr>st_size = 30, st_mtime = 0, stat_ok = True, unlink_ok = True\<rparr>)])])
   \<and> lookup (Dir 0 [(''Default'', Dir 0 [(''Cookies'', File \<lparr>st_size = 30, st_mtime = 0, stat_ok = True, unlink_ok = True\<rparr>)])]) [''Default'']
       = Some (Dir 0 [(''Cookies'', File \<lparr>st_size = 30, st_mtime = 0, stat_ok = True, unlink_ok = True\<rparr>)])
   \<and> lookup (disk (snd (clean_yandex_browser_cache False (Some [''Default'']) None
        \<lparr>disk = Dir 0 [(''Default'', Dir 0 [(''Cookies'', File \<lparr>st_size = 30, st_mtime = 0, stat_ok = True, unlink_ok = True\<rparr>)])],
          journal = []\<rparr>))) [''Default'', ''Cookies'']
     = Some (File \<lparr>st_size = 30, st_mtime = 0, stat_ok = True, unlink_ok = True\<rparr>)"
  using clean_yandex_keeps_excluded [of "\<lparr>disk = Dir 0 [(''Default'', Dir 0 [(''Cookies'', File \<lparr>st_size = 30, st_mtime = 0, stat_ok = True, unlink_ok = True\<rparr>)])],
          journal = []\<rparr>" "[''Default'']" 0 "[(''Cookies'', File \<lparr>st_size = 30, st_mtime = 0, stat_ok = True, unlink_ok = True\<rparr>)]"
     "''Cookies''" False None "[]"]
  by (simp add: yandex_exclude_def)

theorem clean_yandex_keeps_other_dirs_witness:
  "wf_node (Dir 0 [(''Default'', Dir 0 [(''Extensions'', Dir 0 [])])])
   \<and> lookup (disk (snd (clean_yandex_browser_cache False (Some [''Default'']) None
        \<lparr>disk = Dir 0 [(''Default'', Dir 0 [(''Extensions'', Dir 0 [])])], journal = []\<rparr>))) [''Default'', ''Extensions'']
     = Some (Dir 0 [])"
  using clean_yandex_keeps_other_dirs [of "\<lparr>disk = Dir 0 [(''Default'', Dir 0 [(''Extensions'', Dir 0 [])])], journal = []\<rparr>"
     "[''Default'']" 0 "[(''Extensions'', Dir 0 [])]" "''Extensions''" 0 "[]" False None "[]"]
  by (simp add: yandex_cache_dirs_def)

text \<open>
  Finding (a concrete disk): A real sweep of a profile removes its \<^verbatim>\<open>Bookmarks\<close> file: only the two cookie
  names are excluded, and the allow-list of line 69 applies to directories only,
  so every top-level file of the profile (bookmarks, preferences, history, saved
  logins) is deleted.
\<close>

theorem clean_yandex_removes_bookmarks:
  "lookup (disk (snd (clean_yandex_browser_cache False (Some [''Default'']) None
      \<lparr>disk = Dir 0 [(''Default'', Dir 0 [(''Bookmarks'', File \<lparr>st_size = 500, st_mtime = 0, stat_ok = True, unlink_ok = True\<rparr>),
                                   (''Cache'', Dir 0 [])])],
       journal = []\<rparr>))) [''Default'', ''Bookmarks''] = None"
  by (simp add: clean_yandex_browser_cache_def yandex_item_def remove_item_def yandex_exclude_def
      yandex_cache_dirs_def exists_def glob_star_def remove_at_def rmtree_at_def Let_def)

lemma fold_yandex_dry:
  "fold (yandex_item True p) ns s =
   s\<lparr>journal := journal s @ map (\<lambda>n. WouldDelete (p @ [n])) (filter (\<lambda>n. n \<notin> set yandex_exclude) ns)\<rparr>"
  by (induction ns arbitrary: s) (simp_all add: yandex_item_def emit_def)

text \<open>
  C19: A dry run of the browser cleaner on an existing profile changes nothing and
  logs, in listing order, one "would be deleted" record for every top-level entry
  except the two cookie names, files and directories alike, followed by a freed
  amount of 0.  In particular a profile directory outside the allow-list of line 69,
  which a real run keeps (C3) and the specification's classifier keeps, is reported
  as to be deleted.
\<close>

theorem clean_yandex_dry_run_journal:
  assumes "exists (disk w) p"
  shows "clean_yandex_browser_cache True (Some p) env w =
    (Inr 0, \<lparr>disk = disk w, journal = journal w @ [CacheStart p]
       @ map (\<lambda>n. WouldDelete (p @ [n])) (filter (\<lambda>n. n \<notin> set yandex_exclude) (glob_star (disk w) p))
       @ [CacheCleaned 0]\<rparr>)"
  using assms by (simp add: clean_yandex_browser_cache_def Let_def fold_yandex_dry emit_def end_sweep_def)

theorem clean_yandex_dry_run_journal_witness:
  "exists (disk \<lparr>disk = Dir 0 [(''Default'', Dir 0 [(''cache.txt'', File \<lparr>st_size = 20, st_mtime = 0, stat_ok = True, unlink_ok = True\<rparr>),
        (''Cookies'', File \<lparr>st_size = 30, st_mtime = 0, stat_ok = True, unlink_ok = True\<rparr>),
        (''Extensions'', Dir 0 [])])], journal = []\<rparr>) [''Default'']
   \<and> clean_yandex_browser_cache True (Some [''Default'']) None
      \<lparr>disk = Dir 0 [(''Default'', Dir 0 [(''cache.txt'', File \<lparr>st_size = 20, st_mtime = 0, stat_ok = True, unlink_ok = True\<rparr>),
        (''Cookies'', File \<lparr>st_size = 30, st_mtime = 0, stat_ok = True, unlink_ok = True\<rparr>),
        (''Extensions'', Dir 0 [])])], journal = []\<rparr>
    = (Inr 0, \<lparr>disk = Dir 0 [(''Default'', Dir 0 [(''cache.txt'', File \<lparr>st_size = 20, st_mtime = 0, stat_ok = True, unlink_ok = True\<rparr>),
        (''Cookies'', File \<lparr>st_size = 30, st_mtime = 0, stat_ok = True, unlink_ok = True\<rparr>),
        (''Extensions'', Dir 0 [])])],
       journal = [CacheStart [''Default''], WouldDelete [''Default'', ''cache.txt''],
                  WouldDelete [''Default'', ''Extensions''], CacheCleaned 0]\<rparr>)"
  using clean_yandex_dry_run_journal [where w = "\<lparr>disk = Dir 0 [(''Default'', Dir 0 [(''cache.txt'', File \<lparr>st_size = 20, st_mtime = 0, stat_ok = True, unlink_ok = True\<rparr>),
        (''Cookies'', File \<lparr>st_size = 30, st_mtime = 0, stat_ok = True, unlink_ok = True\<rparr>),
        (''Extensions'', Dir 0 [])])], journal = []\<rparr>" and p = "[''Default'']" and env = None]
  by (simp add: exists_def glob_star_def yandex_exclude_def)

lemma clean_yandex_wf:
  "wf_node (disk w) \<Longrightarrow> wf_node (disk (snd (clean_yandex_browser_cache dry_run cp env w)))"
  by (auto simp: clean_yandex_browser_cache_def Let_def yandex_item_def remove_item_wf
      intro!: fold_keeps_wf split: option.splits)

lemma clean_yandex_result:
  "(\<exists>n. fst (clean_yandex_browser_cache dry_run None env w) = Inr n) \<longleftrightarrow> env \<noteq> None"
  "env = None \<Longrightarrow> fst (clean_yandex_browser_cache dry_run None env w) = Inl join_none_error"
  by (auto simp: clean_yandex_browser_cache_def Let_def split: option.splits)

end
