(* ===== verification/System_Folder.thy ===== *)
theory System_Folder
  imports Sweep
begin

text \<open>
  \<^verbatim>\<open>clean_system_folder(folder_path, dry_run)\<close> (\<^verbatim>\<open>src/cleanup.py\<close>, lines
  81--110): every direct entry of the folder is removed (a file unlinked, a
  directory removed recursively), or only logged in a dry run.  The folder comes
  from the environment and may be \<^verbatim>\<open>None\<close> (\<^verbatim>\<open>TEMP\<close> unset): then
  \<^verbatim>\<open>get_folder_size(None)\<close> swallows its \<^verbatim>\<open>TypeError\<close>, but
  \<^verbatim>\<open>os.path.exists(None)\<close> raises it out of the function.
\<close>

definition system_item :: "bool \<Rightarrow> path \<Rightarrow> name \<Rightarrow> sweep \<Rightarrow> sweep" where
  "system_item dry_run root n s =
     (if dry_run then emit (WouldDelete (root @ [n])) s else remove_item (\<lambda>_. True) root n s)"

definition stat_none_error :: py_error where
  "stat_none_error = TypeError ''stat: path should be string, bytes, os.PathLike or integer, not NoneType''"

definition clean_system_folder :: "path option \<Rightarrow> bool \<Rightarrow> world \<Rightarrow> nat outcome" where
  "clean_system_folder folder_path dry_run w =
     (let w1 = emit (FolderStart folder_path) w in
      case folder_path of
        None \<Rightarrow> (Inl stat_none_error, w1)
      | Some p \<Rightarrow>
          (let size_before = get_folder_size (disk w1) p in
           if \<not> exists (disk w1) p then (Inr 0, emit (FolderNotFound p) w1)
           else
             (let s = fold (system_item dry_run p) (glob_star (disk w1) p) (start_sweep w1);
                  size_after = get_folder_size (disk s) p
              in (Inr (deleted s),
                  emit (FolderCleaned p (int size_before - int size_after)) (end_sweep s)))))"

definition refused_files :: "path \<Rightarrow> entries \<Rightarrow> path list" where
  "refused_files p cs =
     concat (map (\<lambda>(n, c). case c of File a \<Rightarrow> if stat_ok a \<and> \<not> unlink_ok a then [p @ [n]] else []
                                 | Dir m ds \<Rightarrow> []) cs)"

lemma system_item_real_step:
  "lookup (disk s) (p @ [n]) = Some c \<Longrightarrow>
   disk (system_item False p n s) = update_at (p @ [n]) (remove_effect (\<lambda>_. True) n) (disk s)
   \<and> deleted (system_item False p n s) = deleted s + remove_gain (\<lambda>_. True) n c
   \<and> journal (system_item False p n s) = journal s @ remove_events p n c"
  unfolding system_item_def by (simp add: remove_item_step)

lemma system_item_dry_step:
  "disk (system_item True p n s) = disk s \<and> deleted (system_item True p n s) = deleted s
   \<and> journal (system_item True p n s) = journal s @ [WouldDelete (p @ [n])]"
  by (simp add: system_item_def)

lemma system_real_outcome:
  assumes "wf_node (disk w)" and dir: "lookup (disk w) p = Some (Dir m cs)"
  shows "fst (clean_system_folder (Some p) False w) = Inr (sum_list (map (\<lambda>(n, c). remove_gain (\<lambda>_. True) n c) cs))
    \<and> disk (snd (clean_system_folder (Some p) False w))
        = update_at p (\<lambda>_. Some (Dir m (apply_entries (remove_effect (\<lambda>_. True)) cs))) (disk w)
    \<and> (\<exists>x. journal (snd (clean_system_folder (Some p) False w))
        = journal w @ [FolderStart (Some p)] @ concat (map (\<lambda>(n, c). remove_events p n c) cs) @ [FolderCleaned p x])"
proof -
  have dist: "distinct (map fst cs)" using assms wf_lookup by fastforce
  let ?w1 = "emit (FolderStart (Some p)) w"
  have l1: "lookup (disk (start_sweep ?w1)) p = Some (Dir m ([] @ cs))" using dir by simp
  note F = fold_items [where f = "system_item False p", OF system_item_real_step dist _ l1]
  show ?thesis using F dir
    by (simp add: clean_system_folder_def Let_def exists_def glob_star_def)
qed

lemma errors_remove_events:
  "filter (\<lambda>e. level_of e = ERROR) (concat (map (\<lambda>(n, c). remove_events p n c) cs))
   = map (\<lambda>q. DeleteFailed q (PermissionError q)) (refused_files p cs)"
proof (induction cs)
  case (Cons nc cs)
  then show ?case by (cases nc; cases "snd nc") (auto simp: refused_files_def)
qed (simp add: refused_files_def)

lemma rmtree_all_removable:
  "list_all (\<lambda>a. unlink_ok a) (node_files c) \<Longrightarrow> rmtree c = None"
  using rmtree_files(1) [of c] by (simp add: filter_empty_conv list_all_iff)

lemma apply_remove_effect_empty:
  "list_all (\<lambda>a. stat_ok a \<and> unlink_ok a) (entries_files cs) \<Longrightarrow>
   apply_entries (remove_effect (\<lambda>_. True)) cs = []"
proof (induction cs)
  case (Cons nc cs)
  then show ?case
    by (cases nc; cases "snd nc") (auto simp: rmtree_all_removable list_all_iff simp del: rmtree.simps)
qed simp

text \<open>
  C4: On a well-formed disk, a real sweep of an existing folder returns the sum of
  the per-entry gains (a file's size when it could be unlinked, a directory's
  measured size) and leaves in the folder exactly what each entry's removal leaves:
  nothing for an unlinkable file or fully removable directory, the locked file, the
  dangling link, or the remains of a directory holding locked files.
\<close>

theorem clean_system_folder_real:
  assumes "wf_node (disk w)" and "lookup (disk w) p = Some (Dir m cs)"
  shows "fst (clean_system_folder (Some p) False w) = Inr (sum_list (map (\<lambda>(n, c). remove_gain (\<lambda>_. True) n c) cs))
    \<and> disk (snd (clean_system_folder (Some p) False w))
        = update_at p (\<lambda>_. Some (Dir m (apply_entries (remove_effect (\<lambda>_. True)) cs))) (disk w)"
  using system_real_outcome [OF assms] by blast

text \<open>
  C8: Error isolation (spec section 8): the errors a real sweep logs are exactly one
  \<^verbatim>\<open>PermissionError\<close> record per file of the folder that could not be unlinked, in
  listing order; together with C4 every other entry is still removed.
\<close>

theorem clean_system_folder_error_isolation:
  assumes "wf_node (disk w)" and "lookup (disk w) p = Some (Dir m cs)"
  shows "filter (\<lambda>e. level_of e = ERROR) (journal (snd (clean_system_folder (Some p) False w)))
       = filter (\<lambda>e. level_of e = ERROR) (journal w)
         @ map (\<lambda>q. DeleteFailed q (PermissionError q)) (refused_files p cs)"
  using system_real_outcome [OF assms] by (auto simp: errors_remove_events)

text \<open>
  C12: Idempotence (spec section 8): when every file under the folder can be read and
  unlinked, a second real sweep right after the first frees nothing.
\<close>

theorem clean_system_folder_idempotent:
  assumes wf: "wf_node (disk w)" and dir: "lookup (disk w) p = Some (Dir m cs)"
    and ok: "list_all (\<lambda>a. stat_ok a \<and> unlink_ok a) (entries_files cs)"
  shows "fst (clean_system_folder (Some p) False (snd (clean_system_folder (Some p) False w))) = Inr 0"
proof -
  let ?w' = "snd (clean_system_folder (Some p) False w)"
  have "disk ?w' = update_at p (\<lambda>_. Some (Dir m [])) (disk w)"
    using system_real_outcome [OF wf dir] apply_remove_effect_empty [OF ok] by simp
  then have "lookup (disk ?w') p = Some (Dir m [])"
    using lookup_update_at_const [OF dir] by simp
  then show ?thesis
    by (simp add: clean_system_folder_def Let_def exists_def glob_star_def)
qed

lemma clean_system_folder_dry_disk:
  "disk (snd (clean_system_folder f True w)) = disk w"
proof -
  have "\<And>p s. disk (fold (system_item True p) (glob_star (disk w) p) s) = disk s"
    by (rule fold_keeps_disk) (simp add: system_item_def)
  then show ?thesis
    by (simp add: clean_system_folder_def Let_def split: option.splits)
qed

text \<open>The repository's test \<^verbatim>\<open>test_system_folder\<close>: \<^verbatim>\<open>test.txt\<close> is removed and counted.\<close>

theorem clean_system_folder_real_witness:
  "wf_node (Dir 0 [(''tmp'', Dir 0 [(''test.txt'', File \<lparr>st_size = 4, st_mtime = 0, stat_ok = True, unlink_ok = True\<rparr>)])])
   \<and> fst (clean_system_folder (Some [''tmp'']) False
        \<lparr>disk = Dir 0 [(''tmp'', Dir 0 [(''test.txt'', File \<lparr>st_size = 4, st_mtime = 0, stat_ok = True, unlink_ok = True\<rparr>)])],
          journal = []\<rparr>) = Inr 4
   \<and> disk (snd (clean_system_folder (Some [''tmp'']) False
        \<lparr>disk = Dir 0 [(''tmp'', Dir 0 [(''test.txt'', File \<lparr>st_size = 4, st_mtime = 0, stat_ok = True, unlink_ok = True\<rparr>)])],
          journal = []\<rparr>)) = Dir 0 [(''tmp'', Dir 0 [])]"
  using clean_system_folder_real [of "\<lparr>disk = Dir 0 [(''tmp'', Dir 0 [(''test.txt'', File \<lparr>st_size = 4, st_mtime = 0, stat_ok = True, unlink_ok = True\<rparr>)])],
          journal = []\<rparr>" "[''tmp'']" 0 "[(''test.txt'', File \<lparr>st_size = 4, st_mtime = 0, stat_ok = True, unlink_ok = True\<rparr>)]"]
  by simp

theorem clean_system_folder_error_isolation_witness:
  "wf_node (Dir 0 [(''tmp'', Dir 0 [(''a.txt'', File \<lparr>st_size = 4, st_mtime = 0, stat_ok = True, unlink_ok = True\<rparr>),
                                (''locked.txt'', File \<lparr>st_size = 7, st_mtime = 0, stat_ok = True, unlink_ok = False\<rparr>)])])
   \<and> filter (\<lambda>e. level_of e = ERROR) (journal (snd (clean_system_folder (Some [''tmp'']) False
        \<lparr>disk = Dir 0 [(''tmp'', Dir 0 [(''a.txt'', File \<lparr>st_size = 4, st_mtime = 0, stat_ok = True, unlink_ok = True\<rparr>),
                                (''locked.txt'', File \<lparr>st_size = 7, st_mtime = 0, stat_ok = True, unlink_ok = False\<rparr>)])],
          journal = []\<rparr>)))
     = [DeleteFailed [''tmp'', ''locked.txt''] (PermissionError [''tmp'', ''locked.txt''])]"
  using clean_system_folder_error_isolation [of "\<lparr>disk = Dir 0 [(''tmp'', Dir 0 [(''a.txt'', File \<lparr>st_size = 4, st_mtime = 0, stat_ok = True, unlink_ok = True\<rparr>),
                                (''locked.txt'', File \<lparr>st_size = 7, st_mtime = 0, stat_ok = True, unlink_ok = False\<rparr>)])],
          journal = []\<rparr>" "[''tmp'']" 0 "[(''a.txt'', File \<lparr>st_size = 4, st_mtime = 0, stat_ok = True, unlink_ok = True\<rparr>),
                                (''locked.txt'', File \<lparr>st_size = 7, st_mtime = 0, stat_ok = True, unlink_ok = False\<rparr>)]"]
  by (simp add: refused_files_def)

theorem clean_system_folder_idempotent_witness:
  "wf_node (Dir 0 [(''tmp'', Dir 0 [(''d'', Dir 0 [(''x'', File \<lparr>st_size = 4, st_mtime = 0, stat_ok = True, unlink_ok = True\<rparr>)])])])
   \<and> fst (clean_system_folder (Some [''tmp'']) False (snd (clean_system_folder (Some [''tmp'']) False
        \<lparr>disk = Dir 0 [(''tmp'', Dir 0 [(''d'', Dir 0 [(''x'', File \<lparr>st_size = 4, st_mtime = 0, stat_ok = True, unlink_ok = True\<rparr>)])])],
          journal = []\<rparr>))) = Inr 0"
  using clean_system_folder_idempotent [of "\<lparr>disk = Dir 0 [(''tmp'', Dir 0 [(''d'', Dir 0 [(''x'', File \<lparr>st_size = 4, st_mtime = 0, stat_ok = True, unlink_ok = True\<rparr>)])])],
          journal = []\<rparr>" "[''tmp'']" 0 "[(''d'', Dir 0 [(''x'', File \<lparr>st_size = 4, st_mtime = 0, stat_ok = True, unlink_ok = True\<rparr>)])]"]
  by simp

text \<open>
  Finding (a concrete disk): The returned \<^verbatim>\<open>deleted_size\<close> is not what was freed: a directory is counted
  with its size before \<^verbatim>\<open>shutil.rmtree(ignore_errors=True)\<close>, which silently leaves
  locked files.  A folder holding a directory with one locked 10-byte file is
  reported as freeing 10 bytes on every run, although the disk never changes, so
  repeated sweeps are not idempotent.
\<close>

theorem clean_system_folder_overcounts:
  "fst (clean_system_folder (Some [''tmp'']) False
      \<lparr>disk = Dir 0 [(''tmp'', Dir 0 [(''d'', Dir 0 [(''x'', File \<lparr>st_size = 10, st_mtime = 0, stat_ok = True, unlink_ok = False\<rparr>)])])],
       journal = []\<rparr>) = Inr 10
   \<and> disk (snd (clean_system_folder (Some [''tmp'']) False
      \<lparr>disk = Dir 0 [(''tmp'', Dir 0 [(''d'', Dir 0 [(''x'', File \<lparr>st_size = 10, st_mtime = 0, stat_ok = True, unlink_ok = False\<rparr>)])])],
       journal = []\<rparr>))
     = Dir 0 [(''tmp'', Dir 0 [(''d'', Dir 0 [(''x'', File \<lparr>st_size = 10, st_mtime = 0, stat_ok = True, unlink_ok = False\<rparr>)])])]"
  by (simp add: clean_system_folder_def system_item_def remove_item_def exists_def glob_star_def
      get_folder_size_def rmtree_at_def Let_def)

lemma clean_system_folder_wf:
  "wf_node (disk w) \<Longrightarrow> wf_node (disk (snd (clean_system_folder f dry_run w)))"
  by (auto simp: clean_system_folder_def Let_def system_item_def remove_item_wf
      intro!: fold_keeps_wf split: option.splits)

lemma clean_system_folder_Some: "\<exists>n. fst (clean_system_folder (Some p) dry_run w) = Inr n"
  by (simp add: clean_system_folder_def Let_def)

end
