(* ===== verification/Old_Logs.thy ===== *)
theory Old_Logs
  imports Sweep
begin

text \<open>
  \<^verbatim>\<open>clean_old_logs(logs_path, days, dry_run)\<close> (\<^verbatim>\<open>src/cleanup.py\<close>, lines
  112--145).  \<^verbatim>\<open>pathlib.Path(logs_path).rglob("*")\<close> is a lazy generator: in
  CPython 3.8--3.11 it lists a directory, yields its entries, and only then re-lists
  it to descend into the subdirectories still present, so an entry the loop has
  removed is never entered.  \<open>logs_walk\<close> is that walk as a worklist of
  directories; it terminates because each step either lowers the height of the
  disk or replaces a directory of the worklist by deeper ones (a lexicographic
  order of the height and the multiset of remaining depths).  The clock
  \<^verbatim>\<open>datetime.now()\<close> is the input \<open>now\<close> in seconds.
\<close>

definition stat_mtime :: "node \<Rightarrow> int option" where
  "stat_mtime c = (case c of File a \<Rightarrow> if stat_ok a then Some (st_mtime a) else None | Dir m cs \<Rightarrow> Some m)"

definition logs_item :: "bool \<Rightarrow> int \<Rightarrow> path \<Rightarrow> name \<Rightarrow> sweep \<Rightarrow> sweep" where
  "logs_item dry_run cutoff_time root n s =
     (let p = root @ [n] in
      case Option.bind (lookup (disk s) p) stat_mtime of
        None \<Rightarrow> emit (DeleteFailed p (FileNotFoundError p)) s
      | Some mtime \<Rightarrow>
          if mtime > cutoff_time then s
          else if dry_run then emit (WouldDelete p) s
          else remove_item (\<lambda>_. True) root n s)"

definition subdir_names :: "entries \<Rightarrow> name list" where
  "subdir_names cs = map fst (filter (\<lambda>(n, c). is_dir_node c) cs)"

definition walk_key :: "node \<Rightarrow> path \<Rightarrow> nat" where
  "walk_key d q = height d - length q"

function logs_walk :: "bool \<Rightarrow> int \<Rightarrow> path list \<Rightarrow> sweep \<Rightarrow> py_error option \<times> sweep" where
  "logs_walk dry_run cutoff_time [] s = (None, s)"
| "logs_walk dry_run cutoff_time (d # ds) s =
     (case lookup (disk s) d of
        Some (Dir m cs) \<Rightarrow>
          (let s1 = fold (logs_item dry_run cutoff_time d) (map fst cs) s in
           case lookup (disk s1) d of
             Some (Dir m' cs') \<Rightarrow>
               logs_walk dry_run cutoff_time (map (\<lambda>n. d @ [n]) (subdir_names cs') @ ds) s1
           | _ \<Rightarrow> (Some (FileNotFoundError d), s1))
      | _ \<Rightarrow> (Some (FileNotFoundError d), s))"
  by pat_completeness auto
definition clean_old_logs :: "path \<Rightarrow> int \<Rightarrow> bool \<Rightarrow> int \<Rightarrow> world \<Rightarrow> nat outcome" where
  "clean_old_logs logs_path days dry_run now w =
     (let w1 = emit (LogsStart logs_path) w;
          size_before = get_folder_size (disk w1) logs_path in
      if \<not> exists (disk w1) logs_path then (Inr 0, emit (LogsNotFound logs_path) w1)
      else
        (let cutoff_time = now - days * 86400;
             roots = (case lookup (disk w1) logs_path of Some (Dir m cs) \<Rightarrow> [logs_path] | _ \<Rightarrow> []);
             r = logs_walk dry_run cutoff_time roots (start_sweep w1)
         in case fst r of
              Some e \<Rightarrow> (Inl e, end_sweep (snd r))
            | None \<Rightarrow>
                (let size_after = get_folder_size (disk (snd r)) logs_path
                 in (Inr (deleted (snd r)),
                     emit (LogsCleaned (int size_before - int size_after)) (end_sweep (snd r))))))"

lemma remove_item_height: "height (disk (remove_item dir_ok root n s)) \<le> height (disk s)"
  by (auto simp: remove_item_def Let_def height_remove_at height_rmtree_at
      split: option.splits node.splits)

lemma logs_item_height: "height (disk (logs_item dry_run t root n s)) \<le> height (disk s)"
  by (auto simp: logs_item_def Let_def remove_item_height split: option.splits)

lemma fold_logs_item_height:
  "height (disk (fold (logs_item dry_run t root) ns s)) \<le> height (disk s)"
  using fold_transitive [where R = "\<lambda>s t. height (disk t) \<le> height (disk s)"
      and f = "logs_item dry_run t root" and xs = ns and s = s]
  by (meson logs_item_height order_refl order_trans)

lemma walk_decreases:
  assumes le: "height d1 \<le> height d0" and dir: "lookup d1 q = Some (Dir m cs)"
  shows "((height d1, mset (map (walk_key d1) (map (\<lambda>n. q @ [n]) ns @ ds))),
          (height d0, mset (map (walk_key d0) (q # ds)))) \<in> less_than <*lex*> mult less_than"
proof (cases "height d1 < height d0")
  case True
  then show ?thesis by simp
next
  case False
  with le have eq: "height d1 = height d0" by simp
  from lookup_height [OF dir] have "length q < height d1" by simp
  then have "\<forall>b. b \<in># mset (map (walk_key d1) (map (\<lambda>n. q @ [n]) ns)) \<longrightarrow> (b, walk_key d1 q) \<in> less_than"
    by (auto simp: walk_key_def)
  then have "(mset (map (walk_key d1) ds) + mset (map (walk_key d1) (map (\<lambda>n. q @ [n]) ns)),
             add_mset (walk_key d1 q) (mset (map (walk_key d1) ds))) \<in> mult1 less_than"
    by (auto intro: mult1I)
  then have "(mset (map (walk_key d1) (map (\<lambda>n. q @ [n]) ns @ ds)),
              mset (map (walk_key d1) (q # ds))) \<in> mult less_than"
    unfolding mult_def by (simp add: ac_simps)
  with eq show ?thesis unfolding walk_key_def by simp
qed

termination logs_walk
proof (relation "inv_image (less_than <*lex*> mult less_than)
    (\<lambda>(dr, t, ds, s). (height (disk s), mset (map (walk_key (disk s)) ds)))")
  show "wf (inv_image (less_than <*lex*> mult less_than)
    (\<lambda>(dr, t, ds, s). (height (disk s), mset (map (walk_key (disk s)) ds))))"
    by (intro wf_inv_image wf_lex_prod wf_less_than wf_mult)
qed (simp only: in_inv_image split, rule walk_decreases [OF fold_logs_item_height], assumption)

declare logs_walk.simps [simp del]

lemma logs_item_dry_disk: "disk (logs_item True t root n s) = disk s"
  by (simp add: logs_item_def Let_def split: option.splits)

lemma logs_walk_dry_disk: "disk (snd (logs_walk True t ds s)) = disk s"
proof (induction True t ds s rule: logs_walk.induct)
  case (1 cutoff_time s)
  then show ?case by (simp add: logs_walk.simps)
next
  case (2 cutoff_time d ds s)
  have fold_disk: "\<And>ns s. disk (fold (logs_item True cutoff_time d) ns s) = disk s"
    by (rule fold_invariant [where P = "\<lambda>s'. disk s' = disk _"]) (simp_all add: logs_item_dry_disk)
  show ?case
    using 2 by (simp add: logs_walk.simps(2) [of True cutoff_time d ds s] fold_disk Let_def
        split: option.splits node.splits)
qed

lemma clean_old_logs_dry_disk:
  "disk (snd (clean_old_logs p days True now w)) = disk w"
  by (simp add: clean_old_logs_def Let_def logs_walk_dry_disk split: option.splits)

lemma lookup_update_at_parallel_paths:
  "p \<parallel> q \<Longrightarrow> lookup (update_at p f d) q = lookup d q"
  by (auto dest!: parallel_decomp simp: lookup_update_at_parallel)

lemma logs_item_update:
  "\<exists>f. disk (logs_item dry_run t d n s) = update_at (d @ [n]) f (disk s)"
proof (cases "lookup (disk s) (d @ [n])")
  case None
  then show ?thesis
    by (intro exI [of _ Some]) (simp add: logs_item_def Let_def update_at_Some_id)
next
  case (Some c)
  show ?thesis
  proof (cases "\<exists>t'. stat_mtime c = Some t' \<and> \<not> t' > t \<and> \<not> dry_run")
    case True
    then show ?thesis using Some remove_item_step [OF Some, of "\<lambda>_. True"]
      by (auto simp: logs_item_def Let_def)
  next
    case False
    then have "disk (logs_item dry_run t d n s) = disk s"
      using Some by (auto simp: logs_item_def Let_def split: option.splits)
    then show ?thesis by (intro exI [of _ Some]) (simp add: update_at_Some_id)
  qed
qed

lemma logs_item_wf: "wf_node (disk s) \<Longrightarrow> wf_node (disk (logs_item dry_run t d n s))"
  by (auto simp: logs_item_def Let_def remove_item_wf split: option.splits)

text \<open>Processing the entries of \<open>d\<close> keeps \<open>d\<close> a directory and changes nothing beside it.\<close>

lemma fold_logs_item_frame:
  assumes "wf_node (disk s)" and "lookup (disk s) d = Some (Dir m cs)"
  shows "wf_node (disk (fold (logs_item dry_run t d) ns s))
    \<and> (\<exists>m' cs'. lookup (disk (fold (logs_item dry_run t d) ns s)) d = Some (Dir m' cs'))
    \<and> (\<forall>q. d \<parallel> q \<longrightarrow> lookup (disk (fold (logs_item dry_run t d) ns s)) q = lookup (disk s) q)"
proof (rule fold_invariant [where P = "\<lambda>s'. wf_node (disk s') \<and> (\<exists>m' cs'. lookup (disk s') d = Some (Dir m' cs'))
      \<and> (\<forall>q. d \<parallel> q \<longrightarrow> lookup (disk s') q = lookup (disk s) q)"])
  show "wf_node (disk s) \<and> (\<exists>m' cs'. lookup (disk s) d = Some (Dir m' cs'))
      \<and> (\<forall>q. d \<parallel> q \<longrightarrow> lookup (disk s) q = lookup (disk s) q)"
    using assms by simp
next
  fix n and s' :: sweep
  assume inv: "wf_node (disk s') \<and> (\<exists>m' cs'. lookup (disk s') d = Some (Dir m' cs'))
      \<and> (\<forall>q. d \<parallel> q \<longrightarrow> lookup (disk s') q = lookup (disk s) q)"
  obtain f where f: "disk (logs_item dry_run t d n s') = update_at (d @ [n]) f (disk s')"
    using logs_item_update by blast
  from inv obtain m' cs' where l: "lookup (disk s') d = Some (Dir m' cs')" by blast
  have "lookup (disk (logs_item dry_run t d n s')) d = Some (update_at [n] f (Dir m' cs'))"
    using f l lookup_update_at_above [of "[n]" d f "disk s'"] by simp
  moreover have "\<forall>q. d \<parallel> q \<longrightarrow> lookup (disk (logs_item dry_run t d n s')) q = lookup (disk s) q"
    using inv f by (auto simp: lookup_update_at_parallel_paths parallel_append [of d _ "[n]" "[]", simplified])
  ultimately show "wf_node (disk (logs_item dry_run t d n s'))
      \<and> (\<exists>m' cs'. lookup (disk (logs_item dry_run t d n s')) d = Some (Dir m' cs'))
      \<and> (\<forall>q. d \<parallel> q \<longrightarrow> lookup (disk (logs_item dry_run t d n s')) q = lookup (disk s) q)"
    using inv logs_item_wf by simp
qed

lemma sorted_wrt_map_distinct:
  "distinct xs \<Longrightarrow> (\<And>a b. a \<noteq> b \<Longrightarrow> R (f a) (f b)) \<Longrightarrow> sorted_wrt R (map f xs)"
  by (induction xs) (auto, metis)

lemma subdirs_are_dirs:
  "distinct (map fst cs') \<Longrightarrow> n \<in> set (subdir_names cs') \<Longrightarrow> \<exists>m cs. map_of cs' n = Some (Dir m cs)"
proof -
  assume dist: "distinct (map fst cs')" and "n \<in> set (subdir_names cs')"
  then obtain c where "(n, c) \<in> set cs'" and "is_dir_node c"
    by (auto simp: subdir_names_def)
  moreover from this dist have "map_of cs' n = Some c" by simp
  ultimately show ?thesis by (cases c) auto
qed

lemma distinct_subdir_names: "distinct (map fst cs') \<Longrightarrow> distinct (subdir_names cs')"
  unfolding subdir_names_def by (induction cs') auto

text \<open>
  One iteration of the recursive glob keeps its invariant: the worklist holds
  directories of the current disk, no one inside another.  The directory being
  walked is still a directory after its entries are processed, and the new
  worklist (its surviving subdirectories in front of the rest) has the
  invariant again.
\<close>

lemma walk_step_inv:
  assumes wf: "wf_node (disk s)"
    and dirs: "\<forall>q \<in> set (d # ds). \<exists>m cs. lookup (disk s) q = Some (Dir m cs)"
    and sorted: "sorted_wrt (\<parallel>) (d # ds)"
    and l: "lookup (disk s) d = Some (Dir m cs)"
  shows "\<exists>m' cs'. lookup (disk (fold (logs_item dry_run t d) (map fst cs) s)) d = Some (Dir m' cs')
    \<and> wf_node (disk (fold (logs_item dry_run t d) (map fst cs) s))
    \<and> (\<forall>q \<in> set (map (\<lambda>n. d @ [n]) (subdir_names cs') @ ds).
         \<exists>m2 cs2. lookup (disk (fold (logs_item dry_run t d) (map fst cs) s)) q = Some (Dir m2 cs2))
    \<and> sorted_wrt (\<parallel>) (map (\<lambda>n. d @ [n]) (subdir_names cs') @ ds)
    \<and> (\<forall>q. d \<parallel> q \<longrightarrow> lookup (disk (fold (logs_item dry_run t d) (map fst cs) s)) q = lookup (disk s) q)"
proof -
  define s1 where "s1 = fold (logs_item dry_run t d) (map fst cs) s"
  note frame = fold_logs_item_frame [OF wf l, of dry_run t "map fst cs", folded s1_def]
  then obtain m' cs' where l1: "lookup (disk s1) d = Some (Dir m' cs')" by blast
  have wf1: "wf_node (disk s1)" using frame by blast
  have dist': "distinct (map fst cs')" using wf_lookup [OF wf1 l1] by simp
  define ns where "ns = map (\<lambda>n. d @ [n]) (subdir_names cs') @ ds"
  have par: "\<forall>q \<in> set ds. d \<parallel> q" using sorted by simp
  have dirs1: "\<forall>q \<in> set ns. \<exists>m cs. lookup (disk s1) q = Some (Dir m cs)"
  proof
    fix q assume "q \<in> set ns"
    then consider n where "n \<in> set (subdir_names cs')" "q = d @ [n]" | "q \<in> set ds"
      by (auto simp: ns_def)
    then show "\<exists>m cs. lookup (disk s1) q = Some (Dir m cs)"
    proof cases
      case 1
      then obtain m2 cs2 where "map_of cs' n = Some (Dir m2 cs2)"
        using subdirs_are_dirs [OF dist'] by blast
      with 1 l1 show ?thesis by (simp add: lookup_append)
    next
      case 2
      then show ?thesis using frame par dirs by auto
    qed
  qed
  have sorted1: "sorted_wrt (\<parallel>) ns"
    unfolding ns_def sorted_wrt_append
  proof (intro conjI ballI)
    show "sorted_wrt (\<parallel>) (map (\<lambda>n. d @ [n]) (subdir_names cs'))"
      by (rule sorted_wrt_map_distinct [OF distinct_subdir_names [OF dist']])
         (simp add: parallel_def prefix_def)
    show "sorted_wrt (\<parallel>) ds" using sorted by simp
  next
    fix x y assume "x \<in> set (map (\<lambda>n. d @ [n]) (subdir_names cs'))" and "y \<in> set ds"
    then show "x \<parallel> y" using par parallel_append [of d y _ "[]"] by auto
  qed
  show ?thesis
    using l1 wf1 dirs1 sorted1 frame unfolding s1_def [symmetric] ns_def by blast
qed

text \<open>
  The worklist of the recursive glob holds directories of the current disk, no one
  inside another; then listing them never fails and the walk ends without an
  exception.
\<close>

text \<open>Any reflexive, transitive relation (it may depend on the mode and the cutoff) that every loop body respects holds across the walk.\<close>

lemma logs_walk_rel:
  assumes rrefl: "\<And>dr t s. R dr t s s"
    and rtrans: "\<And>dr t s s' s''. R dr t s s' \<Longrightarrow> R dr t s' s'' \<Longrightarrow> R dr t s s''"
    and step: "\<And>dr t d ns s. R dr t s (fold (logs_item dr t d) ns s)"
  shows "R dry_run t s (snd (logs_walk dry_run t ds s))"
proof (induction dry_run t ds s rule: logs_walk.induct)
  case (1 dry_run t s)
  then show ?case by (simp add: logs_walk.simps rrefl)
next
  case (2 dry_run t d ds s)
  show ?case
  proof (cases "\<exists>m cs m' cs'. lookup (disk s) d = Some (Dir m cs)
      \<and> lookup (disk (fold (logs_item dry_run t d) (map fst cs) s)) d = Some (Dir m' cs')")
    case True
    then obtain m cs m' cs' where l: "lookup (disk s) d = Some (Dir m cs)"
      and l1: "lookup (disk (fold (logs_item dry_run t d) (map fst cs) s)) d = Some (Dir m' cs')" by blast
    then show ?thesis
      using "2.IH" [OF l refl refl l1 refl] step [where dr = dry_run and t = t and d = d and ns = "map fst cs" and s = s]
      by (auto simp: logs_walk.simps(2) [of dry_run t d ds s] Let_def intro: rtrans)
  next
    case False
    then show ?thesis
      using step [where dr = dry_run and t = t and d = d and s = s]
      by (auto simp: logs_walk.simps(2) [of dry_run t d ds s] Let_def rrefl split: option.splits node.splits)
  qed
qed

lemma logs_walk_no_error:
  "wf_node (disk s) \<Longrightarrow> (\<forall>q \<in> set ds. \<exists>m cs. lookup (disk s) q = Some (Dir m cs)) \<Longrightarrow>
   sorted_wrt (\<parallel>) ds \<Longrightarrow>
   fst (logs_walk dry_run t ds s) = None \<and> wf_node (disk (snd (logs_walk dry_run t ds s)))"
proof (induction dry_run t ds s rule: logs_walk.induct)
  case (1 dry_run t s)
  then show ?case by (simp add: logs_walk.simps)
next
  case (2 dry_run t d ds s)
  from "2.prems"(2) obtain m cs where l: "lookup (disk s) d = Some (Dir m cs)" by auto
  define s1 where "s1 = fold (logs_item dry_run t d) (map fst cs) s"
  from walk_step_inv [OF "2.prems" l, of dry_run t, folded s1_def]
  obtain m' cs' where l1: "lookup (disk s1) d = Some (Dir m' cs')" and wf1: "wf_node (disk s1)"
    and dirs1: "\<forall>q \<in> set (map (\<lambda>n. d @ [n]) (subdir_names cs') @ ds). \<exists>m cs. lookup (disk s1) q = Some (Dir m cs)"
    and sorted1: "sorted_wrt (\<parallel>) (map (\<lambda>n. d @ [n]) (subdir_names cs') @ ds)"
    by blast
  have "logs_walk dry_run t (d # ds) s = logs_walk dry_run t (map (\<lambda>n. d @ [n]) (subdir_names cs') @ ds) s1"
    by (simp add: logs_walk.simps(2) l l1 Let_def s1_def [symmetric])
  then show ?case
    using "2.IH" [OF l refl s1_def l1 refl] wf1 dirs1 sorted1 by simp
qed

lemma clean_old_logs_outcome:
  assumes "wf_node (disk w)"
  shows "(\<exists>n. fst (clean_old_logs p days dry_run now w) = Inr n)
    \<and> wf_node (disk (snd (clean_old_logs p days dry_run now w)))"
proof -
  let ?w1 = "emit (LogsStart p) w"
  let ?roots = "case lookup (disk ?w1) p of Some (Dir m cs) \<Rightarrow> [p] | _ \<Rightarrow> []"
  have "\<forall>q \<in> set ?roots. \<exists>m cs. lookup (disk (start_sweep ?w1)) q = Some (Dir m cs)"
    by (auto split: option.splits node.splits dest: sym)
  moreover have "sorted_wrt (\<parallel>) ?roots" by (simp split: option.splits node.splits)
  ultimately have "fst (logs_walk dry_run (now - days * 86400) ?roots (start_sweep ?w1)) = None
      \<and> wf_node (disk (snd (logs_walk dry_run (now - days * 86400) ?roots (start_sweep ?w1))))"
    using assms by (intro logs_walk_no_error) simp_all
  then show ?thesis using assms by (simp add: clean_old_logs_def Let_def)
qed

text \<open>
  C7: On a well-formed disk the log cleaner never raises: the recursive glob only
  lists directories that still exist, so \<^verbatim>\<open>clean_old_logs\<close> always returns a
  byte count (and \<^verbatim>\<open>main\<close> never records an error for it).
\<close>

theorem clean_old_logs_no_exception:
  "wf_node (disk w) \<Longrightarrow> \<exists>n. fst (clean_old_logs p days dry_run now w) = Inr n"
  using clean_old_logs_outcome by blast

theorem clean_old_logs_no_exception_witness:
  "wf_node (Dir 0 [(''Logs'', Dir 0 [(''sub'', Dir 0 [(''a.log'', File \<lparr>st_size = 1, st_mtime = 0, stat_ok = True, unlink_ok = False\<rparr>)])])])
   \<and> (\<exists>n. fst (clean_old_logs [''Logs''] 7 False 1000000
        \<lparr>disk = Dir 0 [(''Logs'', Dir 0 [(''sub'', Dir 0 [(''a.log'', File \<lparr>st_size = 1, st_mtime = 0, stat_ok = True, unlink_ok = False\<rparr>)])])],
          journal = []\<rparr>) = Inr n)"
  using clean_old_logs_no_exception [of "\<lparr>disk = Dir 0 [(''Logs'', Dir 0 [(''sub'', Dir 0 [(''a.log'', File \<lparr>st_size = 1, st_mtime = 0, stat_ok = True, unlink_ok = False\<rparr>)])])],
          journal = []\<rparr>" "[''Logs'']" 7 False 1000000]
  by simp

text \<open>
  Finding (a concrete disk): The age test keeps an entry only when its modification time is strictly
  after the cutoff (line 126: \<^verbatim>\<open>if mtime > cutoff_time: continue\<close>), so a log
  modified exactly seven days before \<^verbatim>\<open>now\<close> is deleted; the specification
  (section 8) deletes only logs strictly older than the cutoff.
\<close>

theorem clean_old_logs_deletes_at_cutoff:
  "disk (snd (clean_old_logs [''Logs''] 7 False (7 * 86400)
     \<lparr>disk = Dir 0 [(''Logs'', Dir 0 [(''edge.log'', File \<lparr>st_size = 5, st_mtime = 0, stat_ok = True, unlink_ok = True\<rparr>)])],
      journal = []\<rparr>))
   = Dir 0 [(''Logs'', Dir 0 [])]"
  by (simp add: clean_old_logs_def logs_walk.simps logs_item_def remove_item_def stat_mtime_def
      exists_def subdir_names_def remove_at_def)

text \<open>
  Finding (a concrete disk): A directory is judged by its own modification time and removed as a whole:
  a log directory whose entry list last changed ten days ago is deleted with the
  log written one day ago inside it, although the docstring promises to remove only
  logs older than the given number of days.
\<close>

theorem clean_old_logs_deletes_fresh_log_in_old_dir:
  "lookup (disk (snd (clean_old_logs [''Logs''] 7 False (10 * 86400)
     \<lparr>disk = Dir 0 [(''Logs'', Dir 0 [(''app'', Dir 0 [(''today.log'', File \<lparr>st_size = 5, st_mtime = 9 * 86400, stat_ok = True, unlink_ok = True\<rparr>)])])],
      journal = []\<rparr>))) [''Logs'', ''app'', ''today.log'']
   = None"
  by (simp add: clean_old_logs_def logs_walk.simps logs_item_def remove_item_def stat_mtime_def
      exists_def subdir_names_def rmtree_at_def Let_def)

end
