(* ===== verification/Recycle_Bin.thy ===== *)
theory Recycle_Bin
  imports Folder_Size
begin

text \<open>
  \<^verbatim>\<open>clean_recycle_bin(dry_run)\<close> (\<^verbatim>\<open>src/cleanup.py\<close>, lines 147--166): no
  enumeration; \<^verbatim>\<open>C:\$Recycle.Bin\<close> is measured, removed in bulk by
  \<^verbatim>\<open>rd /s /q\<close> through the shell, and measured again (0 when it is gone).  The
  freed amount is \<^verbatim>\<open>size_before - size_after\<close>, a Python \<^verbatim>\<open>int\<close>.  The
  shell command's exit status is not inspected (\<^verbatim>\<open>subprocess.run\<close> without
  \<^verbatim>\<open>check\<close>), so nothing in the modelled body raises and the
  \<^verbatim>\<open>except\<close> branch is not reached; \<^verbatim>\<open>rd\<close> on a path that is not a
  directory changes nothing.
\<close>

definition recycle_bin_path :: path where
  "recycle_bin_path = [''C:'', ''$Recycle.Bin'']"

definition rd_s_q :: "path \<Rightarrow> node \<Rightarrow> node" where
  "rd_s_q p fs = (case lookup fs p of Some (Dir m cs) \<Rightarrow> rmtree_at p fs | _ \<Rightarrow> fs)"

definition clean_recycle_bin :: "bool \<Rightarrow> world \<Rightarrow> int outcome" where
  "clean_recycle_bin dry_run w =
     (let w1 = emit RecycleStart w in
      if dry_run then (Inr 0, emit RecycleWouldClear w1)
      else if \<not> exists (disk w1) recycle_bin_path then (Inr 0, emit RecycleNotFound w1)
      else
        (let size_before = get_folder_size (disk w1) recycle_bin_path;
             d2 = rd_s_q recycle_bin_path (disk w1);
             size_after = (if exists d2 recycle_bin_path then get_folder_size d2 recycle_bin_path else 0);
             deleted_size = int size_before - int size_after
         in (Inr deleted_size, emit (RecycleCleared deleted_size) (w1\<lparr>disk := d2\<rparr>))))"

lemma clean_recycle_bin_dry: "clean_recycle_bin True w = (Inr 0, emit RecycleWouldClear (emit RecycleStart w))"
  by (simp add: clean_recycle_bin_def)

lemma sum_list_filter_split:
  fixes g :: "'a \<Rightarrow> nat"
  shows "sum_list (map g xs) = sum_list (map g (filter P xs)) + sum_list (map g (filter (\<lambda>x. \<not> P x) xs))"
  by (induction xs) (simp_all add: ac_simps)

lemma disk_usage_all_ok:
  "list_all stat_ok (node_files n) \<Longrightarrow> disk_usage n = sum_list (map st_size (node_files n))"
  by (simp add: disk_usage_def list_all_iff)

lemma rd_s_q_dir: "lookup fs p = Some (Dir m cs) \<Longrightarrow> rd_s_q p fs = update_at p rmtree fs"
  by (simp add: rd_s_q_def rmtree_at_def)

lemma recycle_real_outcome:
  assumes wf: "wf_node (disk w)" and bin: "lookup (disk w) recycle_bin_path = Some (Dir m cs)"
    and ok: "list_all stat_ok (entries_files cs)"
  shows "fst (clean_recycle_bin False w)
       = Inr (int (sum_list (map st_size (filter unlink_ok (entries_files cs)))))"
proof -
  let ?n = "Dir m cs"
  let ?d2 = "rd_s_q recycle_bin_path (disk w)"
  have ne: "recycle_bin_path \<noteq> []" by (simp add: recycle_bin_path_def)
  have before: "get_folder_size (disk w) recycle_bin_path = sum_list (map st_size (entries_files cs))"
    using get_folder_size_all_ok [OF bin] ok bin disk_usage_all_ok [of ?n]
    by (simp add: measure_spec_def)
  have d2: "?d2 = update_at recycle_bin_path (\<lambda>_. rmtree ?n) (disk w)"
    using rd_s_q_dir [OF bin] update_at_cong_lookup [OF bin, of rmtree] by simp
  show ?thesis
  proof (cases "rmtree ?n")
    case None
    then have "filter locked (entries_files cs) = []" using rmtree_files(1) [of ?n] by simp
    moreover have "\<not> exists ?d2 recycle_bin_path"
      using d2 None lookup_update_at_removed [OF wf ne bin, of "\<lambda>_. None"] by (simp add: exists_def)
    ultimately show ?thesis using before sum_list_filter_split [of st_size "entries_files cs" unlink_ok] bin
      by (simp add: clean_recycle_bin_def Let_def exists_def)
  next
    case (Some n')
    have files': "node_files n' = filter locked (entries_files cs)"
      using rmtree_files(1) [of ?n] Some by simp
    have l2: "lookup ?d2 recycle_bin_path = Some n'"
      using d2 Some lookup_update_at_same [OF ne bin, of "\<lambda>_. rmtree ?n"] by simp
    have ok': "list_all stat_ok (node_files n')" using ok files' by (simp add: list_all_iff)
    obtain m' cs' where n': "n' = Dir m' cs'"
      using Some by (auto simp: Let_def split: if_splits)
    have after: "get_folder_size ?d2 recycle_bin_path = sum_list (map st_size (filter locked (entries_files cs)))"
      using get_folder_size_all_ok [OF l2 ok'] l2 n' disk_usage_all_ok [OF ok'] files'
      by (simp add: measure_spec_def)
    show ?thesis using before after l2 bin sum_list_filter_split [of st_size "entries_files cs" unlink_ok]
      by (simp add: clean_recycle_bin_def Let_def exists_def)
  qed
qed

text \<open>
  C10: When every file in the recycle bin can be read, a real run reports exactly
  the bytes of the files \<^verbatim>\<open>rd /s /q\<close> could delete: never negative, never more
  than the bin held.
\<close>

theorem clean_recycle_bin_freed:
  "wf_node (disk w) \<Longrightarrow> lookup (disk w) recycle_bin_path = Some (Dir m cs) \<Longrightarrow>
   list_all stat_ok (entries_files cs) \<Longrightarrow>
   fst (clean_recycle_bin False w) = Inr (int (sum_list (map st_size (filter unlink_ok (entries_files cs)))))"
  by (rule recycle_real_outcome)

theorem clean_recycle_bin_freed_witness:
  "wf_node (Dir 0 [(''C:'', Dir 0 [(''$Recycle.Bin'', Dir 0 [(''a'', File \<lparr>st_size = 8, st_mtime = 0, stat_ok = True, unlink_ok = True\<rparr>),
                                                      (''b'', File \<lparr>st_size = 5, st_mtime = 0, stat_ok = True, unlink_ok = False\<rparr>)])])])
   \<and> fst (clean_recycle_bin False
        \<lparr>disk = Dir 0 [(''C:'', Dir 0 [(''$Recycle.Bin'', Dir 0 [(''a'', File \<lparr>st_size = 8, st_mtime = 0, stat_ok = True, unlink_ok = True\<rparr>),
                                                      (''b'', File \<lparr>st_size = 5, st_mtime = 0, stat_ok = True, unlink_ok = False\<rparr>)])])],
          journal = []\<rparr>) = Inr 8"
  using clean_recycle_bin_freed [of "\<lparr>disk = Dir 0 [(''C:'', Dir 0 [(''$Recycle.Bin'', Dir 0 [(''a'', File \<lparr>st_size = 8, st_mtime = 0, stat_ok = True, unlink_ok = True\<rparr>),
                                                      (''b'', File \<lparr>st_size = 5, st_mtime = 0, stat_ok = True, unlink_ok = False\<rparr>)])])],
          journal = []\<rparr>" 0 "[(''a'', File \<lparr>st_size = 8, st_mtime = 0, stat_ok = True, unlink_ok = True\<rparr>),
                                                      (''b'', File \<lparr>st_size = 5, st_mtime = 0, stat_ok = True, unlink_ok = False\<rparr>)]"]
  by (simp add: recycle_bin_path_def)

text \<open>
  Finding (a concrete disk): The recycle-bin cleaner can report a negative amount: when the first entry of
  the bin cannot be measured, \<^verbatim>\<open>size_before\<close> stops at 0, and once \<^verbatim>\<open>rd\<close> has
  removed that entry a locked 100-byte file that stays is measured afterwards, so
  the run returns -100 and lowers the total of \<^verbatim>\<open>main\<close>; the specification requires
  freed bytes never to be negative.
\<close>

theorem clean_recycle_bin_negative:
  "fst (clean_recycle_bin False
     \<lparr>disk = Dir 0 [(''C:'', Dir 0 [(''$Recycle.Bin'', Dir 0 [(''link'', File \<lparr>st_size = 0, st_mtime = 0, stat_ok = False, unlink_ok = True\<rparr>),
                                                    (''big'', File \<lparr>st_size = 100, st_mtime = 0, stat_ok = True, unlink_ok = False\<rparr>)])])],
      journal = []\<rparr>) = Inr (-100)"
  by (simp add: clean_recycle_bin_def recycle_bin_path_def rd_s_q_def rmtree_at_def exists_def
      get_folder_size_def Let_def)

lemma clean_recycle_bin_wf:
  "wf_node (disk w) \<Longrightarrow> wf_node (disk (snd (clean_recycle_bin dry_run w)))"
  by (auto simp: clean_recycle_bin_def Let_def rd_s_q_def wf_rmtree_at split: option.splits node.splits)

lemma clean_recycle_bin_Inr: "\<exists>n. fst (clean_recycle_bin dry_run w) = Inr n"
  by (simp add: clean_recycle_bin_def Let_def)

end
