(* ===== verification/Notification.thy ===== *)
theory Notification
  imports Effects
begin

text \<open>
  The text of the Telegram message \<^verbatim>\<open>main\<close> builds (\<^verbatim>\<open>src/cleanup.py\<close>,
  lines 214--216): the freed amount as \<^verbatim>\<open>f"{total_deleted / 1024 / 1024:.2f}"\<close>
  and the \<^verbatim>\<open>str(e)\<close> of the collected exceptions joined by \<^verbatim>\<open>", "\<close>.
  The reader functions \<open>read_nat\<close> and \<open>read_hundredths\<close> are not part of
  the program: they parse the printed number back, so that the round-trip lemmas
  say what the printed text means.
\<close>

text \<open>\<^verbatim>\<open>str(n)\<close> of a natural number.\<close>

fun show_nat :: "nat \<Rightarrow> string" where
  "show_nat n = (if n < 10 then [''0123456789'' ! n] else show_nat (n div 10) @ [''0123456789'' ! (n mod 10)])"

text \<open>\<open>a / b\<close> rounded to an integer, halves to even (as \<^verbatim>\<open>format\<close> rounds).\<close>

definition round_half_even :: "nat \<Rightarrow> nat \<Rightarrow> nat" where
  "round_half_even a b =
     (let q = a div b; r = a mod b in
      if 2 * r > b then q + 1 else if 2 * r < b then q else if even q then q else q + 1)"

text \<open>
  \<^verbatim>\<open>f"{n / 1024 / 1024:.2f}"\<close> for an integer \<open>n\<close>: the quotient \<open>n / 2^20\<close>
  is exact in a double for \<open>|n| < 2^53\<close>, and \<^verbatim>\<open>.2f\<close> rounds that exact value to
  two decimals, halves to even, with a minus sign for a negative value even when
  it rounds to zero.
\<close>

definition format_mb :: "int \<Rightarrow> string" where
  "format_mb n =
     (let q = round_half_even (nat \<bar>n\<bar> * 100) 1048576
      in (if n < 0 then ''-'' else []) @ show_nat (q div 100) @ ''.''
         @ show_nat (q mod 100 div 10) @ show_nat (q mod 10))"

fun join_str :: "string \<Rightarrow> string list \<Rightarrow> string" where
  "join_str sep [] = []"
| "join_str sep [x] = x"
| "join_str sep (x # y # zs) = x @ sep @ join_str sep (y # zs)"

definition render_path :: "path \<Rightarrow> string" where
  "render_path p = join_str [CHR 0x5C] p"

fun py_error_str :: "py_error \<Rightarrow> string" where
  "py_error_str (TypeError s) = s"
| "py_error_str (FileNotFoundError p) =
     ''[WinError 3] The system cannot find the path specified: '' @ [CHR 0x27] @ render_path p @ [CHR 0x27]"
| "py_error_str (PermissionError p) =
     ''[WinError 5] Access is denied: '' @ [CHR 0x27] @ render_path p @ [CHR 0x27]"
| "py_error_str (FileExistsError p) =
     ''[WinError 183] Cannot create a file when that file already exists: '' @ [CHR 0x27] @ render_path p @ [CHR 0x27]"

text \<open>The Russian literals of lines 214 and 216 ("cleanup finished, freed:" and "errors:"), as the UTF-8 bytes of the source.\<close>

definition done_text :: string where
  "done_text = [CHR 0xD0, CHR 0x9E, CHR 0xD1, CHR 0x87, CHR 0xD0, CHR 0xB8, CHR 0xD1, CHR 0x81,
     CHR 0xD1, CHR 0x82, CHR 0xD0, CHR 0xBA, CHR 0xD0, CHR 0xB0, CHR 0x20, CHR 0xD0, CHR 0xB7,
     CHR 0xD0, CHR 0xB0, CHR 0xD0, CHR 0xB2, CHR 0xD0, CHR 0xB5, CHR 0xD1, CHR 0x80, CHR 0xD1,
     CHR 0x88, CHR 0xD0, CHR 0xB5, CHR 0xD0, CHR 0xBD, CHR 0xD0, CHR 0xB0, CHR 0x2E, CHR 0x20,
     CHR 0xD0, CHR 0x9E, CHR 0xD1, CHR 0x81, CHR 0xD0, CHR 0xB2, CHR 0xD0, CHR 0xBE, CHR 0xD0,
     CHR 0xB1, CHR 0xD0, CHR 0xBE, CHR 0xD0, CHR 0xB6, CHR 0xD0, CHR 0xB4, CHR 0xD0, CHR 0xB5,
     CHR 0xD0, CHR 0xBD, CHR 0xD0, CHR 0xBE, CHR 0x3A, CHR 0x20]"

definition errors_text :: string where
  "errors_text = [CHR 0x0A, CHR 0xD0, CHR 0x9E, CHR 0xD1, CHR 0x88, CHR 0xD0, CHR 0xB8, CHR 0xD0,
     CHR 0xB1, CHR 0xD0, CHR 0xBA, CHR 0xD0, CHR 0xB8, CHR 0x3A, CHR 0x20]"

definition notification_message :: "int \<Rightarrow> py_error list \<Rightarrow> string" where
  "notification_message total_deleted errs =
     done_text @ format_mb total_deleted @ '' MB.''
     @ (if errs = [] then [] else errors_text @ join_str '', '' (map py_error_str errs))"

text \<open>Reading a printed number back: decimal digits, and a signed amount with two decimals.\<close>

definition digit_val :: "char \<Rightarrow> nat" where
  "digit_val c = of_char c - 48"

definition read_nat :: "string \<Rightarrow> nat" where
  "read_nat s = foldl (\<lambda>acc c. 10 * acc + digit_val c) 0 s"

definition read_hundredths :: "string \<Rightarrow> int" where
  "read_hundredths s =
     (let neg = (take 1 s = ''-'');
          t = (if neg then drop 1 s else s);
          v = int (100 * read_nat (takeWhile (\<lambda>c. c \<noteq> CHR ''.'') t)
                   + read_nat (drop 1 (dropWhile (\<lambda>c. c \<noteq> CHR ''.'') t)))
      in if neg then - v else v)"

lemma format_mb_example: "format_mb 1572864 = ''1.50''"
  by (simp add: format_mb_def round_half_even_def show_nat.simps)

declare show_nat.simps [simp del]

lemma show_nat_small [simp]: "n < 10 \<Longrightarrow> show_nat n = [''0123456789'' ! n]"
  by (simp add: show_nat.simps)

lemma show_nat_large: "\<not> n < 10 \<Longrightarrow> show_nat n = show_nat (n div 10) @ [''0123456789'' ! (n mod 10)]"
  by (simp add: show_nat.simps)

lemma digit_char: "n < 10 \<Longrightarrow> digit_val (''0123456789'' ! n) = n \<and> ''0123456789'' ! n \<noteq> CHR ''.'' \<and> ''0123456789'' ! n \<noteq> CHR ''-''"
  by (auto simp: digit_val_def numeral_eq_Suc less_Suc_eq)

lemma read_nat_snoc: "read_nat (xs @ [c]) = 10 * read_nat xs + digit_val c"
  by (simp add: read_nat_def)

lemma show_nat_chars: "c \<in> set (show_nat n) \<Longrightarrow> c \<noteq> CHR ''.'' \<and> c \<noteq> CHR ''-''"
proof (induction n rule: show_nat.induct)
  case (1 n)
  then show ?case using digit_char [of n] digit_char [of "n mod 10"]
    by (cases "n < 10") (auto simp: show_nat_large)
qed

lemma round_half_even_nearest:
  assumes "0 < b"
  shows "2 * \<bar>int (round_half_even a b) * int b - int a\<bar> \<le> int b"
proof -
  have "a = a div b * b + a mod b" by simp
  then have a: "int a = int (a div b) * int b + int (a mod b)" by (metis of_nat_add of_nat_mult)
  have r: "a mod b < b" using assms by simp
  show ?thesis
    using a r unfolding round_half_even_def Let_def by (auto simp: algebra_simps)
qed

text \<open>The digits \<open>show_nat\<close> prints read back to the number.\<close>

lemma read_show_nat: "read_nat (show_nat n) = n"
proof (induction n rule: show_nat.induct)
  case (1 n)
  show ?case
  proof (cases "n < 10")
    case True
    then show ?thesis using digit_char [of n] by (simp add: read_nat_def)
  next
    case False
    then have "read_nat (show_nat n) = 10 * read_nat (show_nat (n div 10)) + n mod 10"
      using digit_char [of "n mod 10"] by (simp add: show_nat_large read_nat_snoc)
    then show ?thesis using 1 False by simp
  qed
qed

lemma show_nat_nonempty: "show_nat n \<noteq> []"
  by (cases "n < 10") (simp_all add: show_nat_large)

lemma read_hundredths_format:
  "read_hundredths (format_mb n)
   = (if n < 0 then - int (round_half_even (nat \<bar>n\<bar> * 100) 1048576)
      else int (round_half_even (nat \<bar>n\<bar> * 100) 1048576))"
proof -
  define q where "q = round_half_even (nat \<bar>n\<bar> * 100) 1048576"
  define body where "body = show_nat (q div 100) @ ''.'' @ show_nat (q mod 100 div 10) @ show_nat (q mod 10)"
  have d1: "show_nat (q mod 100 div 10) = [''0123456789'' ! (q mod 100 div 10)]" by simp
  have d2: "show_nat (q mod 10) = [''0123456789'' ! (q mod 10)]" by simp
  have nodot: "\<And>c. c \<in> set (show_nat (q div 100)) \<Longrightarrow> c \<noteq> CHR ''.''" using show_nat_chars by blast
  have tw: "takeWhile (\<lambda>c. c \<noteq> CHR ''.'') body = show_nat (q div 100)"
    unfolding body_def by (simp add: takeWhile_append2 nodot)
  have dw: "drop 1 (dropWhile (\<lambda>c. c \<noteq> CHR ''.'') body)
      = [''0123456789'' ! (q mod 100 div 10), ''0123456789'' ! (q mod 10)]"
    unfolding body_def by (simp add: dropWhile_append2 nodot d1 d2)
  have "q mod 100 mod 10 = q mod 10" by (rule mod_mod_cancel) simp
  then have "q mod 100 = 10 * (q mod 100 div 10) + q mod 10"
    using div_mult_mod_eq [of "q mod 100" 10] by linarith
  then have frac: "read_nat [''0123456789'' ! (q mod 100 div 10), ''0123456789'' ! (q mod 10)] = q mod 100"
    using digit_char [of "q mod 100 div 10"] digit_char [of "q mod 10"]
    by (simp add: read_nat_def)
  have val: "100 * read_nat (show_nat (q div 100)) + q mod 100 = q"
    by (simp add: read_show_nat)
  have first: "take 1 body \<noteq> ''-''"
    using show_nat_chars [of _ "q div 100"] show_nat_nonempty [of "q div 100"]
    unfolding body_def by (cases "show_nat (q div 100)") auto
  have fmt: "format_mb n = (if n < 0 then ''-'' else []) @ body"
    by (simp add: format_mb_def body_def q_def Let_def)
  show ?thesis
    using tw dw frac val first unfolding fmt q_def [symmetric]
    by (auto simp: read_hundredths_def Let_def)
qed

text \<open>
  C15: The amount printed in the notification reads back to the freed byte count
  in megabytes within half a hundredth: \<^verbatim>\<open>:.2f\<close> of \<open>n / 2^20\<close> is the
  nearest two-decimal value, with the sign of \<open>n\<close>.
\<close>

theorem format_mb_roundtrip:
  "2 * \<bar>read_hundredths (format_mb n) * 1048576 - 100 * n\<bar> \<le> 1048576"
proof -
  define q where "q = round_half_even (nat \<bar>n\<bar> * 100) 1048576"
  have "int (nat \<bar>n\<bar> * 100) = 100 * \<bar>n\<bar>" by simp
  then have near: "2 * \<bar>int q * 1048576 - 100 * \<bar>n\<bar>\<bar> \<le> 1048576"
    using round_half_even_nearest [of 1048576 "nat \<bar>n\<bar> * 100"] unfolding q_def by (simp add: mult.commute)
  show ?thesis
  proof (cases "n < 0")
    case True
    then have "read_hundredths (format_mb n) * 1048576 - 100 * n = - (int q * 1048576 - 100 * \<bar>n\<bar>)"
      unfolding read_hundredths_format q_def [symmetric] using True by simp
    then show ?thesis using near by (simp only: abs_minus_cancel)
  next
    case False
    then have "read_hundredths (format_mb n) * 1048576 - 100 * n = int q * 1048576 - 100 * \<bar>n\<bar>"
      unfolding read_hundredths_format q_def [symmetric] using False by simp
    then show ?thesis using near by simp
  qed
qed

end
