(* ===== verification/Orchestrator.thy ===== *)
theory Orchestrator
  imports Browser_Cache System_Folder Old_Logs Recycle_Bin Notification
begin

text \<open>
  \<^verbatim>\<open>main()\<close> (\<^verbatim>\<open>src/cleanup.py\<close>, lines 168--222) and the Telegram
  notification it sends (\<^verbatim>\<open>send_telegram_message\<close>, lines 24--31).  The
  environment the script reads (\<^verbatim>\<open>TEMP\<close>, \<^verbatim>\<open>LOCALAPPDATA\<close>,
  \<^verbatim>\<open>TELEGRAM_BOT_TOKEN\<close>, \<^verbatim>\<open>TELEGRAM_CHAT_ID\<close>), the clock
  \<^verbatim>\<open>datetime.now()\<close> and the outcome of the Telegram request (\<open>None\<close> when it is delivered, the text of the exception otherwise) are inputs; the run
  state extends the world with \<^verbatim>\<open>total_deleted\<close>, \<^verbatim>\<open>errors\<close> and the
  messages handed to the Telegram bot.
\<close>

record config =
  env_temp :: "path option"
  env_localappdata :: "path option"
  env_token :: "string option"
  env_chat_id :: "string option"
  clock :: int
  telegram_error :: "string option"

record run = world +
  total_deleted :: int
  errors :: "py_error list"
  sent :: "(string \<times> string \<times> string) list"

definition windows_temp :: path where
  "windows_temp = [''C:'', ''Windows'', ''Temp'']"

definition software_distribution_download :: path where
  "software_distribution_download = [''C:'', ''Windows'', ''SoftwareDistribution'', ''Download'']"

definition windows_logs :: path where
  "windows_logs = [''C:'', ''Windows'', ''Logs'']"

text \<open>The targets in the order \<^verbatim>\<open>main\<close> sweeps them.\<close>

definition main_targets :: "config \<Rightarrow> target_kind list" where
  "main_targets cfg =
     [YandexCache, SystemFolder (env_temp cfg), SystemFolder (Some windows_temp),
      SystemFolder (Some software_distribution_download), OldLogs windows_logs 7, RecycleBin]"

fun clean_target :: "config \<Rightarrow> bool \<Rightarrow> target_kind \<Rightarrow> world \<Rightarrow> int outcome" where
  "clean_target cfg dry_run YandexCache w =
     apfst (map_sum id int) (clean_yandex_browser_cache dry_run None (env_localappdata cfg) w)"
| "clean_target cfg dry_run (SystemFolder f) w = apfst (map_sum id int) (clean_system_folder f dry_run w)"
| "clean_target cfg dry_run (OldLogs p days) w =
     apfst (map_sum id int) (clean_old_logs p days dry_run (clock cfg) w)"
| "clean_target cfg dry_run RecycleBin w = clean_recycle_bin dry_run w"

text \<open>One \<^verbatim>\<open>try: total_deleted += clean_...() except Exception as e: ...\<close> block.\<close>

definition run_target :: "config \<Rightarrow> bool \<Rightarrow> target_kind \<Rightarrow> run \<Rightarrow> run" where
  "run_target cfg dry_run t r =
     (let res = clean_target cfg dry_run t \<lparr>disk = disk r, journal = journal r\<rparr>;
          r1 = r\<lparr>disk := disk (snd res), journal := journal (snd res)\<rparr>
      in case fst res of
           Inl e \<Rightarrow> (emit (TargetFailed t e) r1)\<lparr>errors := errors r1 @ [e]\<rparr>
         | Inr n \<Rightarrow> r1\<lparr>total_deleted := total_deleted r1 + n\<rparr>)"

text \<open>
  Lines 212--220: the message is handed to the bot only outside a dry run and
  with both credentials non-empty; the delivery outcome is logged and never
  raised (\<^verbatim>\<open>send_telegram_message\<close> catches everything).
\<close>

definition send_telegram_message :: "string option \<Rightarrow> string \<Rightarrow> string \<Rightarrow> string \<Rightarrow> run \<Rightarrow> run" where
  "send_telegram_message failure token chat_id message r =
     emit (case failure of None \<Rightarrow> TelegramSent | Some msg \<Rightarrow> TelegramFailed msg)
       (r\<lparr>sent := sent r @ [(token, chat_id, message)]\<rparr>)"

definition notify :: "config \<Rightarrow> bool \<Rightarrow> string \<Rightarrow> run \<Rightarrow> run" where
  "notify cfg dry_run message r =
     (case (env_token cfg, env_chat_id cfg) of
        (Some token, Some chat_id) \<Rightarrow>
          if \<not> dry_run \<and> token \<noteq> [] \<and> chat_id \<noteq> [] then
            send_telegram_message (telegram_error cfg) token chat_id message r
          else if token = [] \<or> chat_id = [] then emit TelegramMissing r
          else r
      | _ \<Rightarrow> emit TelegramMissing r)"

definition main :: "config \<Rightarrow> bool \<Rightarrow> world \<Rightarrow> run" where
  "main cfg dry_run w =
     (let r0 = \<lparr>disk = disk w, journal = journal w @ [ScriptStart],
                total_deleted = 0, errors = [], sent = []\<rparr>;
          r1 = fold (run_target cfg dry_run) (main_targets cfg) r0;
          message = notification_message (total_deleted r1) (errors r1);
          r2 = notify cfg dry_run message r1
      in emit (Finished (total_deleted r1)) r2)"

text \<open>The exception a target raises out of its cleaner, by the code's own reading of the environment.\<close>

fun target_error :: "config \<Rightarrow> target_kind \<Rightarrow> py_error option" where
  "target_error cfg YandexCache = (if env_localappdata cfg = None then Some join_none_error else None)"
| "target_error cfg (SystemFolder None) = Some stat_none_error"
| "target_error cfg t = None"

lemma clean_target_dry_disk: "disk (snd (clean_target cfg True t w)) = disk w"
  by (cases t) (simp_all add: clean_yandex_dry_disk clean_system_folder_dry_disk
      clean_old_logs_dry_disk clean_recycle_bin_dry)

lemma run_target_dry_disk: "disk (run_target cfg True t r) = disk r"
  using clean_target_dry_disk [of cfg t "\<lparr>disk = disk r, journal = journal r\<rparr>"]
  by (simp add: run_target_def Let_def split: sum.splits)

lemma send_telegram_message_fields [simp]:
  "disk (send_telegram_message ok token chat_id msg r) = disk r"
  "errors (send_telegram_message ok token chat_id msg r) = errors r"
  "sent (send_telegram_message ok token chat_id msg r) = sent r @ [(token, chat_id, msg)]"
  "total_deleted (send_telegram_message ok token chat_id msg r) = total_deleted r"
  by (simp_all add: send_telegram_message_def emit_def)

lemma emit_run_fields [simp]:
  "sent (emit e r) = sent r" "errors (emit e r) = errors r" "total_deleted (emit e r) = total_deleted r"
  by (simp_all add: emit_def)

lemma notify_disk [simp]: "disk (notify cfg d msg r) = disk r"
  by (simp add: notify_def split: option.splits)

text \<open>
  C1: A dry run of the whole script (\<^verbatim>\<open>--dry-run\<close>) leaves the disk exactly as it
  was, whatever the environment and the disk hold: no cleaner deletes anything.
\<close>

theorem main_dry_run_keeps_disk: "disk (main cfg True w) = disk w"
proof -
  have "\<And>ts r. disk (fold (run_target cfg True) ts r) = disk r"
    by (rule fold_keeps_disk) (rule run_target_dry_disk)
  then show ?thesis by (simp add: main_def Let_def)
qed

lemma clean_target_outcome:
  "wf_node (disk w) \<Longrightarrow> wf_node (disk (snd (clean_target cfg dry_run t w)))
   \<and> (case fst (clean_target cfg dry_run t w) of Inl e \<Rightarrow> Some e | Inr n \<Rightarrow> None) = target_error cfg t"
proof (cases t)
  case YandexCache
  assume "wf_node (disk w)"
  then show ?thesis using YandexCache clean_yandex_result [where dry_run = dry_run and env = "env_localappdata cfg" and w = w]
    by (auto simp: clean_yandex_wf)
next
  case (SystemFolder f)
  assume "wf_node (disk w)"
  then show ?thesis using SystemFolder clean_system_folder_wf [of w f dry_run]
  proof (cases f)
    case (Some p)
    then show ?thesis using SystemFolder clean_system_folder_wf [of w f dry_run] \<open>wf_node (disk w)\<close>
      clean_system_folder_Some [of p dry_run w] by auto
  qed (simp add: clean_system_folder_def Let_def)
next
  case (OldLogs p days)
  assume "wf_node (disk w)"
  then show ?thesis using OldLogs clean_old_logs_outcome [of w p days dry_run "clock cfg"] by auto
next
  case RecycleBin
  assume "wf_node (disk w)"
  then show ?thesis using RecycleBin clean_recycle_bin_Inr [of True w] clean_recycle_bin_Inr [of False w]
    by (cases dry_run) (auto simp: clean_recycle_bin_wf)
qed

lemma clean_target_wf:
  "wf_node (disk w) \<Longrightarrow> wf_node (disk (snd (clean_target cfg dry_run t w)))"
  using clean_target_outcome by blast

lemma run_target_wf:
  "wf_node (disk r) \<Longrightarrow> wf_node (disk (run_target cfg dry_run t r))"
  using clean_target_wf [of "\<lparr>disk = disk r, journal = journal r\<rparr>" cfg dry_run t]
  by (simp add: run_target_def Let_def split: sum.splits)

lemma run_target_step:
  assumes "wf_node (disk r)"
  shows "errors (run_target cfg dry_run t r) = errors r @ (case target_error cfg t of None \<Rightarrow> [] | Some e \<Rightarrow> [e])
    \<and> sent (run_target cfg dry_run t r) = sent r"
  using clean_target_outcome [of "\<lparr>disk = disk r, journal = journal r\<rparr>" cfg dry_run t] assms
  by (auto simp: run_target_def Let_def split: sum.splits dest: sym)

lemma fold_run_targets:
  "wf_node (disk r) \<Longrightarrow>
   errors (fold (run_target cfg dry_run) ts r)
       = errors r @ concat (map (\<lambda>t. case target_error cfg t of None \<Rightarrow> [] | Some e \<Rightarrow> [e]) ts)"
  by (induction ts arbitrary: r) (simp_all add: run_target_step run_target_wf)

lemma notify_sent:
  "sent (notify cfg dry_run msg r)
   = (if \<not> dry_run \<and> py_truthy (env_token cfg) \<and> py_truthy (env_chat_id cfg)
      then sent r @ [(the (env_token cfg), the (env_chat_id cfg), msg)] else sent r)"
  by (auto simp: notify_def split: option.splits)

lemma notify_wf_errors [simp]:
  "errors (notify cfg dry_run msg r) = errors r"
  by (simp add: notify_def split: option.splits)

lemma notify_total [simp]: "total_deleted (notify cfg dry_run msg r) = total_deleted r"
  by (simp add: notify_def split: option.splits)

lemma fold_run_target_sent: "sent (fold (run_target cfg dry_run) ts r) = sent r"
  by (induction ts arbitrary: r) (simp_all add: run_target_def Let_def split: sum.splits)

text \<open>What a run hands to the bot, and its last log record (line 222).\<close>

lemma main_sent:
  "sent (main cfg dry_run w) =
   (if \<not> dry_run \<and> py_truthy (env_token cfg) \<and> py_truthy (env_chat_id cfg)
    then [(the (env_token cfg), the (env_chat_id cfg),
           notification_message (total_deleted (main cfg dry_run w)) (errors (main cfg dry_run w)))]
    else [])"
  by (simp add: main_def Let_def notify_sent fold_run_target_sent)

lemma main_sent_message:
  "list_all (\<lambda>(token, chat_id, msg).
      msg = notification_message (total_deleted (main cfg dry_run w)) (errors (main cfg dry_run w)))
    (sent (main cfg dry_run w))"
  by (simp add: main_def Let_def notify_def send_telegram_message_def fold_run_target_sent emit_def
      split: option.splits)

lemma main_journal_last: "last (journal (main cfg dry_run w)) = Finished (total_deleted (main cfg dry_run w))"
  by (simp add: main_def Let_def emit_def)

text \<open>
  C6: On a well-formed disk the only exceptions \<^verbatim>\<open>main\<close> collects are the two
  \<^verbatim>\<open>TypeError\<close>s of an unset environment: \<^verbatim>\<open>LOCALAPPDATA\<close> (browser cache)
  and \<^verbatim>\<open>TEMP\<close> (first system folder), in that order; every other target runs
  without escaping exception, and a failing target never stops the later ones.
\<close>

theorem main_errors:
  assumes "wf_node (disk w)"
  shows "errors (main cfg dry_run w)
   = (if env_localappdata cfg = None then [join_none_error] else [])
     @ (if env_temp cfg = None then [stat_none_error] else [])"
  using fold_run_targets [of "\<lparr>disk = disk w, journal = journal w @ [ScriptStart],
      total_deleted = 0, errors = [], sent = []\<rparr>" cfg dry_run "main_targets cfg"] assms
  by (auto simp: main_def Let_def main_targets_def)


theorem main_errors_witness:
  "errors (main \<lparr>env_temp = None, env_localappdata = Some [''C:'', ''Users'', ''u'', ''AppData'', ''Local''],
      env_token = Some ''t'', env_chat_id = Some ''1'', clock = 0, telegram_error = None\<rparr> False
     \<lparr>disk = Dir 0 [(''C:'', Dir 0 [])], journal = []\<rparr>) = [stat_none_error]"
  using main_errors [of "\<lparr>disk = Dir 0 [(''C:'', Dir 0 [])], journal = []\<rparr>"
      "\<lparr>env_temp = None, env_localappdata = Some [''C:'', ''Users'', ''u'', ''AppData'', ''Local''],
      env_token = Some ''t'', env_chat_id = Some ''1'', clock = 0, telegram_error = None\<rparr>" False]
  by simp

text \<open>
  C11: The Telegram message is handed to the bot exactly when the run is not a dry
  run and both \<^verbatim>\<open>TELEGRAM_BOT_TOKEN\<close> and \<^verbatim>\<open>TELEGRAM_CHAT_ID\<close> are set and
  non-empty.
\<close>

theorem main_sends_notification:
  "sent (main cfg dry_run w) \<noteq> [] \<longleftrightarrow>
   \<not> dry_run \<and> py_truthy (env_token cfg) \<and> py_truthy (env_chat_id cfg)"
  by (simp add: main_sent)

end
