(* ===== verification/Logging.thy ===== *)
theory Logging
  imports Orchestrator
begin

text \<open>
  The log file \<^verbatim>\<open>logs/cleanup_log.txt\<close> that \<^verbatim>\<open>logging.basicConfig\<close>
  (\<^verbatim>\<open>src/cleanup.py\<close>, lines 16--20) sets up.  Every \<^verbatim>\<open>logger\<close> call of the
  program is an event of the journal (theory \<open>Effects\<close>); here each event is
  rendered as the record the formatter \<^verbatim>\<open>'%(asctime)s - %(levelname)s - %(message)s'\<close>
  writes, with the f-string message of the call that emits it.  The Russian
  literals are the UTF-8 bytes of the source, as in \<open>Notification\<close>; the
  interpolated values are rendered as the code renders them (\<^verbatim>\<open>str\<close> of a Windows
  path, \<^verbatim>\<open>None\<close> for an unset folder, \<^verbatim>\<open>str(e)\<close> of an exception, the
  \<^verbatim>\<open>:.2f\<close> amount).  The time stamp of each record is an input; the
  character encoding of the file (the locale's) and the newline translation of
  Windows text files are below the level of the record text and are not modelled.
\<close>

definition level_name :: "level \<Rightarrow> string" where
  "level_name l = (case l of INFO \<Rightarrow> ''INFO'' | WARNING \<Rightarrow> ''WARNING'' | ERROR \<Rightarrow> ''ERROR'')"

text \<open>
  The literal parts of the messages, by source line, with their English meaning:
  \<^item> \<open>txt_script_start\<close>, line 173: \<^verbatim>\<open>"starting the cleanup script"\<close>
  \<^item> \<open>txt_cache_start\<close>, line 49: \<^verbatim>\<open>"starting to clean the Yandex.Browser cache: "\<close>
  \<^item> \<open>txt_folder_start\<close>, line 83: \<^verbatim>\<open>"starting to clean the folder: "\<close>
  \<^item> \<open>txt_logs_start\<close>, line 114: \<^verbatim>\<open>"starting to clean logs: "\<close>
  \<^item> \<open>txt_recycle_start\<close>, line 149: \<^verbatim>\<open>"starting to clean the recycle bin"\<close>
  \<^item> \<open>txt_not_found\<close>, lines 54 and 88: \<^verbatim>\<open>"folder not found: "\<close>
  \<^item> \<open>txt_logs_not_found\<close>, line 119: \<^verbatim>\<open>"logs folder not found: "\<close>
  \<^item> \<open>txt_recycle_not_found\<close>, line 157: \<^verbatim>\<open>"recycle bin not found"\<close>
  \<^item> \<open>txt_would_delete\<close>, lines 63, 94 and 129: \<^verbatim>\<open>"[Dry Run] will be deleted: "\<close>
  \<^item> \<open>txt_recycle_would_clear\<close>, line 154: \<^verbatim>\<open>"[Dry Run] the recycle bin will be cleared"\<close>
  \<^item> \<open>txt_deleted\<close>, lines 73, 104 and 139: \<^verbatim>\<open>"deleted: "\<close>
  \<^item> \<open>txt_delete_failed\<close>, lines 75, 106 and 141: \<^verbatim>\<open>"error deleting "\<close>
  \<^item> \<open>txt_cache_cleaned\<close>, line 78: \<^verbatim>\<open>"Yandex.Browser cache cleaned: "\<close>
  \<^item> \<open>txt_folder_cleaned\<close>, line 109: \<^verbatim>\<open>"cleaned in "\<close>
  \<^item> \<open>txt_logs_cleaned\<close>, line 144: \<^verbatim>\<open>"logs cleaned: "\<close>
  \<^item> \<open>txt_recycle_cleared\<close>, line 163: \<^verbatim>\<open>"recycle bin cleared: "\<close>
  \<^item> \<open>txt_cache_failed\<close>, line 181: \<^verbatim>\<open>"error cleaning the Yandex.Browser cache: "\<close>
  \<^item> \<open>txt_clean_failed\<close>, line 194: \<^verbatim>\<open>"error cleaning "\<close>
  \<^item> \<open>txt_logs_failed\<close>, line 201: \<^verbatim>\<open>"error cleaning logs: "\<close>
  \<^item> \<open>txt_recycle_failed\<close>, line 208: \<^verbatim>\<open>"error cleaning the recycle bin: "\<close>
  \<^item> \<open>txt_telegram_sent\<close>, line 29: \<^verbatim>\<open>"Telegram notification sent"\<close>
  \<^item> \<open>txt_telegram_failed\<close>, line 31: \<^verbatim>\<open>"error sending the Telegram notification: "\<close>
  \<^item> \<open>txt_telegram_missing\<close>, line 220: \<^verbatim>\<open>"Telegram notifications not sent: token or chat ID missing"\<close>
\<close>

definition txt_script_start :: string where
  "txt_script_start = [CHR 0xD0, CHR 0x97, CHR 0xD0, CHR 0xB0, CHR 0xD0, CHR 0xBF, CHR 0xD1, CHR 0x83, CHR 0xD1,
     CHR 0x81, CHR 0xD0, CHR 0xBA] @ '' '' @ [CHR 0xD1, CHR 0x81, CHR 0xD0, CHR 0xBA, CHR 0xD1,
     CHR 0x80, CHR 0xD0, CHR 0xB8, CHR 0xD0, CHR 0xBF, CHR 0xD1, CHR 0x82, CHR 0xD0, CHR 0xB0] @
     '' '' @ [CHR 0xD0, CHR 0xBE, CHR 0xD1, CHR 0x87, CHR 0xD0, CHR 0xB8, CHR 0xD1, CHR 0x81,
     CHR 0xD1, CHR 0x82, CHR 0xD0, CHR 0xBA, CHR 0xD0, CHR 0xB8]"

definition txt_cache_start :: string where
  "txt_cache_start = [CHR 0xD0, CHR 0x9D, CHR 0xD0, CHR 0xB0, CHR 0xD1, CHR 0x87, CHR 0xD0, CHR 0xB0, CHR 0xD0,
     CHR 0xBB, CHR 0xD0, CHR 0xBE] @ '' '' @ [CHR 0xD0, CHR 0xBE, CHR 0xD1, CHR 0x87, CHR 0xD0,
     CHR 0xB8, CHR 0xD1, CHR 0x81, CHR 0xD1, CHR 0x82, CHR 0xD0, CHR 0xBA, CHR 0xD0, CHR 0xB8] @
     '' '' @ [CHR 0xD0, CHR 0xBA, CHR 0xD1, CHR 0x8D, CHR 0xD1, CHR 0x88, CHR 0xD0, CHR 0xB0] @
     '' '' @ [CHR 0xD0, CHR 0xAF, CHR 0xD0, CHR 0xBD, CHR 0xD0, CHR 0xB4, CHR 0xD0, CHR 0xB5,
     CHR 0xD0, CHR 0xBA, CHR 0xD1, CHR 0x81] @ ''.'' @ [CHR 0xD0, CHR 0x91, CHR 0xD1, CHR 0x80,
     CHR 0xD0, CHR 0xB0, CHR 0xD1, CHR 0x83, CHR 0xD0, CHR 0xB7, CHR 0xD0, CHR 0xB5, CHR 0xD1,
     CHR 0x80, CHR 0xD0, CHR 0xB0] @ '': ''"

definition txt_folder_start :: string where
  "txt_folder_start = [CHR 0xD0, CHR 0x9D, CHR 0xD0, CHR 0xB0, CHR 0xD1, CHR 0x87, CHR 0xD0, CHR 0xB0, CHR 0xD0,
     CHR 0xBB, CHR 0xD0, CHR 0xBE] @ '' '' @ [CHR 0xD0, CHR 0xBE, CHR 0xD1, CHR 0x87, CHR 0xD0,
     CHR 0xB8, CHR 0xD1, CHR 0x81, CHR 0xD1, CHR 0x82, CHR 0xD0, CHR 0xBA, CHR 0xD0, CHR 0xB8] @
     '' '' @ [CHR 0xD0, CHR 0xBF, CHR 0xD0, CHR 0xB0, CHR 0xD0, CHR 0xBF, CHR 0xD0, CHR 0xBA,
     CHR 0xD0, CHR 0xB8] @ '': ''"

definition txt_logs_start :: string where
  "txt_logs_start = [CHR 0xD0, CHR 0x9D, CHR 0xD0, CHR 0xB0, CHR 0xD1, CHR 0x87, CHR 0xD0, CHR 0xB0, CHR 0xD0,
     CHR 0xBB, CHR 0xD0, CHR 0xBE] @ '' '' @ [CHR 0xD0, CHR 0xBE, CHR 0xD1, CHR 0x87, CHR 0xD0,
     CHR 0xB8, CHR 0xD1, CHR 0x81, CHR 0xD1, CHR 0x82, CHR 0xD0, CHR 0xBA, CHR 0xD0, CHR 0xB8] @
     '' '' @ [CHR 0xD0, CHR 0xBB, CHR 0xD0, CHR 0xBE, CHR 0xD0, CHR 0xB3, CHR 0xD0, CHR 0xBE,
     CHR 0xD0, CHR 0xB2] @ '': ''"

definition txt_recycle_start :: string where
  "txt_recycle_start = [CHR 0xD0, CHR 0x9D, CHR 0xD0, CHR 0xB0, CHR 0xD1, CHR 0x87, CHR 0xD0, CHR 0xB0, CHR 0xD0,
     CHR 0xBB, CHR 0xD0, CHR 0xBE] @ '' '' @ [CHR 0xD0, CHR 0xBE, CHR 0xD1, CHR 0x87, CHR 0xD0,
     CHR 0xB8, CHR 0xD1, CHR 0x81, CHR 0xD1, CHR 0x82, CHR 0xD0, CHR 0xBA, CHR 0xD0, CHR 0xB8] @
     '' '' @ [CHR 0xD0, CHR 0xBA, CHR 0xD0, CHR 0xBE, CHR 0xD1, CHR 0x80, CHR 0xD0, CHR 0xB7,
     CHR 0xD0, CHR 0xB8, CHR 0xD0, CHR 0xBD, CHR 0xD1, CHR 0x8B]"

definition txt_not_found :: string where
  "txt_not_found = [CHR 0xD0, CHR 0x9F, CHR 0xD0, CHR 0xB0, CHR 0xD0, CHR 0xBF, CHR 0xD0, CHR 0xBA, CHR 0xD0,
     CHR 0xB0] @ '' '' @ [CHR 0xD0, CHR 0xBD, CHR 0xD0, CHR 0xB5] @ '' '' @ [CHR 0xD0, CHR 0xBD,
     CHR 0xD0, CHR 0xB0, CHR 0xD0, CHR 0xB9, CHR 0xD0, CHR 0xB4, CHR 0xD0, CHR 0xB5, CHR 0xD0,
     CHR 0xBD, CHR 0xD0, CHR 0xB0] @ '': ''"

definition txt_logs_not_found :: string where
  "txt_logs_not_found = [CHR 0xD0, CHR 0x9F, CHR 0xD0, CHR 0xB0, CHR 0xD0, CHR 0xBF, CHR 0xD0, CHR 0xBA, CHR 0xD0,
     CHR 0xB0] @ '' '' @ [CHR 0xD0, CHR 0xBB, CHR 0xD0, CHR 0xBE, CHR 0xD0, CHR 0xB3, CHR 0xD0,
     CHR 0xBE, CHR 0xD0, CHR 0xB2] @ '' '' @ [CHR 0xD0, CHR 0xBD, CHR 0xD0, CHR 0xB5] @ '' '' @
     [CHR 0xD0, CHR 0xBD, CHR 0xD0, CHR 0xB0, CHR 0xD0, CHR 0xB9, CHR 0xD0, CHR 0xB4, CHR 0xD0,
     CHR 0xB5, CHR 0xD0, CHR 0xBD, CHR 0xD0, CHR 0xB0] @ '': ''"

definition txt_recycle_not_found :: string where
  "txt_recycle_not_found = [CHR 0xD0, CHR 0x9A, CHR 0xD0, CHR 0xBE, CHR 0xD1, CHR 0x80, CHR 0xD0, CHR 0xB7, CHR 0xD0,
     CHR 0xB8, CHR 0xD0, CHR 0xBD, CHR 0xD0, CHR 0xB0] @ '' '' @ [CHR 0xD0, CHR 0xBD, CHR 0xD0,
     CHR 0xB5] @ '' '' @ [CHR 0xD0, CHR 0xBD, CHR 0xD0, CHR 0xB0, CHR 0xD0, CHR 0xB9, CHR 0xD0,
     CHR 0xB4, CHR 0xD0, CHR 0xB5, CHR 0xD0, CHR 0xBD, CHR 0xD0, CHR 0xB0]"

definition txt_would_delete :: string where
  "txt_would_delete = ''[Dry Run] '' @ [CHR 0xD0, CHR 0x91, CHR 0xD1, CHR 0x83, CHR 0xD0, CHR 0xB4, CHR 0xD0,
     CHR 0xB5, CHR 0xD1, CHR 0x82] @ '' '' @ [CHR 0xD1, CHR 0x83, CHR 0xD0, CHR 0xB4, CHR 0xD0,
     CHR 0xB0, CHR 0xD0, CHR 0xBB, CHR 0xD0, CHR 0xB5, CHR 0xD0, CHR 0xBD, CHR 0xD0, CHR 0xBE] @
     '': ''"

definition txt_recycle_would_clear :: string where
  "txt_recycle_would_clear = ''[Dry Run] '' @ [CHR 0xD0, CHR 0x9A, CHR 0xD0, CHR 0xBE, CHR 0xD1, CHR 0x80, CHR 0xD0,
     CHR 0xB7, CHR 0xD0, CHR 0xB8, CHR 0xD0, CHR 0xBD, CHR 0xD0, CHR 0xB0] @ '' '' @ [CHR 0xD0,
     CHR 0xB1, CHR 0xD1, CHR 0x83, CHR 0xD0, CHR 0xB4, CHR 0xD0, CHR 0xB5, CHR 0xD1, CHR 0x82] @
     '' '' @ [CHR 0xD0, CHR 0xBE, CHR 0xD1, CHR 0x87, CHR 0xD0, CHR 0xB8, CHR 0xD1, CHR 0x89,
     CHR 0xD0, CHR 0xB5, CHR 0xD0, CHR 0xBD, CHR 0xD0, CHR 0xB0]"

definition txt_deleted :: string where
  "txt_deleted = [CHR 0xD0, CHR 0xA3, CHR 0xD0, CHR 0xB4, CHR 0xD0, CHR 0xB0, CHR 0xD0, CHR 0xBB, CHR 0xD0,
     CHR 0xB5, CHR 0xD0, CHR 0xBD, CHR 0xD0, CHR 0xBE] @ '': ''"

definition txt_delete_failed :: string where
  "txt_delete_failed = [CHR 0xD0, CHR 0x9E, CHR 0xD1, CHR 0x88, CHR 0xD0, CHR 0xB8, CHR 0xD0, CHR 0xB1, CHR 0xD0,
     CHR 0xBA, CHR 0xD0, CHR 0xB0] @ '' '' @ [CHR 0xD0, CHR 0xBF, CHR 0xD1, CHR 0x80, CHR 0xD0,
     CHR 0xB8] @ '' '' @ [CHR 0xD1, CHR 0x83, CHR 0xD0, CHR 0xB4, CHR 0xD0, CHR 0xB0, CHR 0xD0,
     CHR 0xBB, CHR 0xD0, CHR 0xB5, CHR 0xD0, CHR 0xBD, CHR 0xD0, CHR 0xB8, CHR 0xD0, CHR 0xB8] @
     '' ''"

definition txt_cache_cleaned :: string where
  "txt_cache_cleaned = [CHR 0xD0, CHR 0x9E, CHR 0xD1, CHR 0x87, CHR 0xD0, CHR 0xB8, CHR 0xD1, CHR 0x89, CHR 0xD0,
     CHR 0xB5, CHR 0xD0, CHR 0xBD, CHR 0xD0, CHR 0xBE] @ '' '' @ [CHR 0xD0, CHR 0xBA, CHR 0xD1,
     CHR 0x8D, CHR 0xD1, CHR 0x88, CHR 0xD0, CHR 0xB0] @ '' '' @ [CHR 0xD0, CHR 0xAF, CHR 0xD0,
     CHR 0xBD, CHR 0xD0, CHR 0xB4, CHR 0xD0, CHR 0xB5, CHR 0xD0, CHR 0xBA, CHR 0xD1, CHR 0x81] @
     ''.'' @ [CHR 0xD0, CHR 0x91, CHR 0xD1, CHR 0x80, CHR 0xD0, CHR 0xB0, CHR 0xD1, CHR 0x83,
     CHR 0xD0, CHR 0xB7, CHR 0xD0, CHR 0xB5, CHR 0xD1, CHR 0x80, CHR 0xD0, CHR 0xB0] @ '': ''"

definition txt_folder_cleaned :: string where
  "txt_folder_cleaned = [CHR 0xD0, CHR 0x9E, CHR 0xD1, CHR 0x87, CHR 0xD0, CHR 0xB8, CHR 0xD1, CHR 0x89, CHR 0xD0,
     CHR 0xB5, CHR 0xD0, CHR 0xBD, CHR 0xD0, CHR 0xBE] @ '' '' @ [CHR 0xD0, CHR 0xB2] @ '' ''"

definition txt_logs_cleaned :: string where
  "txt_logs_cleaned = [CHR 0xD0, CHR 0x9E, CHR 0xD1, CHR 0x87, CHR 0xD0, CHR 0xB8, CHR 0xD1, CHR 0x89, CHR 0xD0,
     CHR 0xB5, CHR 0xD0, CHR 0xBD, CHR 0xD0, CHR 0xBE] @ '' '' @ [CHR 0xD0, CHR 0xBB, CHR 0xD0,
     CHR 0xBE, CHR 0xD0, CHR 0xB3, CHR 0xD0, CHR 0xBE, CHR 0xD0, CHR 0xB2] @ '': ''"

definition txt_recycle_cleared :: string where
  "txt_recycle_cleared = [CHR 0xD0, CHR 0x9A, CHR 0xD0, CHR 0xBE, CHR 0xD1, CHR 0x80, CHR 0xD0, CHR 0xB7, CHR 0xD0,
     CHR 0xB8, CHR 0xD0, CHR 0xBD, CHR 0xD0, CHR 0xB0] @ '' '' @ [CHR 0xD0, CHR 0xBE, CHR 0xD1,
     CHR 0x87, CHR 0xD0, CHR 0xB8, CHR 0xD1, CHR 0x89, CHR 0xD0, CHR 0xB5, CHR 0xD0, CHR 0xBD,
     CHR 0xD0, CHR 0xB0] @ '': ''"

definition txt_cache_failed :: string where
  "txt_cache_failed = [CHR 0xD0, CHR 0x9E, CHR 0xD1, CHR 0x88, CHR 0xD0, CHR 0xB8, CHR 0xD0, CHR 0xB1, CHR 0xD0,
     CHR 0xBA, CHR 0xD0, CHR 0xB0] @ '' '' @ [CHR 0xD0, CHR 0xBF, CHR 0xD1, CHR 0x80, CHR 0xD0,
     CHR 0xB8] @ '' '' @ [CHR 0xD0, CHR 0xBE, CHR 0xD1, CHR 0x87, CHR 0xD0, CHR 0xB8, CHR 0xD1,
     CHR 0x81, CHR 0xD1, CHR 0x82, CHR 0xD0, CHR 0xBA, CHR 0xD0, CHR 0xB5] @ '' '' @ [CHR 0xD0,
     CHR 0xBA, CHR 0xD1, CHR 0x8D, CHR 0xD1, CHR 0x88, CHR 0xD0, CHR 0xB0] @ '' '' @ [CHR 0xD0,
     CHR 0xAF, CHR 0xD0, CHR 0xBD, CHR 0xD0, CHR 0xB4, CHR 0xD0, CHR 0xB5, CHR 0xD0, CHR 0xBA,
     CHR 0xD1, CHR 0x81] @ ''.'' @ [CHR 0xD0, CHR 0x91, CHR 0xD1, CHR 0x80, CHR 0xD0, CHR 0xB0,
     CHR 0xD1, CHR 0x83, CHR 0xD0, CHR 0xB7, CHR 0xD0, CHR 0xB5, CHR 0xD1, CHR 0x80, CHR 0xD0,
     CHR 0xB0] @ '': ''"

definition txt_clean_failed :: string where
  "txt_clean_failed = [CHR 0xD0, CHR 0x9E, CHR 0xD1, CHR 0x88, CHR 0xD0, CHR 0xB8, CHR 0xD0, CHR 0xB1, CHR 0xD0,
     CHR 0xBA, CHR 0xD0, CHR 0xB0] @ '' '' @ [CHR 0xD0, CHR 0xBF, CHR 0xD1, CHR 0x80, CHR 0xD0,
     CHR 0xB8] @ '' '' @ [CHR 0xD0, CHR 0xBE, CHR 0xD1, CHR 0x87, CHR 0xD0, CHR 0xB8, CHR 0xD1,
     CHR 0x81, CHR 0xD1, CHR 0x82, CHR 0xD0, CHR 0xBA, CHR 0xD0, CHR 0xB5] @ '' ''"

definition txt_logs_failed :: string where
  "txt_logs_failed = [CHR 0xD0, CHR 0x9E, CHR 0xD1, CHR 0x88, CHR 0xD0, CHR 0xB8, CHR 0xD0, CHR 0xB1, CHR 0xD0,
     CHR 0xBA, CHR 0xD0, CHR 0xB0] @ '' '' @ [CHR 0xD0, CHR 0xBF, CHR 0xD1, CHR 0x80, CHR 0xD0,
     CHR 0xB8] @ '' '' @ [CHR 0xD0, CHR 0xBE, CHR 0xD1, CHR 0x87, CHR 0xD0, CHR 0xB8, CHR 0xD1,
     CHR 0x81, CHR 0xD1, CHR 0x82, CHR 0xD0, CHR 0xBA, CHR 0xD0, CHR 0xB5] @ '' '' @ [CHR 0xD0,
     CHR 0xBB, CHR 0xD0, CHR 0xBE, CHR 0xD0, CHR 0xB3, CHR 0xD0, CHR 0xBE, CHR 0xD0, CHR 0xB2] @
     '': ''"

definition txt_recycle_failed :: string where
  "txt_recycle_failed = [CHR 0xD0, CHR 0x9E, CHR 0xD1, CHR 0x88, CHR 0xD0, CHR 0xB8, CHR 0xD0, CHR 0xB1, CHR 0xD0,
     CHR 0xBA, CHR 0xD0, CHR 0xB0] @ '' '' @ [CHR 0xD0, CHR 0xBF, CHR 0xD1, CHR 0x80, CHR 0xD0,
     CHR 0xB8] @ '' '' @ [CHR 0xD0, CHR 0xBE, CHR 0xD1, CHR 0x87, CHR 0xD0, CHR 0xB8, CHR 0xD1,
     CHR 0x81, CHR 0xD1, CHR 0x82, CHR 0xD0, CHR 0xBA, CHR 0xD0, CHR 0xB5] @ '' '' @ [CHR 0xD0,
     CHR 0xBA, CHR 0xD0, CHR 0xBE, CHR 0xD1, CHR 0x80, CHR 0xD0, CHR 0xB7, CHR 0xD0, CHR 0xB8,
     CHR 0xD0, CHR 0xBD, CHR 0xD1, CHR 0x8B] @ '': ''"

definition txt_telegram_sent :: string where
  "txt_telegram_sent = ''Telegram-'' @ [CHR 0xD1, CHR 0x83, CHR 0xD0, CHR 0xB2, CHR 0xD0, CHR 0xB5, CHR 0xD0,
     CHR 0xB4, CHR 0xD0, CHR 0xBE, CHR 0xD0, CHR 0xBC, CHR 0xD0, CHR 0xBB, CHR 0xD0, CHR 0xB5,
     CHR 0xD0, CHR 0xBD, CHR 0xD0, CHR 0xB8, CHR 0xD0, CHR 0xB5] @ '' '' @ [CHR 0xD0, CHR 0xBE,
     CHR 0xD1, CHR 0x82, CHR 0xD0, CHR 0xBF, CHR 0xD1, CHR 0x80, CHR 0xD0, CHR 0xB0, CHR 0xD0,
     CHR 0xB2, CHR 0xD0, CHR 0xBB, CHR 0xD0, CHR 0xB5, CHR 0xD0, CHR 0xBD, CHR 0xD0, CHR 0xBE]"

definition txt_telegram_failed :: string where
  "txt_telegram_failed = [CHR 0xD0, CHR 0x9E, CHR 0xD1, CHR 0x88, CHR 0xD0, CHR 0xB8, CHR 0xD0, CHR 0xB1, CHR 0xD0,
     CHR 0xBA, CHR 0xD0, CHR 0xB0] @ '' '' @ [CHR 0xD0, CHR 0xBE, CHR 0xD1, CHR 0x82, CHR 0xD0,
     CHR 0xBF, CHR 0xD1, CHR 0x80, CHR 0xD0, CHR 0xB0, CHR 0xD0, CHR 0xB2, CHR 0xD0, CHR 0xBA,
     CHR 0xD0, CHR 0xB8] @ '' Telegram-'' @ [CHR 0xD1, CHR 0x83, CHR 0xD0, CHR 0xB2, CHR 0xD0,
     CHR 0xB5, CHR 0xD0, CHR 0xB4, CHR 0xD0, CHR 0xBE, CHR 0xD0, CHR 0xBC, CHR 0xD0, CHR 0xBB,
     CHR 0xD0, CHR 0xB5, CHR 0xD0, CHR 0xBD, CHR 0xD0, CHR 0xB8, CHR 0xD1, CHR 0x8F] @ '': ''"

definition txt_telegram_missing :: string where
  "txt_telegram_missing = ''Telegram '' @ [CHR 0xD1, CHR 0x83, CHR 0xD0, CHR 0xB2, CHR 0xD0, CHR 0xB5, CHR 0xD0,
     CHR 0xB4, CHR 0xD0, CHR 0xBE, CHR 0xD0, CHR 0xBC, CHR 0xD0, CHR 0xBB, CHR 0xD0, CHR 0xB5,
     CHR 0xD0, CHR 0xBD, CHR 0xD0, CHR 0xB8, CHR 0xD1, CHR 0x8F] @ '' '' @ [CHR 0xD0, CHR 0xBD,
     CHR 0xD0, CHR 0xB5] @ '' '' @ [CHR 0xD0, CHR 0xBE, CHR 0xD1, CHR 0x82, CHR 0xD0, CHR 0xBF,
     CHR 0xD1, CHR 0x80, CHR 0xD0, CHR 0xB0, CHR 0xD0, CHR 0xB2, CHR 0xD0, CHR 0xBB, CHR 0xD0,
     CHR 0xB5, CHR 0xD0, CHR 0xBD, CHR 0xD1, CHR 0x8B] @ '': '' @ [CHR 0xD0, CHR 0xBE, CHR 0xD1,
     CHR 0x82, CHR 0xD1, CHR 0x81, CHR 0xD1, CHR 0x83, CHR 0xD1, CHR 0x82, CHR 0xD1, CHR 0x81,
     CHR 0xD1, CHR 0x82, CHR 0xD0, CHR 0xB2, CHR 0xD1, CHR 0x83, CHR 0xD0, CHR 0xB5, CHR 0xD1,
     CHR 0x82] @ '' '' @ [CHR 0xD1, CHR 0x82, CHR 0xD0, CHR 0xBE, CHR 0xD0, CHR 0xBA, CHR 0xD0,
     CHR 0xB5, CHR 0xD0, CHR 0xBD] @ '' '' @ [CHR 0xD0, CHR 0xB8, CHR 0xD0, CHR 0xBB, CHR 0xD0,
     CHR 0xB8] @ '' chat ID''"

text \<open>\<^verbatim>\<open>f"{folder_path}"\<close> of \<^verbatim>\<open>clean_system_folder\<close>: \<^verbatim>\<open>None\<close> when \<^verbatim>\<open>TEMP\<close> is unset.\<close>

definition render_opt_path :: "path option \<Rightarrow> string" where
  "render_opt_path p = (case p of None \<Rightarrow> ''None'' | Some q \<Rightarrow> render_path q)"

definition mb_text :: "int \<Rightarrow> string" where
  "mb_text n = format_mb n @ '' MB''"

fun log_message :: "log_event \<Rightarrow> string" where
  "log_message ScriptStart = txt_script_start"
| "log_message (CacheStart p) = txt_cache_start @ render_path p"
| "log_message (FolderStart f) = txt_folder_start @ render_opt_path f"
| "log_message (LogsStart p) = txt_logs_start @ render_path p"
| "log_message RecycleStart = txt_recycle_start"
| "log_message (FolderNotFound p) = txt_not_found @ render_path p"
| "log_message (LogsNotFound p) = txt_logs_not_found @ render_path p"
| "log_message RecycleNotFound = txt_recycle_not_found"
| "log_message (WouldDelete p) = txt_would_delete @ render_path p"
| "log_message RecycleWouldClear = txt_recycle_would_clear"
| "log_message (Deleted p) = txt_deleted @ render_path p"
| "log_message (DeleteFailed p e) = txt_delete_failed @ render_path p @ '': '' @ py_error_str e"
| "log_message (CacheCleaned n) = txt_cache_cleaned @ mb_text n"
| "log_message (FolderCleaned p n) = txt_folder_cleaned @ render_path p @ '': '' @ mb_text n"
| "log_message (LogsCleaned n) = txt_logs_cleaned @ mb_text n"
| "log_message (RecycleCleared n) = txt_recycle_cleared @ mb_text n"
| "log_message (TargetFailed YandexCache e) = txt_cache_failed @ py_error_str e"
| "log_message (TargetFailed (SystemFolder f) e) =
     txt_clean_failed @ render_opt_path f @ '': '' @ py_error_str e"
| "log_message (TargetFailed (OldLogs p d) e) = txt_logs_failed @ py_error_str e"
| "log_message (TargetFailed RecycleBin e) = txt_recycle_failed @ py_error_str e"
| "log_message TelegramSent = txt_telegram_sent"
| "log_message (TelegramFailed msg) = txt_telegram_failed @ msg"
| "log_message TelegramMissing = txt_telegram_missing"
| "log_message (Finished n) = done_text @ mb_text n"

text \<open>One record of the file handler: the format of line 19 and the handler's
  terminator \<^verbatim>\<open>"\n"\<close>; \<open>log_text\<close> is what a run appends to the file, the
  \<open>i\<close>-th record stamped with \<open>stamp i\<close>.\<close>

definition log_record :: "string \<Rightarrow> log_event \<Rightarrow> string" where
  "log_record asctime e = asctime @ '' - '' @ level_name (level_of e) @ '' - '' @ log_message e @ [CHR 0x0A]"

definition log_text :: "(nat \<Rightarrow> string) \<Rightarrow> log_event list \<Rightarrow> string" where
  "log_text stamp js = concat (map (\<lambda>(i, e). log_record (stamp i) e) (enumerate 0 js))"

text \<open>
  A record that tells the reader of the log that something was removed: an
  entry reported as deleted (\<^verbatim>\<open>"Udaleno: ..."\<close>), a bin reported cleared, or a
  freed amount that is not zero.
\<close>

fun reports_removal :: "log_event \<Rightarrow> bool" where
  "reports_removal (Deleted p) = True"
| "reports_removal (CacheCleaned n) = (n \<noteq> 0)"
| "reports_removal (FolderCleaned p n) = (n \<noteq> 0)"
| "reports_removal (LogsCleaned n) = (n \<noteq> 0)"
| "reports_removal (RecycleCleared n) = True"
| "reports_removal (Finished n) = (n \<noteq> 0)"
| "reports_removal e = False"

text \<open>A step of a sweep that changes neither the disk nor the count and logs no removal.\<close>

definition quiet_step :: "sweep \<Rightarrow> sweep \<Rightarrow> bool" where
  "quiet_step s s' =
     (disk s' = disk s \<and> deleted s' = deleted s
      \<and> filter reports_removal (journal s') = filter reports_removal (journal s))"

text \<open>
  C25: The last record a run of \<^verbatim>\<open>main\<close> writes to the log (line 222) reports the
  amount freed with the same text as the Telegram message (line 214): the record is
  \<^verbatim>\<open>"Ochistka zavershena. Osvobozhdeno: X MB"\<close> for the run's
  \<^verbatim>\<open>total_deleted\<close>, and every message handed to the bot begins with it.
\<close>

theorem main_log_matches_notification:
  "log_message (last (journal (main cfg dry_run w))) = done_text @ format_mb (total_deleted (main cfg dry_run w)) @ '' MB''
   \<and> list_all (\<lambda>(token, chat_id, msg). prefix (log_message (last (journal (main cfg dry_run w)))) msg)
       (sent (main cfg dry_run w))"
proof -
  have "list_all (\<lambda>(token, chat_id, msg).
      msg = notification_message (total_deleted (main cfg dry_run w)) (errors (main cfg dry_run w)))
    (sent (main cfg dry_run w))" by (rule main_sent_message)
  then show ?thesis
    by (simp add: main_journal_last mb_text_def notification_message_def list.pred_map split_def
        list_all_iff)
qed

text \<open>The exceptions of the \<^verbatim>\<open>"Oshibka pri ochistke ..."\<close> records of \<^verbatim>\<open>main\<close>'s
  \<^verbatim>\<open>except\<close> blocks (lines 181, 194, 201, 208), in log order.\<close>

fun logged_failures :: "log_event list \<Rightarrow> py_error list" where
  "logged_failures [] = []"
| "logged_failures (TargetFailed t e # js) = e # logged_failures js"
| "logged_failures (j # js) = logged_failures js"

lemma quiet_step_refl: "quiet_step s s"
  by (simp add: quiet_step_def)

lemma quiet_step_trans: "quiet_step s s' \<Longrightarrow> quiet_step s' s'' \<Longrightarrow> quiet_step s s''"
  by (simp add: quiet_step_def)

lemma quiet_emit: "\<not> reports_removal e \<Longrightarrow> quiet_step s (emit e s)"
  by (simp add: quiet_step_def emit_def)

lemma dry_items_quiet:
  "quiet_step s (system_item True p n s)"
  "quiet_step s (yandex_item True p n s)"
  "quiet_step s (logs_item True t p n s)"
  by (simp_all add: system_item_def yandex_item_def logs_item_def Let_def quiet_emit quiet_step_refl
      split: option.splits)

lemma fold_quiet: "(\<And>x s. quiet_step s (f x s)) \<Longrightarrow> quiet_step s (fold f xs s)"
  by (rule fold_transitive [where R = quiet_step]) (auto intro: quiet_step_refl quiet_step_trans)

lemma logs_walk_quiet: "quiet_step s (snd (logs_walk True t ds s))"
  by (rule logs_walk_rel [where R = "\<lambda>dr _ s s'. dr \<longrightarrow> quiet_step s s'", rule_format])
     (auto intro: quiet_step_refl quiet_step_trans fold_quiet dry_items_quiet)

lemma dry_sweeps_quiet:
  "quiet_step s (fold (system_item True p) ns s)"
  "quiet_step s (fold (yandex_item True p) ns s)"
  "quiet_step s (snd (logs_walk True t ds s))"
  by (rule fold_quiet, rule dry_items_quiet)+ (rule logs_walk_quiet)

lemmas dry_sweep_effects = dry_sweeps_quiet [unfolded quiet_step_def]

text \<open>In a dry run each cleaner returns 0 or raises, and logs no removal.\<close>

lemma clean_target_dry_quiet:
  "filter reports_removal (journal (snd (clean_target cfg True t w))) = filter reports_removal (journal w)
   \<and> (case fst (clean_target cfg True t w) of Inl e \<Rightarrow> True | Inr n \<Rightarrow> n = 0)"
proof (cases t)
  case YandexCache
  then show ?thesis
    by (auto simp: clean_yandex_browser_cache_def Let_def emit_def end_sweep_def dry_sweep_effects
        split: option.splits)
next
  case (SystemFolder f)
  then show ?thesis
    by (auto simp: clean_system_folder_def Let_def emit_def end_sweep_def dry_sweep_effects
        split: option.splits)
next
  case (OldLogs p days)
  then show ?thesis
    by (auto simp: clean_old_logs_def Let_def emit_def end_sweep_def dry_sweep_effects
        split: option.splits)
next
  case RecycleBin
  then show ?thesis by (simp add: clean_recycle_bin_dry emit_def)
qed

lemma run_target_dry_quiet:
  "filter reports_removal (journal (run_target cfg True t r)) = filter reports_removal (journal r)
   \<and> total_deleted (run_target cfg True t r) = total_deleted r"
  using clean_target_dry_quiet [of cfg t "\<lparr>disk = disk r, journal = journal r\<rparr>"]
  by (auto simp: run_target_def Let_def emit_def split: sum.splits)

lemma fold_run_target_dry_quiet:
  "filter reports_removal (journal (fold (run_target cfg True) ts r)) = filter reports_removal (journal r)
   \<and> total_deleted (fold (run_target cfg True) ts r) = total_deleted r"
  by (induction ts arbitrary: r) (simp_all add: run_target_dry_quiet)

lemma notify_quiet:
  "filter reports_removal (journal (notify cfg dry_run msg r)) = filter reports_removal (journal r)"
  by (simp add: notify_def send_telegram_message_def emit_def split: option.splits)

text \<open>
  C26: The log of a dry run (\<^verbatim>\<open>--dry-run\<close>) never reports a removal: no
  \<^verbatim>\<open>"Udaleno"\<close> record, no cleared recycle bin, and every freed amount it writes,
  per target and in the final record, is zero; the run's total is zero.
\<close>

theorem main_dry_run_log_reports_no_removal:
  "total_deleted (main cfg True w) = 0
   \<and> filter reports_removal (journal (main cfg True w)) = filter reports_removal (journal w)"
  using fold_run_target_dry_quiet [of cfg "main_targets cfg"
      "\<lparr>disk = disk w, journal = journal w @ [ScriptStart], total_deleted = 0, errors = [], sent = []\<rparr>"]
  by (simp add: main_def Let_def emit_def notify_quiet)

lemma logged_failures_append [simp]: "logged_failures (xs @ ys) = logged_failures xs @ logged_failures ys"
  by (induction xs rule: logged_failures.induct) simp_all

lemma items_keep_failures:
  "logged_failures (journal (remove_item ok p n s)) = logged_failures (journal s)"
  "logged_failures (journal (system_item dr p n s)) = logged_failures (journal s)"
  "logged_failures (journal (yandex_item dr p n s)) = logged_failures (journal s)"
  "logged_failures (journal (logs_item dr t p n s)) = logged_failures (journal s)"
  by (simp_all add: remove_item_def system_item_def yandex_item_def logs_item_def Let_def emit_def
      split: option.splits node.splits)

lemma fold_keeps_failures:
  "(\<And>x s. logged_failures (journal (f x s)) = logged_failures (journal s)) \<Longrightarrow>
   logged_failures (journal (fold f xs s)) = logged_failures (journal s)"
  by (rule fold_transitive [where R = "\<lambda>s s'. logged_failures (journal s') = logged_failures (journal s)"])
     simp_all

lemma sweeps_keep_failures:
  "logged_failures (journal (fold (system_item dr p) ns s)) = logged_failures (journal s)"
  "logged_failures (journal (fold (yandex_item dr p) ns s)) = logged_failures (journal s)"
  "logged_failures (journal (snd (logs_walk dr t ds s))) = logged_failures (journal s)"
  by (rule fold_keeps_failures, rule items_keep_failures)+
     (rule logs_walk_rel [where R = "\<lambda>_ _ s s'. logged_failures (journal s') = logged_failures (journal s)"],
      simp_all add: fold_keeps_failures items_keep_failures)

lemma clean_target_keeps_failures:
  "logged_failures (journal (snd (clean_target cfg dr t w))) = logged_failures (journal w)"
  by (cases t) (simp_all add: clean_yandex_browser_cache_def clean_system_folder_def clean_old_logs_def
      clean_recycle_bin_def Let_def emit_def end_sweep_def sweeps_keep_failures split: option.splits)

lemma fold_run_target_failures:
  "\<exists>new. logged_failures (journal (fold (run_target cfg dr) ts r)) = logged_failures (journal r) @ new
     \<and> errors (fold (run_target cfg dr) ts r) = errors r @ new"
proof (rule fold_transitive [where R = "\<lambda>r r'. \<exists>new. logged_failures (journal r') = logged_failures (journal r) @ new
     \<and> errors r' = errors r @ new"])
  fix t and r :: run
  show "\<exists>new. logged_failures (journal (run_target cfg dr t r)) = logged_failures (journal r) @ new
     \<and> errors (run_target cfg dr t r) = errors r @ new"
    using clean_target_keeps_failures [of cfg dr t "\<lparr>disk = disk r, journal = journal r\<rparr>"]
    by (auto simp: run_target_def Let_def emit_def split: sum.splits)
qed force+

lemma notify_keeps_failures:
  "logged_failures (journal (notify cfg dry_run msg r)) = logged_failures (journal r)"
  by (simp add: notify_def send_telegram_message_def emit_def split: option.splits)

text \<open>
  C27: The errors the Telegram message lists (line 216) are exactly the exceptions of
  the error records \<^verbatim>\<open>main\<close> writes to the log for failed targets, in the same
  order: the log and the notification never disagree about which targets failed.
\<close>

theorem main_errors_match_log:
  "logged_failures (journal (main cfg dry_run w)) = logged_failures (journal w) @ errors (main cfg dry_run w)"
  using fold_run_target_failures [of cfg dry_run "main_targets cfg"
      "\<lparr>disk = disk w, journal = journal w @ [ScriptStart], total_deleted = 0, errors = [], sent = []\<rparr>"]
  by (auto simp: main_def Let_def emit_def notify_keeps_failures)

end
