(* ===== verification/Old_Logs_Spec.thy ===== *)
theory Old_Logs_Spec
  imports Old_Logs
begin

text \<open>
  What \<^verbatim>\<open>clean_old_logs\<close> promises, stated against reference definitions of
  the specification (section 4.2, rule 4, and the recursive traversal of the
  aged-logs kind): \<open>fresh_chain\<close> says that an entry and every directory
  between it and the logs folder are newer than the cutoff, and
  \<open>rglob_node\<close> is the recursive listing \<^verbatim>\<open>Path.rglob("*")\<close> yields on a
  disk that does not change, written as plain structural recursion.  The
  theorems relate the worklist walk \<open>logs_walk\<close> to them.
\<close>

text \<open>An entry modified after the cutoff, and a path whose every entry below the root is one.\<close>

definition fresh_entry :: "int \<Rightarrow> node \<Rightarrow> bool" where
  "fresh_entry cutoff_time c = (case stat_mtime c of Some t \<Rightarrow> cutoff_time < t | None \<Rightarrow> False)"

definition fresh_chain :: "int \<Rightarrow> node \<Rightarrow> path \<Rightarrow> path \<Rightarrow> bool" where
  "fresh_chain cutoff_time fs root q =
     list_all (\<lambda>k. case lookup fs (root @ take k q) of Some c \<Rightarrow> fresh_entry cutoff_time c | None \<Rightarrow> False)
       [1..<Suc (length q)]"

fun rglob_node :: "path \<Rightarrow> node \<Rightarrow> path list"
and rglob_entries :: "path \<Rightarrow> entries \<Rightarrow> path list" where
  "rglob_node p (File a) = []"
| "rglob_node p (Dir m cs) = map (\<lambda>(n, c). p @ [n]) cs @ rglob_entries p cs"
| "rglob_entries p [] = []"
| "rglob_entries p ((n, c) # cs) = rglob_node (p @ [n]) c @ rglob_entries p cs"

definition dry_event :: "int \<Rightarrow> node \<Rightarrow> path \<Rightarrow> log_event list" where
  "dry_event cutoff_time fs q =
     (case Option.bind (lookup fs q) stat_mtime of
        None \<Rightarrow> [DeleteFailed q (FileNotFoundError q)]
      | Some mtime \<Rightarrow> if mtime > cutoff_time then [] else [WouldDelete q])"

definition rglob_of :: "node \<Rightarrow> path \<Rightarrow> path list" where
  "rglob_of fs d = (case lookup fs d of Some n \<Rightarrow> rglob_node d n | None \<Rightarrow> [])"

lemma fresh_chain_iff:
  "fresh_chain t fs root q \<longleftrightarrow>
   (\<forall>v. prefix v q \<longrightarrow> v \<noteq> [] \<longrightarrow> (\<exists>c. lookup fs (root @ v) = Some c \<and> fresh_entry t c))"
proof -
  have iff: "(\<exists>k \<in> {1..length q}. v = take k q) \<longleftrightarrow> prefix v q \<and> v \<noteq> []" for v
  proof
    assume "\<exists>k \<in> {1..length q}. v = take k q"
    then show "prefix v q \<and> v \<noteq> []" by (auto simp: take_is_prefix)
  next
    assume "prefix v q \<and> v \<noteq> []"
    then show "\<exists>k \<in> {1..length q}. v = take k q"
      by (intro bexI [of _ "length v"]) (auto simp: prefix_def Suc_le_eq)
  qed
  have eqv: "(\<forall>k \<in> {1..length q}. P (take k q)) \<longleftrightarrow> (\<forall>v. prefix v q \<longrightarrow> v \<noteq> [] \<longrightarrow> P v)"
    for P
  proof
    assume L: "\<forall>k \<in> {1..length q}. P (take k q)"
    show "\<forall>v. prefix v q \<longrightarrow> v \<noteq> [] \<longrightarrow> P v"
    proof (intro allI impI)
      fix v assume "prefix v q" and "v \<noteq> []"
      then obtain k where "k \<in> {1..length q}" and "v = take k q" using iff [of v] by blast
      then show "P v" using L by simp
    qed
  next
    assume R: "\<forall>v. prefix v q \<longrightarrow> v \<noteq> [] \<longrightarrow> P v"
    show "\<forall>k \<in> {1..length q}. P (take k q)"
    proof
      fix k assume "k \<in> {1..length q}"
      then have "prefix (take k q) q" and "take k q \<noteq> []" using iff [of "take k q"] by blast+
      then show "P (take k q)" using R by simp
    qed
  qed
  have case_ex: "(case x of Some c \<Rightarrow> fresh_entry t c | None \<Rightarrow> False) \<longleftrightarrow> (\<exists>c. x = Some c \<and> fresh_entry t c)"
    for x by (simp split: option.split)
  show ?thesis
    unfolding fresh_chain_def list_all_iff case_ex atLeastLessThanSuc_atLeastAtMost set_upt
    by (rule eqv)
qed

lemma stat_mtime_update_at_Cons: "stat_mtime (update_at (n # r) f c) = stat_mtime c"
  by (cases c; cases r) (simp_all add: stat_mtime_def)

lemma lookup_update_at_strict_prefix:
  assumes "strict_prefix y p" and "lookup fs y = Some c"
  shows "\<exists>c'. lookup (update_at p f fs) y = Some c' \<and> stat_mtime c' = stat_mtime c"
proof -
  obtain zs where "p = y @ zs" and "zs \<noteq> []"
    using assms(1) by (auto simp: strict_prefix_def prefix_def)
  then obtain n r where "p = y @ n # r" by (cases zs) auto
  then show ?thesis
    using assms(2) lookup_update_at_above [of "n # r" y f fs] by (simp add: stat_mtime_update_at_Cons)
qed

lemma lookup_File_below: "lookup fs x = Some (File a) \<Longrightarrow> r \<noteq> [] \<Longrightarrow> lookup fs (x @ r) = None"
  by (cases r) (simp_all add: lookup_append)

lemma logs_item_cases:
  "disk (logs_item dry_run t d n s) = disk s
   \<or> (\<exists>c. lookup (disk s) (d @ [n]) = Some c \<and> \<not> fresh_entry t c
        \<and> disk (logs_item dry_run t d n s) = update_at (d @ [n]) (remove_effect (\<lambda>_. True) n) (disk s))"
proof (cases "lookup (disk s) (d @ [n])")
  case (Some c)
  then show ?thesis using remove_item_step [OF Some, of "\<lambda>_. True"]
    by (auto simp: logs_item_def fresh_entry_def Let_def split: option.splits)
qed (simp add: logs_item_def Let_def)

lemma logs_item_keeps_fresh:
  assumes root: "prefix root d"
    and is_file: "lookup (disk s) (root @ q) = Some (File a)"
    and fresh: "fresh_chain t (disk s) root q"
  shows "lookup (disk (logs_item dry_run t d n s)) (root @ q) = Some (File a)
    \<and> fresh_chain t (disk (logs_item dry_run t d n s)) root q"
proof (cases "disk (logs_item dry_run t d n s) = disk s")
  case True
  then show ?thesis using is_file fresh by simp
next
  case False
  then obtain c where c: "lookup (disk s) (d @ [n]) = Some c" and stale: "\<not> fresh_entry t c"
    and upd: "disk (logs_item dry_run t d n s) = update_at (d @ [n]) (remove_effect (\<lambda>_. True) n) (disk s)"
    using logs_item_cases by blast
  from root obtain u where d: "d = root @ u" by (auto simp: prefix_def)
  have not_above: "\<not> prefix (u @ [n]) q"
  proof
    assume "prefix (u @ [n]) q"
    then obtain c' where "lookup (disk s) (root @ u @ [n]) = Some c'" and "fresh_entry t c'"
      using fresh by (auto simp: fresh_chain_iff)
    with c stale d show False by simp
  qed
  have not_below: "\<not> prefix q (u @ [n])"
  proof
    assume "prefix q (u @ [n])"
    then obtain r where r: "u @ [n] = q @ r" by (auto simp: prefix_def)
    with not_above have "r \<noteq> []" by auto
    then have "lookup (disk s) ((root @ q) @ r) = None" by (rule lookup_File_below [OF is_file])
    with c d r show False by simp
  qed
  have par: "(root @ u @ [n]) \<parallel> (root @ q)"
    using not_above not_below by (simp add: parallel_def)
  have "lookup (disk (logs_item dry_run t d n s)) (root @ q) = Some (File a)"
    using upd is_file par d by (simp add: lookup_update_at_parallel_paths)
  moreover have "fresh_chain t (disk (logs_item dry_run t d n s)) root q"
    unfolding fresh_chain_iff
  proof (intro allI impI)
    fix v assume v: "prefix v q" "v \<noteq> []"
    then obtain c' where c': "lookup (disk s) (root @ v) = Some c'" "fresh_entry t c'"
      using fresh by (auto simp: fresh_chain_iff)
    have not_above_v: "\<not> prefix (u @ [n]) v" using not_above v(1) prefix_order.trans by blast
    show "\<exists>c. lookup (disk (logs_item dry_run t d n s)) (root @ v) = Some c \<and> fresh_entry t c"
    proof (cases "prefix v (u @ [n])")
      case True
      with not_above_v have "strict_prefix (root @ v) (root @ u @ [n])"
        by (auto simp: strict_prefix_def)
      from lookup_update_at_strict_prefix [OF this c'(1)] obtain c'' where
        "lookup (update_at (root @ u @ [n]) (remove_effect (\<lambda>_. True) n) (disk s)) (root @ v) = Some c''"
        and "stat_mtime c'' = stat_mtime c'" by blast
      then show ?thesis using upd d c'(2) by (auto simp: fresh_entry_def)
    next
      case False
      then have "(root @ u @ [n]) \<parallel> (root @ v)" using not_above_v by (simp add: parallel_def)
      then show ?thesis using upd d c' by (simp add: lookup_update_at_parallel_paths)
    qed
  qed
  ultimately show ?thesis by simp
qed

lemma fold_logs_item_keeps_fresh:
  "prefix root d \<Longrightarrow> lookup (disk s) (root @ q) = Some (File a) \<Longrightarrow> fresh_chain t (disk s) root q \<Longrightarrow>
   lookup (disk (fold (logs_item dry_run t d) ns s)) (root @ q) = Some (File a)
   \<and> fresh_chain t (disk (fold (logs_item dry_run t d) ns s)) root q"
  by (rule fold_invariant [where P = "\<lambda>s. lookup (disk s) (root @ q) = Some (File a) \<and> fresh_chain t (disk s) root q"])
     (simp_all add: logs_item_keeps_fresh)

lemma logs_walk_keeps_fresh:
  "\<forall>d \<in> set ds. prefix root d \<Longrightarrow> lookup (disk s) (root @ q) = Some (File a) \<Longrightarrow>
   fresh_chain t (disk s) root q \<Longrightarrow>
   lookup (disk (snd (logs_walk dry_run t ds s))) (root @ q) = Some (File a)"
proof (induction dry_run t ds s rule: logs_walk.induct)
  case (1 dry_run t s)
  then show ?case by (simp add: logs_walk.simps)
next
  case (2 dry_run t d ds s)
  have pd: "prefix root d" using "2.prems"(1) by simp
  note F = fold_logs_item_keeps_fresh [OF pd "2.prems"(2,3), of dry_run]
  have sub: "\<forall>x \<in> set (map (\<lambda>n. d @ [n]) ns @ ds). prefix root x" for ns
    using "2.prems"(1) prefix_order.trans [OF pd] by auto
  show ?case
  proof (cases "lookup (disk s) d")
    case (Some c)
    show ?thesis
    proof (cases c)
      case (Dir m cs)
      let ?s1 = "fold (logs_item dry_run t d) (map fst cs) s"
      show ?thesis
      proof (cases "lookup (disk ?s1) d")
        case (Some c')
        show ?thesis
        proof (cases c')
          case (Dir m' cs')
          have "logs_walk dry_run t (d # ds) s
              = logs_walk dry_run t (map (\<lambda>n. d @ [n]) (subdir_names cs') @ ds) ?s1"
            using \<open>lookup (disk s) d = Some c\<close> Dir \<open>c = Dir m cs\<close> Some
            by (simp add: logs_walk.simps(2) [of dry_run t d ds s] Let_def)
          then show ?thesis
            using "2.IH" [OF \<open>lookup (disk s) d = Some c\<close>[unfolded \<open>c = Dir m cs\<close>] refl refl Some[unfolded Dir]]
              F [of "map fst cs"] sub by simp
        qed (insert F [of "map fst cs"] \<open>lookup (disk s) d = Some c\<close> \<open>c = Dir m cs\<close> Some,
               simp add: logs_walk.simps(2) [of dry_run t d ds s] Let_def)
      qed (insert F [of "map fst cs"] \<open>lookup (disk s) d = Some c\<close> \<open>c = Dir m cs\<close>,
             simp add: logs_walk.simps(2) [of dry_run t d ds s] Let_def)
    qed (insert "2.prems"(2) \<open>lookup (disk s) d = Some c\<close>, simp add: logs_walk.simps(2) [of dry_run t d ds s])
  qed (insert "2.prems"(2), simp add: logs_walk.simps(2) [of dry_run t d ds s])
qed

text \<open>
  C13: Safety of the age test: a log file survives \<^verbatim>\<open>clean_old_logs\<close>, in a
  dry or a real run, when it and every directory between it and the logs folder
  were modified after the cutoff \<^verbatim>\<open>now - days\<close>.
\<close>

theorem clean_old_logs_keeps_fresh:
  assumes "lookup (disk w) (logs_path @ q) = Some (File a)"
    and "fresh_chain (now - days * 86400) (disk w) logs_path q"
  shows "lookup (disk (snd (clean_old_logs logs_path days dry_run now w))) (logs_path @ q) = Some (File a)"
proof -
  let ?w1 = "emit (LogsStart logs_path) w"
  let ?roots = "case lookup (disk ?w1) logs_path of Some (Dir m cs) \<Rightarrow> [logs_path] | _ \<Rightarrow> []"
  have "\<forall>d \<in> set ?roots. prefix logs_path d" by (simp split: option.splits node.splits)
  then have "lookup (disk (snd (logs_walk dry_run (now - days * 86400) ?roots (start_sweep ?w1)))) (logs_path @ q)
      = Some (File a)"
    using assms by (intro logs_walk_keeps_fresh) simp_all
  then show ?thesis using assms(1) by (simp add: clean_old_logs_def Let_def split: option.splits)
qed

theorem clean_old_logs_keeps_fresh_witness:
  "lookup (disk (snd (clean_old_logs [''Logs''] 7 False (10 * 86400)
     \<lparr>disk = Dir 0 [(''Logs'', Dir (9 * 86400) [(''old.log'', File \<lparr>st_size = 3, st_mtime = 0, stat_ok = True, unlink_ok = True\<rparr>),
        (''app'', Dir (9 * 86400) [(''today.log'', File \<lparr>st_size = 5, st_mtime = 9 * 86400, stat_ok = True, unlink_ok = True\<rparr>)])])],
      journal = []\<rparr>))) [''Logs'', ''app'', ''today.log'']
   = Some (File \<lparr>st_size = 5, st_mtime = 9 * 86400, stat_ok = True, unlink_ok = True\<rparr>)"
  using clean_old_logs_keeps_fresh [of "\<lparr>disk = Dir 0 [(''Logs'', Dir (9 * 86400) [(''old.log'', File \<lparr>st_size = 3, st_mtime = 0, stat_ok = True, unlink_ok = True\<rparr>),
        (''app'', Dir (9 * 86400) [(''today.log'', File \<lparr>st_size = 5, st_mtime = 9 * 86400, stat_ok = True, unlink_ok = True\<rparr>)])])],
      journal = []\<rparr>" "[''Logs'']" "[''app'', ''today.log'']"]
  by (simp add: fresh_chain_def fresh_entry_def stat_mtime_def)

lemma logs_item_dry_journal:
  "journal (logs_item True t d n s) = journal s @ dry_event t (disk s) (d @ [n])"
  by (simp add: logs_item_def dry_event_def Let_def split: option.splits)

lemma fold_logs_item_dry:
  "disk (fold (logs_item True t d) ns s) = disk s
   \<and> journal (fold (logs_item True t d) ns s) = journal s @ concat (map (\<lambda>n. dry_event t (disk s) (d @ [n])) ns)"
  by (induction ns arbitrary: s) (simp_all add: logs_item_dry_disk logs_item_dry_journal)

lemma rglob_entries_concat:
  "rglob_entries d cs = concat (map (\<lambda>(n, c). rglob_node (d @ [n]) c) (filter (\<lambda>(n, c). is_dir_node c) cs))"
proof (induction cs)
  case (Cons nc cs)
  then show ?case by (cases nc; cases "snd nc") auto
qed simp

lemma rglob_subdirs:
  assumes "distinct (map fst cs)"
  shows "concat (map (\<lambda>n. rglob_node (d @ [n]) (the (map_of cs n))) (subdir_names cs)) = rglob_entries d cs"
proof -
  have "map (\<lambda>n. rglob_node (d @ [n]) (the (map_of cs n))) (subdir_names cs)
      = map (\<lambda>(n, c). rglob_node (d @ [n]) c) (filter (\<lambda>(n, c). is_dir_node c) cs)"
    unfolding subdir_names_def map_map
    by (rule map_cong) (auto simp: map_of_is_SomeI [OF assms])
  then show ?thesis by (simp add: rglob_entries_concat)
qed


lemma rglob_of_subdirs:
  assumes l: "lookup fs d = Some (Dir m cs)" and dist: "distinct (map fst cs)"
  shows "concat (map (rglob_of fs) (map (\<lambda>n. d @ [n]) (subdir_names cs))) = rglob_entries d cs"
proof -
  have eq: "map (rglob_of fs) (map (\<lambda>n. d @ [n]) (subdir_names cs))
      = map (\<lambda>n. rglob_node (d @ [n]) (the (map_of cs n))) (subdir_names cs)"
    unfolding map_map
  proof (rule map_cong [OF refl])
    fix n assume "n \<in> set (subdir_names cs)"
    then obtain m' cs' where "map_of cs n = Some (Dir m' cs')" using subdirs_are_dirs [OF dist] by blast
    then show "(rglob_of fs \<circ> (\<lambda>n. d @ [n])) n = rglob_node (d @ [n]) (the (map_of cs n))"
      using l by (simp add: rglob_of_def lookup_append)
  qed
  show ?thesis unfolding eq by (rule rglob_subdirs [OF dist])
qed

lemma logs_walk_dry_journal:
  "wf_node (disk s) \<Longrightarrow> (\<forall>q \<in> set ds. \<exists>m cs. lookup (disk s) q = Some (Dir m cs)) \<Longrightarrow>
   journal (snd (logs_walk True t ds s))
   = journal s @ concat (map (dry_event t (disk s)) (concat (map (rglob_of (disk s)) ds)))"
proof (induction True t ds s rule: logs_walk.induct)
  case (1 t s)
  then show ?case by (simp add: logs_walk.simps)
next
  case (2 t d ds s)
  from "2.prems"(2) obtain m cs where l: "lookup (disk s) d = Some (Dir m cs)" by auto
  define s1 where "s1 = fold (logs_item True t d) (map fst cs) s"
  have d1: "disk s1 = disk s"
    and j1: "journal s1 = journal s @ concat (map (\<lambda>n. dry_event t (disk s) (d @ [n])) (map fst cs))"
    using fold_logs_item_dry [of t d "map fst cs" s] by (simp_all add: s1_def)
  have dist: "distinct (map fst cs)" using wf_lookup [OF "2.prems"(1) l] by simp
  have l1: "lookup (disk s1) d = Some (Dir m cs)" using l d1 by simp
  define ns where "ns = map (\<lambda>n. d @ [n]) (subdir_names cs) @ ds"
  have dirs: "\<forall>q \<in> set ns. \<exists>m cs. lookup (disk s1) q = Some (Dir m cs)"
  proof
    fix q assume "q \<in> set ns"
    then consider n where "n \<in> set (subdir_names cs)" "q = d @ [n]" | "q \<in> set ds"
      by (auto simp: ns_def)
    then show "\<exists>m cs. lookup (disk s1) q = Some (Dir m cs)"
    proof cases
      case 1
      then obtain m2 cs2 where "map_of cs n = Some (Dir m2 cs2)"
        using subdirs_are_dirs [OF dist] by blast
      with 1 l1 show ?thesis by (simp add: lookup_append)
    next
      case 2
      then show ?thesis using "2.prems"(2) d1 by simp
    qed
  qed
  have "logs_walk True t (d # ds) s = logs_walk True t ns s1"
    by (simp add: logs_walk.simps(2) l l1 Let_def ns_def s1_def [symmetric])
  moreover have "journal (snd (logs_walk True t ns s1))
      = journal s1 @ concat (map (dry_event t (disk s1)) (concat (map (rglob_of (disk s1)) ns)))"
    using "2.hyps" [OF l refl s1_def l1 refl] "2.prems"(1) d1 dirs by (simp add: ns_def)
  moreover have "rglob_of (disk s) d = map (\<lambda>(n, c). d @ [n]) cs @ rglob_entries d cs"
    using l by (simp add: rglob_of_def)
  ultimately show ?case
    using j1 d1 rglob_of_subdirs [OF l dist] by (simp add: ns_def comp_def case_prod_beta)
qed


text \<open>
  C14: The recursive glob of a dry run is the recursive listing of the logs folder:
  on a well-formed disk, \<^verbatim>\<open>clean_old_logs(..., dry_run=True)\<close> logs, in the
  order of \<open>rglob_node\<close> (the entries of a directory, then the listing of each
  subdirectory in turn), one "would be deleted" record per entry not newer than
  the cutoff and one error per entry whose \<^verbatim>\<open>stat\<close> fails, and reports 0 MB.
\<close>

theorem clean_old_logs_dry_run_journal:
  assumes "wf_node (disk w)" and "lookup (disk w) p = Some (Dir m cs)"
  shows "journal (snd (clean_old_logs p days True now w))
    = journal w @ [LogsStart p]
      @ concat (map (dry_event (now - days * 86400) (disk w)) (rglob_node p (Dir m cs)))
      @ [LogsCleaned 0]"
proof -
  let ?s0 = "start_sweep (emit (LogsStart p) w)"
  have "journal (snd (logs_walk True (now - days * 86400) [p] ?s0))
      = journal w @ [LogsStart p] @ concat (map (dry_event (now - days * 86400) (disk w)) (rglob_node p (Dir m cs)))"
    using logs_walk_dry_journal [of ?s0 "[p]" "now - days * 86400"] assms
    by (simp add: rglob_of_def)
  moreover have "disk (snd (logs_walk True (now - days * 86400) [p] ?s0)) = disk w"
    by (simp add: logs_walk_dry_disk)
  moreover have "fst (logs_walk True (now - days * 86400) [p] ?s0) = None"
    using logs_walk_no_error [of ?s0 "[p]" True "now - days * 86400"] assms by simp
  ultimately show ?thesis using assms(2) by (simp add: clean_old_logs_def Let_def exists_def)
qed

theorem clean_old_logs_dry_run_journal_witness:
  "journal (snd (clean_old_logs [''Logs''] 7 True (10 * 86400)
     \<lparr>disk = Dir 0 [(''Logs'', Dir 0 [(''old.log'', File \<lparr>st_size = 3, st_mtime = 0, stat_ok = True, unlink_ok = True\<rparr>),
        (''app'', Dir (9 * 86400) [(''x.log'', File \<lparr>st_size = 5, st_mtime = 86400, stat_ok = True, unlink_ok = True\<rparr>)]),
        (''new.log'', File \<lparr>st_size = 3, st_mtime = 9 * 86400, stat_ok = True, unlink_ok = True\<rparr>)])],
      journal = []\<rparr>))
   = [LogsStart [''Logs''], WouldDelete [''Logs'', ''old.log''], WouldDelete [''Logs'', ''app'', ''x.log''], LogsCleaned 0]"
  using clean_old_logs_dry_run_journal [of "\<lparr>disk = Dir 0 [(''Logs'', Dir 0 [(''old.log'', File \<lparr>st_size = 3, st_mtime = 0, stat_ok = True, unlink_ok = True\<rparr>),
        (''app'', Dir (9 * 86400) [(''x.log'', File \<lparr>st_size = 5, st_mtime = 86400, stat_ok = True, unlink_ok = True\<rparr>)]),
        (''new.log'', File \<lparr>st_size = 3, st_mtime = 9 * 86400, stat_ok = True, unlink_ok = True\<rparr>)])],
      journal = []\<rparr>" "[''Logs'']"]
  by (simp add: dry_event_def stat_mtime_def)

end
