(* ===== verification/Old_Logs_Termination.thy ===== *)
theory Old_Logs_Termination
  imports Old_Logs_Spec
begin

text \<open>
  How long the recursive glob of \<^verbatim>\<open>clean_old_logs\<close> runs.  \<open>logs_walk\<close>
  is total (its termination proof is in \<open>Old_Logs\<close>); here the walk is
  bounded: \<open>logs_walk_fuel\<close> is the same loop with a counter of directory
  listings that gives up when the counter is spent, and the theorem says that the
  number of directories under the worklist (\<open>walk_load\<close>, counted with
  \<open>dir_count\<close>) is always enough.  Each listing consumes one directory and
  the deletions of its loop body never add directories, so a walk lists every
  directory at most once.
\<close>

fun dir_count :: "node \<Rightarrow> nat"
and dir_count_entries :: "entries \<Rightarrow> nat" where
  "dir_count (File a) = 0"
| "dir_count (Dir m cs) = Suc (dir_count_entries cs)"
| "dir_count_entries [] = 0"
| "dir_count_entries ((n, c) # cs) = dir_count c + dir_count_entries cs"

definition opt_dirs :: "node option \<Rightarrow> nat" where
  "opt_dirs c = (case c of None \<Rightarrow> 0 | Some c' \<Rightarrow> dir_count c')"

definition walk_load :: "node \<Rightarrow> path list \<Rightarrow> nat" where
  "walk_load fs ds = sum_list (map (\<lambda>d. opt_dirs (lookup fs d)) ds)"

fun logs_walk_fuel :: "nat \<Rightarrow> bool \<Rightarrow> int \<Rightarrow> path list \<Rightarrow> sweep \<Rightarrow> (py_error option \<times> sweep) option" where
  "logs_walk_fuel f dry_run cutoff_time [] s = Some (None, s)"
| "logs_walk_fuel 0 dry_run cutoff_time (d # ds) s = None"
| "logs_walk_fuel (Suc f) dry_run cutoff_time (d # ds) s =
     (case lookup (disk s) d of
        Some (Dir m cs) \<Rightarrow>
          (let s1 = fold (logs_item dry_run cutoff_time d) (map fst cs) s in
           case lookup (disk s1) d of
             Some (Dir m' cs') \<Rightarrow>
               logs_walk_fuel f dry_run cutoff_time (map (\<lambda>n. d @ [n]) (subdir_names cs') @ ds) s1
           | _ \<Rightarrow> Some (Some (FileNotFoundError d), s1))
      | _ \<Rightarrow> Some (Some (FileNotFoundError d), s))"

lemma opt_dirs_simps [simp]: "opt_dirs None = 0" "opt_dirs (Some c) = dir_count c"
  by (simp_all add: opt_dirs_def)

lemma dir_count_rmtree:
  "opt_dirs (rmtree c) \<le> dir_count c"
  "dir_count_entries (rmtree_entries cs) \<le> dir_count_entries cs"
proof (induction c and cs rule: rmtree_rmtree_entries.induct)
  case (2 m cs)
  then show ?case by (simp add: Let_def)
next
  case (4 n c cs)
  then show ?case by (auto split: option.splits)
qed simp_all

lemma dir_count_modify_entry:
  "(\<And>c. opt_dirs (f c) \<le> dir_count c) \<Longrightarrow> dir_count_entries (modify_entry x f cs) \<le> dir_count_entries cs"
proof (induction cs)
  case (Cons nc cs)
  obtain n c where nc: "nc = (n, c)" by fastforce
  have fc: "opt_dirs (f c) \<le> dir_count c" by (rule Cons.prems)
  have IH: "dir_count_entries (modify_entry x f cs) \<le> dir_count_entries cs" using Cons by simp
  show ?case
  proof (cases "f c")
    case None
    then show ?thesis using nc IH by simp
  next
    case (Some c')
    then show ?thesis using nc IH fc by simp
  qed
qed simp

lemma dir_count_update_at:
  "(\<And>c. opt_dirs (f c) \<le> dir_count c) \<Longrightarrow> dir_count (update_at p f n) \<le> dir_count n"
proof (induction p f n rule: update_at.induct)
  case (1 f n)
  have "opt_dirs (f n) \<le> dir_count n" by (rule "1")
  then show ?case by (auto split: option.splits)
next
  case (2 x f m cs)
  then show ?case by (simp add: dir_count_modify_entry)
next
  case (3 x y ys f m cs)
  have "dir_count_entries (modify_entry x (\<lambda>c. Some (update_at (y # ys) f c)) cs) \<le> dir_count_entries cs"
    by (rule dir_count_modify_entry) (simp add: "3")
  then show ?case by simp
qed simp_all

lemma remove_effect_shrinks: "opt_dirs (remove_effect dir_ok n c) \<le> dir_count c"
  using dir_count_rmtree(1) [of c] by (cases c) auto

lemma logs_item_shrinks:
  "opt_dirs (lookup (disk (logs_item dry_run t d n s)) d) \<le> opt_dirs (lookup (disk s) d)"
proof -
  consider "disk (logs_item dry_run t d n s) = disk s"
    | "disk (logs_item dry_run t d n s) = update_at (d @ [n]) (remove_effect (\<lambda>_. True) n) (disk s)"
    using logs_item_cases by blast
  then show ?thesis
  proof cases
    case 2
    then have "lookup (disk (logs_item dry_run t d n s)) d
        = map_option (update_at [n] (remove_effect (\<lambda>_. True) n)) (lookup (disk s) d)"
      using lookup_update_at_above [of "[n]" d] by simp
    then show ?thesis
      using dir_count_update_at [of "remove_effect (\<lambda>_. True) n", OF remove_effect_shrinks]
      by (cases "lookup (disk s) d") simp_all
  qed simp
qed

lemma fold_logs_item_shrinks:
  "opt_dirs (lookup (disk (fold (logs_item dry_run t d) ns s)) d) \<le> opt_dirs (lookup (disk s) d)"
  using fold_transitive [where R = "\<lambda>s s'. opt_dirs (lookup (disk s') d) \<le> opt_dirs (lookup (disk s) d)"
      and f = "logs_item dry_run t d" and xs = ns and s = s]
  by (meson logs_item_shrinks order_refl order_trans)

lemma walk_load_simps [simp]:
  "walk_load fs [] = 0"
  "walk_load fs (d # ds) = opt_dirs (lookup fs d) + walk_load fs ds"
  "walk_load fs (xs @ ys) = walk_load fs xs + walk_load fs ys"
  by (simp_all add: walk_load_def)

lemma dir_count_entries_filter:
  "dir_count_entries cs = sum_list (map (\<lambda>(n, c). dir_count c) (filter (\<lambda>(n, c). is_dir_node c) cs))"
proof (induction cs)
  case (Cons nc cs)
  then show ?case by (cases nc; cases "snd nc") auto
qed simp

lemma walk_load_subdirs:
  assumes l: "lookup fs d = Some (Dir m cs)" and dist: "distinct (map fst cs)"
  shows "walk_load fs (map (\<lambda>n. d @ [n]) (subdir_names cs)) = dir_count_entries cs"
proof -
  have "map (\<lambda>q. opt_dirs (lookup fs q)) (map (\<lambda>n. d @ [n]) (subdir_names cs))
      = map (\<lambda>(n, c). dir_count c) (filter (\<lambda>(n, c). is_dir_node c) cs)"
    unfolding subdir_names_def map_map
    by (rule map_cong) (auto simp: l lookup_append map_of_is_SomeI [OF dist])
  then show ?thesis by (simp add: walk_load_def dir_count_entries_filter)
qed

text \<open>
  C20: Termination with a bound: on a well-formed disk, the recursive glob started
  on directories none of which lies inside another lists at most as many
  directories as there are under them; with that many listings the counted walk
  returns exactly what \<open>logs_walk\<close> returns.
\<close>

theorem logs_walk_fuel_enough:
  "wf_node (disk s) \<Longrightarrow> (\<forall>q \<in> set ds. \<exists>m cs. lookup (disk s) q = Some (Dir m cs)) \<Longrightarrow>
   sorted_wrt (\<parallel>) ds \<Longrightarrow> walk_load (disk s) ds \<le> f \<Longrightarrow>
   logs_walk_fuel f dry_run t ds s = Some (logs_walk dry_run t ds s)"
proof (induction dry_run t ds s arbitrary: f rule: logs_walk.induct)
  case (1 dry_run t s)
  then show ?case by (simp add: logs_walk.simps)
next
  case (2 dry_run t d ds s)
  from "2.prems"(2) obtain m cs where l: "lookup (disk s) d = Some (Dir m cs)" by auto
  define s1 where "s1 = fold (logs_item dry_run t d) (map fst cs) s"
  from walk_step_inv [OF "2.prems"(1-3) l, of dry_run t, folded s1_def]
  obtain m' cs' where l1: "lookup (disk s1) d = Some (Dir m' cs')" and wf1: "wf_node (disk s1)"
    and dirs1: "\<forall>q \<in> set (map (\<lambda>n. d @ [n]) (subdir_names cs') @ ds). \<exists>m cs. lookup (disk s1) q = Some (Dir m cs)"
    and sorted1: "sorted_wrt (\<parallel>) (map (\<lambda>n. d @ [n]) (subdir_names cs') @ ds)"
    and frame: "\<forall>q. d \<parallel> q \<longrightarrow> lookup (disk s1) q = lookup (disk s) q"
    by blast
  have shrink: "dir_count (Dir m' cs') \<le> dir_count (Dir m cs)"
    using fold_logs_item_shrinks [of dry_run t d "map fst cs" s] l l1 by (simp add: s1_def)
  have dist': "distinct (map fst cs')" using wf_lookup [OF wf1 l1] by simp
  have "walk_load (disk s1) ds = walk_load (disk s) ds"
    unfolding walk_load_def using frame "2.prems"(3) by (intro arg_cong [where f = sum_list] map_cong) auto
  moreover have "walk_load (disk s) (d # ds) \<le> f" by (rule "2.prems"(4))
  ultimately obtain f' where f: "f = Suc f'"
    and load: "walk_load (disk s1) (map (\<lambda>n. d @ [n]) (subdir_names cs') @ ds) \<le> f'"
    using l shrink walk_load_subdirs [OF l1 dist'] by (cases f) auto
  have "logs_walk_fuel f dry_run t (d # ds) s
      = logs_walk_fuel f' dry_run t (map (\<lambda>n. d @ [n]) (subdir_names cs') @ ds) s1"
    by (simp add: f l l1 Let_def s1_def [symmetric])
  moreover have "logs_walk dry_run t (d # ds) s
      = logs_walk dry_run t (map (\<lambda>n. d @ [n]) (subdir_names cs') @ ds) s1"
    by (simp add: logs_walk.simps(2) l l1 Let_def s1_def [symmetric])
  ultimately show ?case
    using "2.IH" [OF l refl s1_def l1 refl wf1 dirs1 sorted1 load] by simp
qed

theorem logs_walk_fuel_enough_witness:
  "logs_walk_fuel 3 False 100 [[''Logs'']] \<lparr>disk = Dir 0 [(''Logs'', Dir 0 [(''a'', Dir 0 [(''x.log'', File \<lparr>st_size = 1, st_mtime = 0, stat_ok = True, unlink_ok = True\<rparr>)]),
        (''b'', Dir 0 [])])], journal = [], deleted = 0\<rparr> = Some (logs_walk False 100 [[''Logs'']] \<lparr>disk = Dir 0 [(''Logs'', Dir 0 [(''a'', Dir 0 [(''x.log'', File \<lparr>st_size = 1, st_mtime = 0, stat_ok = True, unlink_ok = True\<rparr>)]),
        (''b'', Dir 0 [])])], journal = [], deleted = 0\<rparr>)"
  using logs_walk_fuel_enough [of "\<lparr>disk = Dir 0 [(''Logs'', Dir 0 [(''a'', Dir 0 [(''x.log'', File \<lparr>st_size = 1, st_mtime = 0, stat_ok = True, unlink_ok = True\<rparr>)]),
        (''b'', Dir 0 [])])], journal = [], deleted = 0\<rparr>" "[[''Logs'']]" 3 False 100] by simp

end
