(* ===== verification/Classifier.thy ===== *)
theory Classifier
  imports Browser_Cache System_Folder Old_Logs
begin

text \<open>
  The specification's Entry Classifier (spec section 4.2) as an abstract
  definition, and refinement theorems saying that the loop bodies of
  \<^verbatim>\<open>src/cleanup.py\<close> implement it.  A rule set has an exclusion set, an
  optional allow-list of subdirectory names and an optional age cutoff;
  \<open>classify\<close> applies rules 1--5 in their precedence order, and
  \<open>execute\<close> is what carrying out a decision does to the entry (a file is
  removed when it may be unlinked, a subtree as \<^verbatim>\<open>shutil.rmtree\<close> removes
  it).  The refinement holds for entries whose \<^verbatim>\<open>stat\<close> succeeds; on an
  entry whose \<^verbatim>\<open>stat\<close> fails (a dangling link) the code neither deletes nor
  records an error, which the specification does not foresee.
\<close>

datatype decision = Keep | DeleteFile | DeleteSubtree

record rule_set =
  exclusions :: "name list"
  allowed_dirs :: "name list option"
  age_cutoff :: "int option"

definition classify :: "rule_set \<Rightarrow> name \<Rightarrow> node \<Rightarrow> decision" where
  "classify rs n c =
     (let kind = (if is_dir_node c then DeleteSubtree else DeleteFile);
          by_age = (case age_cutoff rs of Some t \<Rightarrow> if node_mtime c > t then Keep else kind | None \<Rightarrow> kind)
      in if n \<in> set (exclusions rs) then Keep
         else case allowed_dirs rs of
                Some ds \<Rightarrow> if is_dir_node c then (if n \<in> set ds then DeleteSubtree else Keep) else by_age
              | None \<Rightarrow> by_age)"

fun execute :: "decision \<Rightarrow> node \<Rightarrow> node option" where
  "execute Keep c = Some c"
| "execute DeleteFile (File a) = (if unlink_ok a then None else Some (File a))"
| "execute DeleteFile (Dir m cs) = Some (Dir m cs)"
| "execute DeleteSubtree (Dir m cs) = rmtree (Dir m cs)"
| "execute DeleteSubtree (File a) = Some (File a)"

text \<open>The abstract real sweep of one level: every entry replaced by the result of its decision.\<close>

definition sweep_spec :: "rule_set \<Rightarrow> entries \<Rightarrow> entries" where
  "sweep_spec rs cs = apply_entries (\<lambda>n c. execute (classify rs n c) c) cs"

text \<open>The rule sets of the targets \<^verbatim>\<open>main\<close> sweeps.\<close>

definition browser_rules :: rule_set where
  "browser_rules = \<lparr>exclusions = yandex_exclude, allowed_dirs = Some yandex_cache_dirs, age_cutoff = None\<rparr>"

definition folder_rules :: rule_set where
  "folder_rules = \<lparr>exclusions = [], allowed_dirs = None, age_cutoff = None\<rparr>"

definition logs_rules :: "int \<Rightarrow> rule_set" where
  "logs_rules cutoff_time = \<lparr>exclusions = [], allowed_dirs = None, age_cutoff = Some cutoff_time\<rparr>"

definition stat_succeeds :: "node \<Rightarrow> bool" where
  "stat_succeeds c = (stat_mtime c \<noteq> None)"

lemma apply_entries_cong:
  "(\<And>n c. (n, c) \<in> set cs \<Longrightarrow> h n c = h' n c) \<Longrightarrow> apply_entries h cs = apply_entries h' cs"
  by (induction cs) auto

lemma yandex_effect_classify:
  "stat_succeeds c \<Longrightarrow> yandex_effect n c = execute (classify browser_rules n c) c"
  by (cases c) (auto simp: yandex_effect_def classify_def browser_rules_def stat_succeeds_def stat_mtime_def)

lemma folder_effect_classify:
  "stat_succeeds c \<Longrightarrow> remove_effect (\<lambda>_. True) n c = execute (classify folder_rules n c) c"
  by (cases c) (auto simp: classify_def folder_rules_def stat_succeeds_def stat_mtime_def)

text \<open>
  C18: Refinement of the aged-logs loop body: for an entry whose \<^verbatim>\<open>stat\<close>
  succeeds, one real iteration of \<^verbatim>\<open>clean_old_logs\<close>'s loop changes the disk
  exactly as executing the classifier's decision under the rule set with the age
  cutoff does (rule 4: an entry strictly newer than the cutoff is kept).
\<close>

theorem logs_item_refines_classifier:
  assumes c: "lookup (disk s) (d @ [n]) = Some c" and ok: "stat_succeeds c"
  shows "disk (logs_item False cutoff_time d n s)
       = update_at (d @ [n]) (\<lambda>_. execute (classify (logs_rules cutoff_time) n c) c) (disk s)"
proof -
  obtain t where t: "stat_mtime c = Some t" and tm: "t = node_mtime c"
    using ok by (cases c) (auto simp: stat_succeeds_def stat_mtime_def split: if_splits)
  show ?thesis
  proof (cases "t > cutoff_time")
    case True
    then have "execute (classify (logs_rules cutoff_time) n c) c = Some c"
      using tm by (simp add: classify_def logs_rules_def)
    moreover have "update_at (d @ [n]) Some (disk s) = update_at (d @ [n]) (\<lambda>_. Some c) (disk s)"
      by (rule update_at_cong_lookup [OF c])
    ultimately show ?thesis using True c t
      by (simp add: logs_item_def Let_def update_at_Some_id)
  next
    case False
    have rm: "disk (remove_item (\<lambda>_. True) d n s) = update_at (d @ [n]) (remove_effect (\<lambda>_. True) n) (disk s)"
      using remove_item_step [OF c] by blast
    have "update_at (d @ [n]) (remove_effect (\<lambda>_. True) n) (disk s)
        = update_at (d @ [n]) (\<lambda>_. remove_effect (\<lambda>_. True) n c) (disk s)"
      by (rule update_at_cong_lookup [OF c])
    moreover have "remove_effect (\<lambda>_. True) n c = execute (classify (logs_rules cutoff_time) n c) c"
      using False tm ok by (cases c) (auto simp: classify_def logs_rules_def stat_succeeds_def stat_mtime_def)
    ultimately show ?thesis using False c t rm by (simp add: logs_item_def Let_def)
  qed
qed

text \<open>
  C16: Refinement of the browser-cache sweep: on a well-formed disk, when every
  entry of the profile can be stat-ed, a real run of
  \<^verbatim>\<open>clean_yandex_browser_cache\<close> leaves the profile exactly as the
  specification's classifier prescribes with the browser rule set (exclusions
  \<^verbatim>\<open>Cookies\<close>, \<^verbatim>\<open>Cookies-journal\<close>; allow-list \<^verbatim>\<open>Cache\<close>,
  \<^verbatim>\<open>Cache2\<close>, \<^verbatim>\<open>Code Cache\<close>).
\<close>

theorem clean_yandex_refines_classifier:
  assumes "wf_node (disk w)" and "lookup (disk w) p = Some (Dir m cs)"
    and "list_all (\<lambda>(n, c). stat_succeeds c) cs"
  shows "disk (snd (clean_yandex_browser_cache False (Some p) env w))
       = update_at p (\<lambda>_. Some (Dir m (sweep_spec browser_rules cs))) (disk w)"
proof -
  have "apply_entries yandex_effect cs = sweep_spec browser_rules cs"
    unfolding sweep_spec_def
    by (rule apply_entries_cong) (insert assms(3), auto simp: list_all_iff yandex_effect_classify)
  then show ?thesis using yandex_real_outcome [OF assms(1,2)] by simp
qed

theorem clean_yandex_refines_classifier_witness:
  "disk (snd (clean_yandex_browser_cache False (Some [''Default'']) None \<lparr>disk = Dir 0 [(''Default'', Dir 0 [(''cache.txt'', File \<lparr>st_size = 20, st_mtime = 0, stat_ok = True, unlink_ok = True\<rparr>),
        (''Cookies'', File \<lparr>st_size = 30, st_mtime = 0, stat_ok = True, unlink_ok = True\<rparr>),
        (''Extensions'', Dir 0 [(''e.js'', File \<lparr>st_size = 7, st_mtime = 0, stat_ok = True, unlink_ok = True\<rparr>)])])],
      journal = []\<rparr>))
   = Dir 0 [(''Default'', Dir 0 [(''Cookies'', File \<lparr>st_size = 30, st_mtime = 0, stat_ok = True, unlink_ok = True\<rparr>),
        (''Extensions'', Dir 0 [(''e.js'', File \<lparr>st_size = 7, st_mtime = 0, stat_ok = True, unlink_ok = True\<rparr>)])])]"
  using clean_yandex_refines_classifier [of "\<lparr>disk = Dir 0 [(''Default'', Dir 0 [(''cache.txt'', File \<lparr>st_size = 20, st_mtime = 0, stat_ok = True, unlink_ok = True\<rparr>),
        (''Cookies'', File \<lparr>st_size = 30, st_mtime = 0, stat_ok = True, unlink_ok = True\<rparr>),
        (''Extensions'', Dir 0 [(''e.js'', File \<lparr>st_size = 7, st_mtime = 0, stat_ok = True, unlink_ok = True\<rparr>)])])],
      journal = []\<rparr>" "[''Default'']" 0
      "[(''cache.txt'', File \<lparr>st_size = 20, st_mtime = 0, stat_ok = True, unlink_ok = True\<rparr>),
        (''Cookies'', File \<lparr>st_size = 30, st_mtime = 0, stat_ok = True, unlink_ok = True\<rparr>),
        (''Extensions'', Dir 0 [(''e.js'', File \<lparr>st_size = 7, st_mtime = 0, stat_ok = True, unlink_ok = True\<rparr>)])]" None]
  by (simp add: sweep_spec_def classify_def browser_rules_def yandex_exclude_def yandex_cache_dirs_def stat_succeeds_def stat_mtime_def)

text \<open>
  C17: Refinement of the generic-folder sweep: on a well-formed disk, when every
  entry of the folder can be stat-ed, a real run of \<^verbatim>\<open>clean_system_folder\<close>
  leaves the folder as the classifier prescribes with the empty rule set (every
  direct entry deleted: files that may be unlinked, subtrees as far as
  \<^verbatim>\<open>rmtree\<close> gets).
\<close>

theorem clean_system_folder_refines_classifier:
  assumes "wf_node (disk w)" and "lookup (disk w) p = Some (Dir m cs)"
    and "list_all (\<lambda>(n, c). stat_succeeds c) cs"
  shows "disk (snd (clean_system_folder (Some p) False w))
       = update_at p (\<lambda>_. Some (Dir m (sweep_spec folder_rules cs))) (disk w)"
proof -
  have "apply_entries (remove_effect (\<lambda>_. True)) cs = sweep_spec folder_rules cs"
    unfolding sweep_spec_def
    by (rule apply_entries_cong) (insert assms(3), auto simp: list_all_iff folder_effect_classify)
  then show ?thesis using system_real_outcome [OF assms(1,2)] by simp
qed

theorem clean_system_folder_refines_classifier_witness:
  "disk (snd (clean_system_folder (Some [''tmp'']) False \<lparr>disk = Dir 0 [(''tmp'', Dir 0 [(''a.txt'', File \<lparr>st_size = 4, st_mtime = 0, stat_ok = True, unlink_ok = True\<rparr>),
        (''locked.txt'', File \<lparr>st_size = 9, st_mtime = 0, stat_ok = True, unlink_ok = False\<rparr>),
        (''d'', Dir 0 [(''x'', File \<lparr>st_size = 1, st_mtime = 0, stat_ok = True, unlink_ok = True\<rparr>)])])],
      journal = []\<rparr>))
   = Dir 0 [(''tmp'', Dir 0 [(''locked.txt'', File \<lparr>st_size = 9, st_mtime = 0, stat_ok = True, unlink_ok = False\<rparr>)])]"
  using clean_system_folder_refines_classifier [of "\<lparr>disk = Dir 0 [(''tmp'', Dir 0 [(''a.txt'', File \<lparr>st_size = 4, st_mtime = 0, stat_ok = True, unlink_ok = True\<rparr>),
        (''locked.txt'', File \<lparr>st_size = 9, st_mtime = 0, stat_ok = True, unlink_ok = False\<rparr>),
        (''d'', Dir 0 [(''x'', File \<lparr>st_size = 1, st_mtime = 0, stat_ok = True, unlink_ok = True\<rparr>)])])],
      journal = []\<rparr>" "[''tmp'']" 0
      "[(''a.txt'', File \<lparr>st_size = 4, st_mtime = 0, stat_ok = True, unlink_ok = True\<rparr>),
        (''locked.txt'', File \<lparr>st_size = 9, st_mtime = 0, stat_ok = True, unlink_ok = False\<rparr>),
        (''d'', Dir 0 [(''x'', File \<lparr>st_size = 1, st_mtime = 0, stat_ok = True, unlink_ok = True\<rparr>)])]"]
  by (simp add: sweep_spec_def classify_def folder_rules_def stat_succeeds_def stat_mtime_def)

theorem logs_item_refines_classifier_witness:
  "disk (logs_item False 100 [''Logs''] ''old.log''
     \<lparr>disk = Dir 0 [(''Logs'', Dir 0 [(''old.log'', File \<lparr>st_size = 3, st_mtime = 50, stat_ok = True, unlink_ok = True\<rparr>)])],
      journal = [], deleted = 0\<rparr>)
   = Dir 0 [(''Logs'', Dir 0 [])]"
  using logs_item_refines_classifier [of "\<lparr>disk = Dir 0 [(''Logs'', Dir 0 [(''old.log'', File \<lparr>st_size = 3, st_mtime = 50, stat_ok = True, unlink_ok = True\<rparr>)])],
      journal = [], deleted = 0\<rparr>" "[''Logs'']" "''old.log''"]
  by (simp add: classify_def logs_rules_def stat_succeeds_def stat_mtime_def)

end
