(* ===== verification/Test_Harness.thy ===== *)
theory Test_Harness
  imports Browser_Cache System_Folder Old_Logs Recycle_Bin
begin

text \<open>
  The repository's unit tests (\<^verbatim>\<open>src/tests.py\<close>) as definitions over the same
  disk model.  The file-system calls the tests make besides the cleaners are
  modelled after their CPython behaviour on Windows: \<^verbatim>\<open>os.mkdir\<close>
  (\<open>mkdir_at\<close>), \<^verbatim>\<open>os.makedirs\<close> without \<^verbatim>\<open>exist_ok\<close>
  (\<open>makedirs\<close>, creating the missing parents first), writing a text file with
  \<^verbatim>\<open>open(p, "w")\<close> (\<open>write_text\<close>; text mode writes a line feed as two
  bytes) and \<^verbatim>\<open>os.utime\<close> (\<open>utime_at\<close>).  \<^verbatim>\<open>tempfile.mkdtemp()\<close> makes a
  fresh directory in the temporary folder: its random name is an input.  A test
  method is run the way \<^verbatim>\<open>unittest\<close> runs it: \<^verbatim>\<open>setUp\<close>, the body, then
  \<^verbatim>\<open>tearDown\<close>; a failed assertion is \<open>Failed\<close> with the line of the
  assertion, an exception is \<open>Errored\<close>.  The readings of the clock are inputs.
\<close>

datatype test_result = Passed | Failed nat | Errored py_error

definition win_text_size :: "string \<Rightarrow> nat" where
  "win_text_size content = length content + length (filter (\<lambda>c. c = CHR 0x0A) content)"

definition mkdir_at :: "int \<Rightarrow> path \<Rightarrow> node \<Rightarrow> py_error + node" where
  "mkdir_at now p fs =
     (if p = [] then Inl (FileExistsError p)
      else case lookup fs (butlast p) of
        Some (Dir m cs) \<Rightarrow>
          (case map_of cs (last p) of
             None \<Rightarrow> Inr (update_at (butlast p) (\<lambda>_. Some (Dir m (cs @ [(last p, Dir now [])]))) fs)
           | Some c \<Rightarrow> Inl (FileExistsError p))
      | _ \<Rightarrow> Inl (FileNotFoundError p))"

text \<open>\<^verbatim>\<open>os.makedirs(name)\<close>, on the path written backwards so that the recursion on the head is structural.\<close>

fun makedirs_rev :: "int \<Rightarrow> name list \<Rightarrow> node \<Rightarrow> py_error + node" where
  "makedirs_rev now [] fs = Inl (FileExistsError [])"
| "makedirs_rev now (n # rq) fs =
     (let head = rev rq;
          fs1 = (if head \<noteq> [] \<and> \<not> exists fs head then
                   (case makedirs_rev now rq fs of
                      Inr fs' \<Rightarrow> Inr fs'
                    | Inl (FileExistsError q) \<Rightarrow> Inr fs
                    | Inl e \<Rightarrow> Inl e)
                 else Inr fs)
      in case fs1 of Inl e \<Rightarrow> Inl e | Inr fs2 \<Rightarrow> mkdir_at now (rev (n # rq)) fs2)"

definition makedirs :: "int \<Rightarrow> path \<Rightarrow> node \<Rightarrow> py_error + node" where
  "makedirs now p fs = makedirs_rev now (rev p) fs"

definition write_text :: "int \<Rightarrow> path \<Rightarrow> string \<Rightarrow> node \<Rightarrow> py_error + node" where
  "write_text now p content fs =
     (let f = File \<lparr>st_size = win_text_size content, st_mtime = now, stat_ok = True, unlink_ok = True\<rparr> in
      if p = [] then Inl (PermissionError p)
      else case lookup fs (butlast p) of
        Some (Dir m cs) \<Rightarrow>
          (case map_of cs (last p) of
             None \<Rightarrow> Inr (update_at (butlast p) (\<lambda>_. Some (Dir m (cs @ [(last p, f)]))) fs)
           | Some (File a) \<Rightarrow> Inr (update_at p (\<lambda>_. Some f) fs)
           | Some (Dir m' cs') \<Rightarrow> Inl (PermissionError p))
      | _ \<Rightarrow> Inl (FileNotFoundError p))"

fun set_mtime :: "int \<Rightarrow> node \<Rightarrow> node" where
  "set_mtime t (File a) = File (a\<lparr>st_mtime := t\<rparr>)"
| "set_mtime t (Dir m cs) = Dir t cs"

definition utime_at :: "path \<Rightarrow> int \<Rightarrow> node \<Rightarrow> py_error + node" where
  "utime_at p t fs =
     (if exists fs p then Inr (update_at p (\<lambda>c. Some (set_mtime t c)) fs) else Inl (FileNotFoundError p))"

text \<open>The fixture of \<^verbatim>\<open>TestCleanupScript\<close> (lines 10--18).\<close>

record fixture =
  test_dir :: path
  cache_dir :: path
  logs_dir :: path

definition fixture_of :: "path \<Rightarrow> fixture" where
  "fixture_of tmp =
     \<lparr>test_dir = tmp, cache_dir = tmp @ [''Yandex'', ''YandexBrowser'', ''User Data'', ''Default''],
      logs_dir = tmp @ [''Logs'']\<rparr>"

definition on_disk :: "(node \<Rightarrow> py_error + node) \<Rightarrow> world \<Rightarrow> py_error + world" where
  "on_disk op w = (case op (disk w) of Inl e \<Rightarrow> Inl e | Inr d \<Rightarrow> Inr (w\<lparr>disk := d\<rparr>))"

definition set_up :: "int \<Rightarrow> path \<Rightarrow> world \<Rightarrow> py_error + world" where
  "set_up now tmp w =
     (case on_disk (mkdir_at now tmp) w of
        Inl e \<Rightarrow> Inl e
      | Inr w1 \<Rightarrow>
          (case on_disk (makedirs now (cache_dir (fixture_of tmp))) w1 of
             Inl e \<Rightarrow> Inl e
           | Inr w2 \<Rightarrow> on_disk (makedirs now (logs_dir (fixture_of tmp))) w2))"

definition tear_down :: "path \<Rightarrow> world \<Rightarrow> world" where
  "tear_down tmp w = w\<lparr>disk := rmtree_at tmp (disk w)\<rparr>"

definition run_test :: "(path \<Rightarrow> world \<Rightarrow> test_result \<times> world) \<Rightarrow> int \<Rightarrow> path \<Rightarrow> world \<Rightarrow> test_result \<times> world" where
  "run_test body now tmp w =
     (case set_up now tmp w of
        Inl e \<Rightarrow> (Errored e, w)
      | Inr w1 \<Rightarrow> (let (r, w2) = body tmp w1 in (r, tear_down tmp w2)))"

text \<open>\<^verbatim>\<open>assertTrue\<close> / \<^verbatim>\<open>assertFalse\<close> at a source line, then the rest of the test.\<close>

definition check :: "bool \<Rightarrow> nat \<Rightarrow> world \<Rightarrow> (world \<Rightarrow> test_result \<times> world) \<Rightarrow> test_result \<times> world" where
  "check b line w k = (if b then k w else (Failed line, w))"

definition step :: "(py_error + world) \<Rightarrow> world \<Rightarrow> (world \<Rightarrow> test_result \<times> world) \<Rightarrow> test_result \<times> world" where
  "step r w k = (case r of Inl e \<Rightarrow> (Errored e, w) | Inr w' \<Rightarrow> k w')"

definition call_cleaner :: "('a outcome) \<Rightarrow> world \<Rightarrow> (world \<Rightarrow> test_result \<times> world) \<Rightarrow> test_result \<times> world" where
  "call_cleaner res w k = (case fst res of Inl e \<Rightarrow> (Errored e, snd res) | Inr v \<Rightarrow> k (snd res))"

definition test_yandex_browser_cache :: "int \<Rightarrow> path \<Rightarrow> world \<Rightarrow> test_result \<times> world" where
  "test_yandex_browser_cache now tmp w =
     (let fx = fixture_of tmp;
          cache_file = cache_dir fx @ [''cache.txt''];
          cookies_file = cache_dir fx @ [''Cookies'']
      in step (on_disk (write_text now cache_file ''test'') w) w (\<lambda>w.
         step (on_disk (write_text now cookies_file ''cookies'') w) w (\<lambda>w.
         call_cleaner (clean_yandex_browser_cache True (Some (cache_dir fx)) None w) w (\<lambda>w.
         check (exists (disk w) cookies_file) 29 w (\<lambda>w.
         call_cleaner (clean_yandex_browser_cache False (Some (cache_dir fx)) None w) w (\<lambda>w.
         check (exists (disk w) cookies_file) 31 w (\<lambda>w.
         check (\<not> exists (disk w) cache_file) 32 w (\<lambda>w. (Passed, w)))))))))"

definition test_system_folder :: "int \<Rightarrow> path \<Rightarrow> world \<Rightarrow> test_result \<times> world" where
  "test_system_folder now tmp w =
     (let test_file = test_dir (fixture_of tmp) @ [''test.txt'']
      in step (on_disk (write_text now test_file ''test'') w) w (\<lambda>w.
         call_cleaner (clean_system_folder (Some (test_dir (fixture_of tmp))) False w) w (\<lambda>w.
         check (\<not> exists (disk w) test_file) 40 w (\<lambda>w. (Passed, w)))))"

definition test_old_logs :: "int \<Rightarrow> int \<Rightarrow> int \<Rightarrow> path \<Rightarrow> world \<Rightarrow> test_result \<times> world" where
  "test_old_logs now now_utime now_clean tmp w =
     (let fx = fixture_of tmp;
          old_file = logs_dir fx @ [''old.log''];
          new_file = logs_dir fx @ [''new.log''];
          old_time = now_utime - 10 * 86400
      in step (on_disk (write_text now old_file ''old'') w) w (\<lambda>w.
         step (on_disk (write_text now new_file ''new'') w) w (\<lambda>w.
         step (on_disk (utime_at old_file old_time) w) w (\<lambda>w.
         call_cleaner (clean_old_logs (logs_dir fx) 7 False now_clean w) w (\<lambda>w.
         check (\<not> exists (disk w) old_file) 54 w (\<lambda>w.
         check (exists (disk w) new_file) 55 w (\<lambda>w. (Passed, w))))))))"

text \<open>The directory tree \<^verbatim>\<open>setUp\<close> creates, all at the clock reading \<open>t\<close>.\<close>

definition setup_tree :: "int \<Rightarrow> node" where
  "setup_tree t =
     Dir t [(''Yandex'', Dir t [(''YandexBrowser'', Dir t [(''User Data'', Dir t [(''Default'', Dir t [])])])]),
            (''Logs'', Dir t [])]"

text \<open>
  The tests work inside the fresh directory \<open>parent @ [name]\<close>.  Once it exists
  the disk is \<open>update_at parent (\<lambda>_. Some X) D\<close> for the original disk
  \<open>D\<close> and a new content \<open>X\<close> of the parent; every later lookup or change
  below the parent is one of \<open>X\<close>.
\<close>

lemma graft_lookup [simp]:
  "lookup D parent = Some n \<Longrightarrow> parent \<noteq> [] \<Longrightarrow>
   lookup (update_at parent (\<lambda>_. Some X) D) (parent @ r) = lookup X r"
  by (simp add: lookup_append lookup_update_at_same)

lemma graft_lookup_self [simp]:
  "lookup D parent = Some n \<Longrightarrow> parent \<noteq> [] \<Longrightarrow> lookup (update_at parent (\<lambda>_. Some X) D) parent = Some X"
  by (simp add: lookup_update_at_same)

lemma graft_update [simp]:
  "r \<noteq> [] \<Longrightarrow> update_at (parent @ r) f (update_at parent (\<lambda>_. Some X) D)
     = update_at parent (\<lambda>_. Some (update_at r f X)) D"
  using update_at_comp [of parent "update_at r f" "\<lambda>_. X" D] by (simp add: update_at_append)

lemma set_up_creates:
  assumes D: "lookup (disk w) parent = Some (Dir m cs)" and par: "parent \<noteq> []"
    and fresh: "map_of cs name = None"
  shows "set_up t (parent @ [name]) w
    = Inr (w\<lparr>disk := update_at parent (\<lambda>_. Some (Dir m (cs @ [(name, setup_tree t)]))) (disk w)\<rparr>)"
proof -
  have nm: "name \<notin> fst ` set cs" using fresh by (simp add: map_of_eq_None_iff)
  show ?thesis using D par fresh nm
    by (simp add: modify_entry_append_notin Let_def set_up_def on_disk_def mkdir_at_def fixture_of_def
        makedirs_def exists_def map_add_def butlast_append setup_tree_def)
qed

lemmas test_run_simps = set_up_creates run_test_def step_def call_cleaner_def check_def on_disk_def
  write_text_def fixture_of_def butlast_append map_add_def modify_entry_append_notin exists_def Let_def
  setup_tree_def remove_at_def rmtree_at_def tear_down_def update_at_lookup_id remove_item_def
  get_folder_size_def

lemma fresh_name: "map_of cs name = None \<Longrightarrow> name \<notin> fst ` set cs"
  by (simp add: map_of_eq_None_iff)

definition base_world :: world where
  "base_world = \<lparr>disk = Dir 0 [(''C:'', Dir 0 [(''Temp'', Dir 0 [])])], journal = []\<rparr>"

text \<open>
  C22: \<^verbatim>\<open>test_yandex_browser_cache\<close> passes when its temporary directory is a
  fresh name in an existing directory of any disk, and \<^verbatim>\<open>tearDown\<close> leaves the disk
  exactly as it was before \<^verbatim>\<open>setUp\<close>.
\<close>

theorem test_yandex_browser_cache_passes:
  assumes "lookup (disk w) parent = Some (Dir m cs)" and "parent \<noteq> []" and "map_of cs name = None"
  shows "fst (run_test (test_yandex_browser_cache now) now (parent @ [name]) w) = Passed \<and>
         disk (snd (run_test (test_yandex_browser_cache now) now (parent @ [name]) w)) = disk w"
  using assms fresh_name [OF assms(3)]
  by (simp add: test_run_simps test_yandex_browser_cache_def clean_yandex_browser_cache_def
      yandex_item_def glob_star_def yandex_exclude_def yandex_cache_dirs_def win_text_size_def)

theorem test_yandex_browser_cache_passes_witness:
  "lookup (disk base_world) [''C:'', ''Temp''] = Some (Dir 0 []) \<and> [''C:'', ''Temp''] \<noteq> [] \<and>
   map_of [] ''tmp1'' = (None :: node option) \<and>
   fst (run_test (test_yandex_browser_cache 5) 5 [''C:'', ''Temp'', ''tmp1''] base_world) = Passed \<and>
   disk (snd (run_test (test_yandex_browser_cache 5) 5 [''C:'', ''Temp'', ''tmp1''] base_world)) =
   disk base_world"
  using test_yandex_browser_cache_passes [where w = base_world and parent = "[''C:'', ''Temp'']"
      and m = 0 and cs = "[]" and name = "''tmp1''" and now = 5]
  by (simp add: base_world_def)

text \<open>
  C23: \<^verbatim>\<open>test_system_folder\<close> passes on any disk with a fresh temporary directory,
  and the disk is restored after \<^verbatim>\<open>tearDown\<close>.
\<close>

theorem test_system_folder_passes:
  assumes "lookup (disk w) parent = Some (Dir m cs)" and "parent \<noteq> []" and "map_of cs name = None"
  shows "fst (run_test (test_system_folder now) now (parent @ [name]) w) = Passed \<and>
         disk (snd (run_test (test_system_folder now) now (parent @ [name]) w)) = disk w"
  using assms fresh_name [OF assms(3)]
  by (simp add: test_run_simps test_system_folder_def clean_system_folder_def system_item_def glob_star_def)

theorem test_system_folder_passes_witness:
  "lookup (disk base_world) [''C:'', ''Temp''] = Some (Dir 0 []) \<and> [''C:'', ''Temp''] \<noteq> [] \<and>
   map_of [] ''tmp1'' = (None :: node option) \<and>
   fst (run_test (test_system_folder 5) 5 [''C:'', ''Temp'', ''tmp1''] base_world) = Passed \<and>
   disk (snd (run_test (test_system_folder 5) 5 [''C:'', ''Temp'', ''tmp1''] base_world)) = disk base_world"
  using test_system_folder_passes [where w = base_world and parent = "[''C:'', ''Temp'']"
      and m = 0 and cs = "[]" and name = "''tmp1''" and now = 5]
  by (simp add: base_world_def)

text \<open>
  C24: \<^verbatim>\<open>test_old_logs\<close> passes whenever the clock does not run backwards between
  \<^verbatim>\<open>os.utime\<close> and \<^verbatim>\<open>clean_old_logs\<close> and the test runs within seven days of
  \<^verbatim>\<open>setUp\<close> writing \<^verbatim>\<open>new.log\<close>; the disk is restored after \<^verbatim>\<open>tearDown\<close>.
\<close>

theorem test_old_logs_passes:
  assumes "lookup (disk w) parent = Some (Dir m cs)" and "parent \<noteq> []" and "map_of cs name = None"
    and "now_utime \<le> now_clean" and "now_clean - now < 7 * 86400"
  shows "fst (run_test (test_old_logs now now_utime now_clean) now (parent @ [name]) w) = Passed \<and>
         disk (snd (run_test (test_old_logs now now_utime now_clean) now (parent @ [name]) w)) = disk w"
  using assms fresh_name [OF assms(3)]
  by (simp add: test_run_simps test_old_logs_def clean_old_logs_def logs_walk.simps logs_item_def
      stat_mtime_def utime_at_def subdir_names_def win_text_size_def)

theorem test_old_logs_passes_witness:
  "lookup (disk base_world) [''C:'', ''Temp''] = Some (Dir 0 []) \<and> [''C:'', ''Temp''] \<noteq> [] \<and>
   map_of [] ''tmp1'' = (None :: node option) \<and> (6 :: int) \<le> 7 \<and> (7 :: int) - 5 < 7 * 86400 \<and>
   fst (run_test (test_old_logs 5 6 7) 5 [''C:'', ''Temp'', ''tmp1''] base_world) = Passed \<and>
   disk (snd (run_test (test_old_logs 5 6 7) 5 [''C:'', ''Temp'', ''tmp1''] base_world)) = disk base_world"
  using test_old_logs_passes [where w = base_world and parent = "[''C:'', ''Temp'']"
      and m = 0 and cs = "[]" and name = "''tmp1''" and now = 5 and now_utime = 6 and now_clean = 7]
  by (simp add: base_world_def)

end
