(* ===== verification/Spec2Isabelle.thy ===== *)
theory Spec2Isabelle
  imports Logging Old_Logs_Termination Classifier Test_Harness
begin

text \<open>
  \<^bold>\<open>A verified model of the disk cleaner \<^verbatim>\<open>src/cleanup.py\<close>.\<close>

  \<^bold>\<open>The program.\<close>  \<^verbatim>\<open>main()\<close> sweeps six targets in a fixed order: the
  Yandex browser profile (\<^verbatim>\<open>clean_yandex_browser_cache\<close>), the folders
  \<^verbatim>\<open>TEMP\<close>, \<^verbatim>\<open>C:\Windows\Temp\<close> and
  \<^verbatim>\<open>C:\Windows\SoftwareDistribution\Download\<close> (\<^verbatim>\<open>clean_system_folder\<close>),
  \<^verbatim>\<open>C:\Windows\Logs\<close> with a 7-day cutoff (\<^verbatim>\<open>clean_old_logs\<close>) and the
  recycle bin (\<^verbatim>\<open>clean_recycle_bin\<close>).  Each cleaner measures its target
  with \<^verbatim>\<open>get_folder_size\<close>, loops over the entries of the target catching
  every per-entry exception, and returns the bytes it counted; \<^verbatim>\<open>main\<close> wraps
  each call in \<^verbatim>\<open>try/except\<close>, sums the results, collects \<^verbatim>\<open>str(e)\<close> of
  the exceptions that escape, and finally sends a Telegram message.

  \<^bold>\<open>Theories, bottom up.\<close>
  \<^item> \<open>Prelude\<close>: the type names \<open>name\<close> and \<open>path\<close>, the rule collections
    \<open>disk_simps\<close> and \<open>sweep_simps\<close>, the fold induction lemmas every loop
    proof uses, and Python's truth value of an optional string.
  \<^item> \<open>Filesystem\<close>: the disk as a tree \<open>node\<close> (a file carries its size,
    mtime, whether \<^verbatim>\<open>stat\<close> succeeds and whether \<^verbatim>\<open>unlink\<close> is allowed;
    a directory its mtime and its entries in listing order).  \<open>lookup\<close>,
    \<open>exists\<close>, \<open>glob_star\<close> model \<^verbatim>\<open>os.path\<close> and \<^verbatim>\<open>Path.glob("*")\<close>;
    \<open>remove_at\<close> is \<^verbatim>\<open>unlink\<close>, \<open>rmtree_at\<close> is
    \<^verbatim>\<open>shutil.rmtree(ignore_errors=True)\<close> (locked files stay, a directory
    goes when it is empty).  Every change of the disk is an \<open>update_at\<close>; the
    lemmas give lookup after update (same, parallel, above, below), the
    well-formedness invariant \<open>wf_node\<close> (distinct names per directory) and the
    height bound the walk's termination uses.
  \<^item> \<open>Effects\<close>: exceptions (\<open>py_error\<close>), one log event per
    \<^verbatim>\<open>logger\<close> call, the \<open>world\<close> (disk and journal), the loop state
    \<open>sweep\<close> (world plus \<^verbatim>\<open>deleted_size\<close>), and \<open>'a outcome\<close>, the
    value or exception of a cleaner with the world it leaves.
  \<^item> \<open>Folder_Size\<close>: \<^verbatim>\<open>get_folder_size\<close> as the \<^verbatim>\<open>os.walk\<close>
    order of files and an accumulator that stops at the first unreadable file,
    compared with the specification's measure \<open>measure_spec\<close>.
  \<^item> \<open>Sweep\<close>: the removal branch shared by the cleaners (\<open>remove_item\<close>,
    lines 96--106 and their copies), and the loop lemma \<open>fold_items\<close>: a fold
    whose step changes only the entry it is given computes the folder with each
    entry replaced by its effect, the sum of the gains and the concatenated events.
  \<^item> \<open>System_Folder\<close>, \<open>Browser_Cache\<close>, \<open>Old_Logs\<close>,
    \<open>Recycle_Bin\<close>: one theory per cleaner, each the whole function with its
    loop body (\<open>system_item\<close>, \<open>yandex_item\<close>, \<open>logs_item\<close>).
  \<^item> \<open>Notification\<close>: the message text of lines 214--216 (\<open>format_mb\<close> is
    \<^verbatim>\<open>:.2f\<close> of n / 2^20 with round-half-even, exact while the byte count
    is below 2^53, the range where the float division of the source is exact),
    with reader functions that parse the printed number back.
  \<^item> \<open>Orchestrator\<close>: \<^verbatim>\<open>main\<close> as a fold of \<open>run_target\<close> over
    \<open>main_targets\<close>, \<open>send_telegram_message\<close> (lines 24--31) and the
    send decision \<open>notify\<close>.
  \<^item> \<open>Logging\<close>: the text of every \<^verbatim>\<open>logger\<close> call (\<open>log_message\<close>,
    the f-strings with their interpolated paths, exceptions and amounts) and the
    record format of \<^verbatim>\<open>logging.basicConfig\<close> (\<open>log_record\<close>,
    \<open>log_text\<close>), with the run-level facts about what the log says.
  \<^item> \<open>Old_Logs_Spec\<close>, \<open>Old_Logs_Termination\<close>: the aged-logs cleaner
    against reference definitions (fresh paths, the structural recursive listing
    \<open>rglob_node\<close>) and a bound on the number of directory listings
    (\<open>logs_walk_fuel\<close>, the same loop with a counter).
  \<^item> \<open>Classifier\<close>: the specification's Entry Classifier (spec 4.2) as
    \<open>classify\<close> and \<open>execute\<close>, with the rule sets of the three kinds of
    target, and refinement theorems for the loop bodies.
  \<^item> \<open>Test_Harness\<close>: \<^verbatim>\<open>src/tests.py\<close>.  The file-system calls the
    tests make (\<open>mkdir_at\<close> for \<^verbatim>\<open>tempfile.mkdtemp\<close>'s
    \<^verbatim>\<open>os.mkdir\<close>, \<open>makedirs\<close> for \<^verbatim>\<open>os.makedirs\<close> with CPython's
    recursion on the head, \<open>write_text\<close> for \<^verbatim>\<open>open(..., 'w')\<close> with
    Windows newline translation, \<open>utime_at\<close> for \<^verbatim>\<open>os.utime\<close>), the
    fixture \<^verbatim>\<open>setUp\<close>/\<^verbatim>\<open>tearDown\<close> and the three test methods as
    sequences of steps and assertions over the same world as the cleaners
    (\<open>run_test\<close> runs setUp, the body and tearDown as unittest does).
  \<^item> This theory: properties of a whole run that span the components.

  \<^bold>\<open>What is proved.\<close>  Dry runs change no file (C1); the browser sweep
  never touches the cookie files or a profile directory outside the allow-list
  (C2, C3); the full functional behaviour of the real folder and browser sweeps
  (C4, C5, C12) and of the recycle bin (C10); the exact exceptions \<^verbatim>\<open>main\<close>
  collects (C6), that the log cleaner never raises (C7), the per-entry error
  records (C8), bounds on \<^verbatim>\<open>get_folder_size\<close> (C9) and the notification
  decision (C11).  Logs newer than the cutoff under fresh directories survive
  (C13); a dry run of the log cleaner lists exactly the structural recursive
  listing (C14, equivalence of the worklist walk with the recursion); the printed
  amount reads back within half a hundredth of a megabyte (C15); the browser,
  folder and log loop bodies refine the specification's classifier (C16--C18),
  while the browser dry run reports every non-cookie entry, directories the
  classifier keeps included (C19); the recursive glob lists each directory at
  most once (C20); every target of \<^verbatim>\<open>main\<close> is attempted (C21).  The three
  unit tests of the repository pass on every disk, for any existing parent
  directory and fresh temporary name, and \<^verbatim>\<open>tearDown\<close> restores the disk
  exactly (C22--C24; the log test needs the clock not to run backwards and the
  test to finish within the 7-day window).  The last log record of a run states
  the same freed amount as the Telegram message, which begins with it (C25); the
  log of a dry run reports no removal and only zero amounts (C26); the errors the
  message lists are exactly those of the log's failed-target records, in order
  (C27).  Besides the claims, each of the theories of the cleaners ends with
  lemmas on small concrete disks that exhibit the places where the code and the
  specification part (over-counting after a partial \<^verbatim>\<open>rmtree\<close>, deleted
  Bookmarks, the inclusive cutoff, whole old directories, the early stop of
  \<^verbatim>\<open>get_folder_size\<close>, a negative recycle-bin count); the findings of the
  development cite them.

  \<^bold>\<open>Loops and termination.\<close>  The program model uses no fuel.  The cleaners' loops are
  folds over the listing.  \<^verbatim>\<open>rglob("*")\<close> of \<^verbatim>\<open>clean_old_logs\<close>
  follows the lazy generator of CPython 3.8--3.11 (list a directory, yield its
  entries, re-list it and descend into the subdirectories still there); it is the
  \<open>function\<close> \<open>logs_walk\<close> with a termination proof by the lexicographic
  order of the disk's height and the multiset of the remaining depths.  The
  counted copy \<open>logs_walk_fuel\<close> exists only to state the bound of C20: the
  number of directories under the worklist is always enough listings.

  \<^bold>\<open>Not modelled.\<close>  \<^verbatim>\<open>load_dotenv\<close> and \<^verbatim>\<open>argparse\<close> (the
  environment and \<^verbatim>\<open>--dry-run\<close> are inputs), the time stamps of the
  log records and the log file's character encoding, the Telegram transport and
  \<^verbatim>\<open>asyncio\<close> (the delivery outcome is an input), the
  \<^verbatim>\<open>except\<close> branch of \<^verbatim>\<open>clean_recycle_bin\<close> (nothing the modelled
  calls do raises there; \<^verbatim>\<open>subprocess.run\<close> failing to start the shell is
  not modelled), the exit status of \<^verbatim>\<open>rd\<close> (ignored by the code), concurrent
  changes of the disk by other processes, symbolic links other than as a file
  whose \<^verbatim>\<open>stat\<close> fails, the random name \<^verbatim>\<open>mkdtemp\<close> draws (the
  theorems of the tests hold for every fresh name) and \<^verbatim>\<open>unittest\<close>'s
  discovery and reporting.
\<close>

section \<open>Properties of a whole run\<close>

text \<open>
  Which log record shows that \<^verbatim>\<open>main\<close> attempted a target: the start record
  its cleaner writes first, or the record of the exception that escaped it (the
  browser cleaner raises before its first log call when \<^verbatim>\<open>LOCALAPPDATA\<close> is
  unset).  The journal of every cleaner only grows, so such a record is never lost.
\<close>

fun attempted :: "target_kind \<Rightarrow> log_event \<Rightarrow> bool" where
  "attempted YandexCache (CacheStart p) = True"
| "attempted (SystemFolder f) (FolderStart f') = (f = f')"
| "attempted (OldLogs p days) (LogsStart p') = (p = p')"
| "attempted RecycleBin RecycleStart = True"
| "attempted t (TargetFailed t' e) = (t = t')"
| "attempted t e = False"

lemma fold_journal_prefix:
  "(\<And>x s. prefix (journal s) (journal (f x s))) \<Longrightarrow> prefix (journal s) (journal (fold f xs s))"
  by (rule fold_transitive [where R = "\<lambda>s s'. prefix (journal s) (journal s')"]) (auto intro: prefix_order.trans)

lemma remove_item_journal_prefix: "prefix (journal s) (journal (remove_item ok root n s))"
  by (auto simp: remove_item_def Let_def split: option.splits node.splits)

lemma item_journal_prefix:
  "prefix (journal s) (journal (system_item dry_run root n s))"
  "prefix (journal s) (journal (yandex_item dry_run root n s))"
  "prefix (journal s) (journal (logs_item dry_run t root n s))"
  by (auto simp: system_item_def yandex_item_def logs_item_def Let_def remove_item_journal_prefix
      split: option.splits)

lemma logs_walk_journal_prefix: "prefix (journal s) (journal (snd (logs_walk dry_run t ds s)))"
  by (rule logs_walk_rel [where R = "\<lambda>_ _ s s'. prefix (journal s) (journal s')"])
     (auto intro: prefix_order.trans fold_journal_prefix item_journal_prefix)

lemma sweep_journal_prefix:
  "prefix (journal s) (journal (fold (system_item dry_run p) ns s))"
  "prefix (journal s) (journal (fold (yandex_item dry_run p) ns s))"
  by (rule fold_journal_prefix, rule item_journal_prefix)+

lemma clean_target_journal:
  "(\<exists>e. attempted t e \<and> prefix (journal w @ [e]) (journal (snd (clean_target cfg dry_run t w))))
   \<or> (\<exists>x. fst (clean_target cfg dry_run t w) = Inl x \<and> journal (snd (clean_target cfg dry_run t w)) = journal w)"
proof (cases t)
  case YandexCache
  show ?thesis
  proof (cases "env_localappdata cfg")
    case (Some b)
    have "prefix (journal w @ [CacheStart (b @ yandex_profile)])
        (journal (snd (clean_yandex_browser_cache dry_run None (env_localappdata cfg) w)))"
      using Some sweep_journal_prefix(2) [of "start_sweep (emit (CacheStart (b @ yandex_profile)) w)"]
      by (auto simp: clean_yandex_browser_cache_def Let_def)
    then show ?thesis using YandexCache by auto
  qed (simp add: YandexCache clean_yandex_browser_cache_def)
next
  case (SystemFolder f)
  have "prefix (journal w @ [FolderStart f]) (journal (snd (clean_system_folder f dry_run w)))"
    using sweep_journal_prefix(1) [of "start_sweep (emit (FolderStart f) w)"]
    by (auto simp: clean_system_folder_def Let_def split: option.splits)
  then show ?thesis using SystemFolder by auto
next
  case (OldLogs p days)
  have "prefix (journal w @ [LogsStart p]) (journal (snd (clean_old_logs p days dry_run (clock cfg) w)))"
    using logs_walk_journal_prefix [of "start_sweep (emit (LogsStart p) w)"]
    by (auto simp: clean_old_logs_def Let_def split: option.splits)
  then show ?thesis using OldLogs by auto
next
  case RecycleBin
  have "\<And>d. prefix (journal w @ [RecycleStart]) (journal (snd (clean_recycle_bin d w)))"
    by (simp add: clean_recycle_bin_def Let_def emit_def)
  then show ?thesis using RecycleBin by (intro disjI1 exI [of _ RecycleStart]) simp
qed

lemma run_target_journal:
  "journal (run_target cfg dry_run t r)
   = journal (snd (clean_target cfg dry_run t \<lparr>disk = disk r, journal = journal r\<rparr>))
     @ (case fst (clean_target cfg dry_run t \<lparr>disk = disk r, journal = journal r\<rparr>) of
          Inl e \<Rightarrow> [TargetFailed t e] | Inr n \<Rightarrow> [])"
  by (simp add: run_target_def Let_def split: sum.split)

lemma run_target_attempt:
  "prefix (journal r) (journal (run_target cfg dry_run t r))
   \<and> (\<exists>e \<in> set (journal (run_target cfg dry_run t r)). attempted t e)"
proof -
  let ?res = "clean_target cfg dry_run t \<lparr>disk = disk r, journal = journal r\<rparr>"
  consider e where "attempted t e" and "prefix (journal r @ [e]) (journal (snd ?res))"
    | x where "fst ?res = Inl x" and "journal (snd ?res) = journal r"
    using clean_target_journal [where t = t and cfg = cfg and dry_run = dry_run
        and w = "\<lparr>disk = disk r, journal = journal r\<rparr>"] by auto
  then show ?thesis
  proof cases
    case 1
    then have "prefix (journal r) (journal (snd ?res))" and "e \<in> set (journal (snd ?res))"
      using prefix_order.trans [of "journal r" "journal r @ [e]"] set_mono_prefix [OF 1(2)] by auto
    then show ?thesis using 1(1) by (auto simp: run_target_journal split: sum.split)
  next
    case 2
    then show ?thesis by (simp add: run_target_journal)
  qed
qed

lemma fold_run_targets_attempt:
  "\<forall>t \<in> set ts. \<exists>e \<in> set (journal (fold (run_target cfg dry_run) ts r)). attempted t e"
proof (induction ts arbitrary: r)
  case (Cons t ts)
  have "prefix (journal (run_target cfg dry_run t r)) (journal (fold (run_target cfg dry_run) ts (run_target cfg dry_run t r)))"
    by (rule fold_journal_prefix) (rule run_target_attempt [THEN conjunct1])
  then show ?case
    using Cons.IH [of "run_target cfg dry_run t r"] run_target_attempt [of r cfg dry_run t]
    by (auto dest: set_mono_prefix)
qed simp

lemma notify_journal_prefix: "prefix (journal r) (journal (notify cfg dry_run msg r))"
  by (auto simp: notify_def send_telegram_message_def split: option.splits)

text \<open>
  C21: Every configured target is attempted: whatever the environment, the disk
  and the earlier targets do, the log of a run of \<^verbatim>\<open>main\<close> holds, for each of
  the six targets, the record of its cleaner starting or of its exception.
\<close>

theorem main_attempts_every_target:
  "\<forall>t \<in> set (main_targets cfg). \<exists>e \<in> set (journal (main cfg dry_run w)). attempted t e"
proof -
  let ?r0 = "\<lparr>disk = disk w, journal = journal w @ [ScriptStart], total_deleted = 0, errors = [], sent = []\<rparr>"
  let ?r1 = "fold (run_target cfg dry_run) (main_targets cfg) ?r0"
  have "prefix (journal ?r1) (journal (main cfg dry_run w))"
    using notify_journal_prefix [of ?r1 cfg dry_run]
    by (auto simp: main_def Let_def intro: prefix_order.trans)
  then have "set (journal ?r1) \<subseteq> set (journal (main cfg dry_run w))" by (rule set_mono_prefix)
  then show ?thesis
    using fold_run_targets_attempt [of "main_targets cfg" cfg dry_run ?r0] by blast
qed

theorem main_attempts_every_target_witness:
  "\<exists>e \<in> set (journal (main \<lparr>env_temp = None, env_localappdata = None, env_token = None,
      env_chat_id = None, clock = 0, telegram_error = Some ''timed out''\<rparr> False \<lparr>disk = Dir 0 [], journal = []\<rparr>)).
     attempted RecycleBin e"
  using main_attempts_every_target [where cfg = "\<lparr>env_temp = None, env_localappdata = None, env_token = None,
      env_chat_id = None, clock = 0, telegram_error = Some ''timed out''\<rparr>" and dry_run = False and w = "\<lparr>disk = Dir 0 [], journal = []\<rparr>"]
  by (simp add: main_targets_def)

end
